theory Spec2Isabelle
  imports Complex_Main "HOL-Library.Word"
begin

section \<open>Machine types\<close>

text \<open>
  The module \<^verbatim>\<open>src/kernel/ai_extensions/ai_security.c\<close> works on \<^verbatim>\<open>u32\<close> scores,
  \<^verbatim>\<open>u64\<close> counters and identifiers, \<^verbatim>\<open>pid_t\<close> process ids (a signed 32-bit value, read
  with \<open>sint\<close>), \<^verbatim>\<open>ktime_t\<close> time stamps (signed nanoseconds, kept as \<open>int\<close>: no
  property below depends on their overflow) and three \<^verbatim>\<open>float\<close> scores per profile.
\<close>

type_synonym u32 = "32 word"
type_synonym u64 = "64 word"
type_synonym pid_t = "32 word"
type_synonym ktime_t = int

subsection \<open>Single-precision floats\<close>

text \<open>
  A finite \<^verbatim>\<open>float\<close> is the rational number it denotes. Every operation computes the
  exact result and rounds it to the binary32 grid: 24 significant bits, round to nearest,
  ties to even, exponents from \<open>-126\<close> (below that the grid is the subnormal one, of
  step \<open>2 ^ -149\<close>). \<open>find_exp n q\<close> looks for the largest exponent \<open>e\<close> in
  \<open>-126 .. n - 126\<close> with \<open>2 ^ e \<le> q\<close>. Infinities and NaN are not modelled: the
  scores of a profile stay between 0 and 1 (lemma \<open>reachable_scores_well_formed\<close>),
  and the largest number the module computes with is 1000.
\<close>

type_synonym f32 = rat

definition pow2 :: "int \<Rightarrow> rat" where
  "pow2 e = (if 0 \<le> e then 2 ^ nat e else 1 / 2 ^ nat (- e))"

primrec find_exp :: "nat \<Rightarrow> rat \<Rightarrow> int" where
  "find_exp 0 q = - 126"
| "find_exp (Suc n) q =
     (if pow2 (int (Suc n) - 126) \<le> q then int (Suc n) - 126 else find_exp n q)"

definition f32_exp :: "rat \<Rightarrow> int" where
  "f32_exp q = find_exp 253 \<bar>q\<bar>"

definition rne :: "rat \<Rightarrow> int" where
  "rne y = (let n = \<lfloor>y\<rfloor>; r = y - of_int n in
     if r < 1 / 2 then n else if 1 / 2 < r then n + 1
     else if even n then n else n + 1)"

definition round_f32 :: "rat \<Rightarrow> f32" where
  "round_f32 q = (let u = pow2 (f32_exp q - 23) in of_int (rne (q / u)) * u)"

text \<open>The rationals that are floats: rounding leaves them as they are.\<close>

definition is_f32 :: "rat \<Rightarrow> bool" where
  "is_f32 q = (round_f32 q = q)"

text \<open>A decimal literal with the suffix \<^verbatim>\<open>f\<close> is the nearest float.\<close>

definition f32_lit :: "rat \<Rightarrow> f32" where
  "f32_lit q = round_f32 q"

definition fadd :: "f32 \<Rightarrow> f32 \<Rightarrow> f32" where
  "fadd x y = round_f32 (x + y)"

definition fsub :: "f32 \<Rightarrow> f32 \<Rightarrow> f32" where
  "fsub x y = round_f32 (x - y)"

definition fmul :: "f32 \<Rightarrow> f32 \<Rightarrow> f32" where
  "fmul x y = round_f32 (x * y)"

definition fdiv :: "f32 \<Rightarrow> f32 \<Rightarrow> f32" where
  "fdiv x y = round_f32 (x / y)"

text \<open>The implicit conversion of a \<^verbatim>\<open>u32\<close> operand in a \<^verbatim>\<open>float\<close> expression.\<close>

definition u32_to_f32 :: "u32 \<Rightarrow> f32" where
  "u32_to_f32 w = round_f32 (of_nat (unat w))"

text \<open>
  The cast \<^verbatim>\<open>(u32)x\<close> discards the fractional part (towards zero). C leaves the cast
  undefined when the truncated value does not fit; the model wraps it there, and every
  statement about a cast below is made for a value between 0 and \<open>2 ^ 32\<close>.
\<close>

definition f32_to_u32 :: "f32 \<Rightarrow> u32" where
  "f32_to_u32 x = word_of_int (if 0 \<le> x then \<lfloor>x\<rfloor> else \<lceil>x\<rceil>)"

section \<open>Data model (\<^verbatim>\<open>ai_security.h\<close>)\<close>

datatype ai_security_event_type =
    AI_SECURITY_EVENT_FILE_ACCESS
  | AI_SECURITY_EVENT_NETWORK_CONNECT
  | AI_SECURITY_EVENT_PROCESS_EXEC
  | AI_SECURITY_EVENT_PRIVILEGE_ESCALATION
  | AI_SECURITY_EVENT_MEMORY_PROTECTION
  | AI_SECURITY_EVENT_SYSTEM_CALL
  | AI_SECURITY_EVENT_SUSPICIOUS_PATTERN

datatype ai_security_threat_level =
    AI_SECURITY_THREAT_NONE
  | AI_SECURITY_THREAT_LOW
  | AI_SECURITY_THREAT_MEDIUM
  | AI_SECURITY_THREAT_HIGH
  | AI_SECURITY_THREAT_CRITICAL

text \<open>The numeric value of the enumerator, which the C code compares and maximises.\<close>

fun threat_level_val :: "ai_security_threat_level \<Rightarrow> nat" where
  "threat_level_val AI_SECURITY_THREAT_NONE = 0"
| "threat_level_val AI_SECURITY_THREAT_LOW = 1"
| "threat_level_val AI_SECURITY_THREAT_MEDIUM = 2"
| "threat_level_val AI_SECURITY_THREAT_HIGH = 3"
| "threat_level_val AI_SECURITY_THREAT_CRITICAL = 4"

datatype ai_security_action =
    AI_SECURITY_ACTION_ALLOW
  | AI_SECURITY_ACTION_WARN
  | AI_SECURITY_ACTION_BLOCK
  | AI_SECURITY_ACTION_QUARANTINE
  | AI_SECURITY_ACTION_TERMINATE
  | AI_SECURITY_ACTION_ALERT

text \<open>
  \<^verbatim>\<open>struct ai_security_event\<close>. The pointer fields that no function of the module ever
  sets (\<^verbatim>\<open>executable_path\<close>, \<^verbatim>\<open>explanation\<close>, \<^verbatim>\<open>related_processes\<close>) and the list
  linkage are left out; a \<^verbatim>\<open>char *\<close> that may be \<^verbatim>\<open>NULL\<close> is a \<open>string option\<close>.
\<close>

record ai_security_event =
  event_id :: u64
  ev_type :: ai_security_event_type
  timestamp :: ktime_t
  ev_pid :: pid_t
  ppid :: pid_t
  uid :: u32
  gid :: u32
  ev_comm :: string
  description :: "string option"
  event_data :: "string option"
  data_size :: nat
  threat_level :: ai_security_threat_level
  ev_threat_score :: u32
  recommended_action :: ai_security_action
  confidence :: u32
  false_positive_flag :: bool
  escalated :: bool

text \<open>
  \<^verbatim>\<open>struct ai_security_profile\<close>. The resource-usage aggregates, the path and endpoint
  tables, the hour histogram and the ring of recent events are zeroed by \<^verbatim>\<open>kzalloc\<close>
  and never written afterwards; they are left out.
\<close>

record ai_security_profile =
  pr_pid :: pid_t
  pr_comm :: string
  executable_path :: "string option"
  executable_hash :: u32
  file_access_count :: u64
  network_connection_count :: u64
  system_call_count :: u64
  privilege_escalation_count :: u64
  last_activity :: ktime_t
  creation_time :: ktime_t
  anomaly_count :: u32
  pr_threat_score :: u32
  current_threat :: ai_security_threat_level
  false_positive_count :: u32
  behavior_score :: f32
  risk_score :: f32
  trust_score :: f32
  event_count :: u32
  under_observation :: bool
  quarantined :: bool
  terminated :: bool

text \<open>
  \<^verbatim>\<open>struct ai_security_manager\<close>: the list of profiles (appended at the tail), the list
  of recent events (appended at the tail), the statistics and the two time stamps of the
  learning pass. These five counters are all the statistics the manager has.
\<close>

record ai_security_manager =
  process_profiles :: "ai_security_profile list"
  recent_events :: "ai_security_event list"
  total_events_processed :: u64
  threats_detected :: u64
  false_positives :: u64
  threats_blocked :: u64
  processes_monitored :: u64
  threat_intel_last_update :: ktime_t
  last_learning_update :: ktime_t

text \<open>
  The globals of the module: the pointer \<^verbatim>\<open>ai_sec_mgr\<close> (\<open>None\<close> is \<^verbatim>\<open>NULL\<close>), the
  event id counter and the module parameters that change what is computed.
\<close>

record kernel_state =
  ai_sec_mgr :: "ai_security_manager option"
  event_id_counter :: u64
  ai_security_threat_threshold :: u32
  ai_security_auto_response :: bool
  ai_security_learning_enabled :: bool

text \<open>
  What a hook reads from \<^verbatim>\<open>current\<close>; \<open>exe_path\<close> is the result of
  \<^verbatim>\<open>ai_security_get_executable_path\<close> for the task (\<open>None\<close> is \<^verbatim>\<open>NULL\<close>).
\<close>

record task_struct =
  task_pid :: pid_t
  task_comm :: string
  real_parent_pid :: pid_t
  cred_uid :: u32
  cred_gid :: u32
  exe_path :: "string option"

text \<open>\<^verbatim>\<open>struct file\<close>: the name of the dentry, when there is one.\<close>

record struct_file =
  d_name :: "string option"

text \<open>
  What the kernel answers during one call: the clock, whether each allocation succeeds,
  and the string hash \<^verbatim>\<open>full_name_hash\<close>.
\<close>

record env =
  ktime_get :: ktime_t
  kzalloc_profile_ok :: bool
  kzalloc_event_ok :: bool
  kmalloc_description_ok :: bool
  strdup_ok :: bool
  full_name_hash :: "string \<Rightarrow> u32"

text \<open>
  \<open>EINVAL\<close>, \<open>ENOMEM\<close>, \<open>EACCES\<close> and \<open>EPERM\<close> are the negated error numbers a function
  returns; \<open>NULL_DEREF\<close> is the dereference of a \<^verbatim>\<open>NULL\<close> pointer, where the kernel
  stops the task. A hook returns \<open>None\<close> for the value 0.
\<close>

datatype error = EINVAL | ENOMEM | EACCES | EPERM | NULL_DEREF

section \<open>Utility functions\<close>

text \<open>\<^verbatim>\<open>strstr(hay, needle) != NULL\<close>.\<close>

fun strstr :: "string \<Rightarrow> string \<Rightarrow> bool" where
  "strstr [] needle = (needle = [])"
| "strstr (c # cs) needle =
     (take (length needle) (c # cs) = needle \<or> strstr cs needle)"

definition ai_security_is_system_process :: "pid_t \<Rightarrow> bool" where
  "ai_security_is_system_process pid = (sint pid < 2 \<or> pid = 1)"

definition ktime_to_ms :: "ktime_t \<Rightarrow> int" where
  "ktime_to_ms t = (if 0 \<le> t then t div 1000000 else - ((- t) div 1000000))"

section \<open>Profile management\<close>

text \<open>
  \<^verbatim>\<open>ai_security_profile_lookup\<close> walks the hash chain of the pid and returns the first
  profile with that pid. A chain holds the profiles of its bucket newest first
  (\<^verbatim>\<open>hlist_add_head_rcu\<close>), and the bucket is a function of the pid, so the profile found
  is the newest profile with that pid. A profile pointer is its position in
  \<open>process_profiles\<close>, which holds the profiles oldest first.
\<close>

primrec ai_security_profile_lookup :: "ai_security_profile list \<Rightarrow> pid_t \<Rightarrow> nat option" where
  "ai_security_profile_lookup [] pid = None"
| "ai_security_profile_lookup (p # ps) pid =
     (case ai_security_profile_lookup ps pid of
        Some i \<Rightarrow> Some (Suc i)
      | None \<Rightarrow> if pr_pid p = pid then Some 0 else None)"

definition ai_security_get_profile :: "kernel_state \<Rightarrow> pid_t \<Rightarrow> nat option" where
  "ai_security_get_profile s pid =
     (case ai_sec_mgr s of
        None \<Rightarrow> None
      | Some m \<Rightarrow> ai_security_profile_lookup (process_profiles m) pid)"

text \<open>The profile \<^verbatim>\<open>ai_security_create_profile\<close> fills in after \<^verbatim>\<open>kzalloc\<close>.\<close>

definition new_profile :: "env \<Rightarrow> task_struct \<Rightarrow> ai_security_profile" where
  "new_profile e t =
     \<lparr> pr_pid = task_pid t,
       pr_comm = take 15 (task_comm t),
       executable_path = exe_path t,
       executable_hash = (case exe_path t of None \<Rightarrow> 0 | Some p \<Rightarrow> full_name_hash e p),
       file_access_count = 0,
       network_connection_count = 0,
       system_call_count = 0,
       privilege_escalation_count = 0,
       last_activity = ktime_get e,
       creation_time = ktime_get e,
       anomaly_count = 0,
       pr_threat_score = 0,
       current_threat = AI_SECURITY_THREAT_NONE,
       false_positive_count = 0,
       behavior_score = f32_lit (8 / 10),
       risk_score = f32_lit (2 / 10),
       trust_score = f32_lit (7 / 10),
       event_count = 0,
       under_observation = False,
       quarantined = False,
       terminated = False \<rparr>"

text \<open>\<open>Inl\<close> is the error returned, with the state untouched; \<open>Inr\<close> is the return 0.\<close>

definition ai_security_create_profile ::
  "env \<Rightarrow> kernel_state \<Rightarrow> task_struct \<Rightarrow> error + kernel_state" where
  "ai_security_create_profile e s t =
     (case ai_sec_mgr s of
        None \<Rightarrow> Inl EINVAL
      | Some m \<Rightarrow>
          (case ai_security_get_profile s (task_pid t) of
             Some i \<Rightarrow> Inr s
           | None \<Rightarrow>
               if \<not> kzalloc_profile_ok e then Inl ENOMEM
               else Inr (s\<lparr>ai_sec_mgr := Some (m\<lparr>
                      process_profiles := process_profiles m @ [new_profile e t],
                      processes_monitored := processes_monitored m + 1\<rparr>)\<rparr>)))"

section \<open>Event management\<close>

text \<open>The event \<^verbatim>\<open>ai_security_create_event\<close> fills in after \<^verbatim>\<open>kzalloc\<close>.\<close>

definition new_event ::
  "env \<Rightarrow> kernel_state \<Rightarrow> ai_security_event_type \<Rightarrow> ai_security_event" where
  "new_event e s ty =
     \<lparr> event_id = event_id_counter s + 1,
       ev_type = ty,
       timestamp = ktime_get e,
       ev_pid = 0, ppid = 0, uid = 0, gid = 0,
       ev_comm = [],
       description = None,
       event_data = None,
       data_size = 0,
       threat_level = AI_SECURITY_THREAT_NONE,
       ev_threat_score = 0,
       recommended_action = AI_SECURITY_ACTION_ALLOW,
       confidence = 50,
       false_positive_flag = False,
       escalated = False \<rparr>"

definition ai_security_create_event ::
  "env \<Rightarrow> kernel_state \<Rightarrow> ai_security_event_type
     \<Rightarrow> error + (ai_security_event \<times> kernel_state)" where
  "ai_security_create_event e s ty =
     (if \<not> kzalloc_event_ok e then Inl ENOMEM
      else Inr (new_event e s ty, s\<lparr>event_id_counter := event_id_counter s + 1\<rparr>))"

section \<open>Event analysis\<close>

text \<open>
  \<^verbatim>\<open>ai_security_analyze_event\<close>, in the order of the source. The \<^verbatim>\<open>switch\<close> on the
  event type adds to the score of the event. For a file access the source evaluates
  \<^verbatim>\<open>event->event_data && strstr(event->description, "sensitive")\<close>: with a payload and
  no description \<^verbatim>\<open>strstr\<close> reads through \<^verbatim>\<open>NULL\<close>.
\<close>

definition event_type_score ::
  "ai_security_profile \<Rightarrow> ai_security_event \<Rightarrow> error + u32" where
  "event_type_score p ev =
     (case ev_type ev of
        AI_SECURITY_EVENT_FILE_ACCESS \<Rightarrow>
          (case event_data ev of
             None \<Rightarrow> Inr 0
           | Some d \<Rightarrow>
               (case description ev of
                  None \<Rightarrow> Inl NULL_DEREF
                | Some txt \<Rightarrow> Inr (if strstr txt ''sensitive'' then 30 else 0)))
      | AI_SECURITY_EVENT_NETWORK_CONNECT \<Rightarrow>
          Inr (if 100 < network_connection_count p then 25 else 0)
      | AI_SECURITY_EVENT_PRIVILEGE_ESCALATION \<Rightarrow> Inr 60
      | AI_SECURITY_EVENT_PROCESS_EXEC \<Rightarrow>
          (case event_data ev of
             None \<Rightarrow> Inr 0
           | Some exe \<Rightarrow>
               Inr (if strstr exe ''/tmp/'' \<or> strstr exe ''/var/tmp/'' then 40 else 0))
      | _ \<Rightarrow> Inr 0)"

text \<open>The profile-based adjustments.\<close>

definition profile_adjustment :: "ai_security_profile \<Rightarrow> u32" where
  "profile_adjustment p =
     (if trust_score p < f32_lit (3 / 10) then 20 else 0)
     + (if 5 < anomaly_count p then 15 else 0)"

section \<open>Threat classification\<close>


definition ai_security_classify_threat :: "u32 \<Rightarrow> ai_security_threat_level" where
  "ai_security_classify_threat score =
     (if 90 \<le> score then AI_SECURITY_THREAT_CRITICAL
      else if 70 \<le> score then AI_SECURITY_THREAT_HIGH
      else if 50 \<le> score then AI_SECURITY_THREAT_MEDIUM
      else if 25 \<le> score then AI_SECURITY_THREAT_LOW
      else AI_SECURITY_THREAT_NONE)"

section \<open>Decision\<close>

text \<open>The recommended action, from the capped score and the module parameter.\<close>

definition recommend_action :: "u32 \<Rightarrow> u32 \<Rightarrow> ai_security_action" where
  "recommend_action threshold score =
     (if threshold \<le> score then
        (if 90 \<le> score then AI_SECURITY_ACTION_TERMINATE
         else if 80 \<le> score then AI_SECURITY_ACTION_BLOCK
         else AI_SECURITY_ACTION_QUARANTINE)
      else if 50 \<le> score then AI_SECURITY_ACTION_WARN
      else AI_SECURITY_ACTION_ALLOW)"

text \<open>The event after the assessment: capped score, level, confidence, action.\<close>

definition assess_event ::
  "u32 \<Rightarrow> ai_security_profile \<Rightarrow> u32 \<Rightarrow> ai_security_event \<Rightarrow> ai_security_event" where
  "assess_event threshold p inc ev =
     (let score = min (ev_threat_score ev + inc + profile_adjustment p) 100 in
      ev\<lparr> ev_threat_score := score,
          threat_level := ai_security_classify_threat score,
          confidence := min (f32_to_u32 (fmul (behavior_score p) (u32_to_f32 100))) 100,
          recommended_action := recommend_action threshold score \<rparr>)"

text \<open>\<^verbatim>\<open>max\<close> on two threat levels compares the enumerators.\<close>

definition threat_level_max ::
  "ai_security_threat_level \<Rightarrow> ai_security_threat_level \<Rightarrow> ai_security_threat_level" where
  "threat_level_max a b = (if threat_level_val b < threat_level_val a then a else b)"

text \<open>The profile after the event: the counters, then the metrics and the three scores.\<close>

definition update_profile_metrics ::
  "ai_security_profile \<Rightarrow> ai_security_event \<Rightarrow> ai_security_profile" where
  "update_profile_metrics p ev =
     (let score = ev_threat_score ev in
      p\<lparr> event_count := event_count p + 1,
         privilege_escalation_count :=
           (if ev_type ev = AI_SECURITY_EVENT_PRIVILEGE_ESCALATION
            then privilege_escalation_count p + 1 else privilege_escalation_count p),
         pr_threat_score := max (pr_threat_score p) score,
         current_threat := threat_level_max (current_threat p) (threat_level ev),
         anomaly_count := (if 30 < score then anomaly_count p + 1 else anomaly_count p),
         risk_score :=
           min 1 (fadd (risk_score p) (fdiv (u32_to_f32 score) (f32_lit 1000))),
         trust_score :=
           max 0 (fsub (trust_score p) (fdiv (u32_to_f32 score) (f32_lit 500))),
         behavior_score :=
           max 0 (fsub (behavior_score p) (fdiv (u32_to_f32 score) (f32_lit 200))) \<rparr>)"

text \<open>
  \<open>Inl EINVAL\<close>: no manager, nothing touched. \<open>Inr\<close>: the return 0, with the assessed
  event and the new state. Without a profile for the pid of the event the assessment is
  fixed: Low, 25, Warn.
\<close>

definition ai_security_analyze_event ::
  "kernel_state \<Rightarrow> ai_security_event \<Rightarrow> error + (ai_security_event \<times> kernel_state)" where
  "ai_security_analyze_event s ev =
     (case ai_sec_mgr s of
        None \<Rightarrow> Inl EINVAL
      | Some m \<Rightarrow>
          (case ai_security_get_profile s (ev_pid ev) of
             None \<Rightarrow>
               Inr (ev\<lparr> threat_level := AI_SECURITY_THREAT_LOW,
                        ev_threat_score := 25,
                        recommended_action := AI_SECURITY_ACTION_WARN \<rparr>, s)
           | Some i \<Rightarrow>
               (let p = process_profiles m ! i in
                case event_type_score p ev of
                  Inl f \<Rightarrow> Inl f
                | Inr inc \<Rightarrow>
                    (let ev' = assess_event (ai_security_threat_threshold s) p inc ev in
                     Inr (ev', s\<lparr>ai_sec_mgr := Some (m\<lparr>
                            process_profiles :=
                              (process_profiles m)[i := update_profile_metrics p ev']\<rparr>)\<rparr>)))))"

text \<open>
  \<^verbatim>\<open>ai_security_make_decision\<close> ignores the value \<^verbatim>\<open>ai_security_analyze_event\<close> returns.
  \<^verbatim>\<open>ai_security_log_threat\<close> only prints. The statistics are updated through
  \<^verbatim>\<open>ai_sec_mgr\<close> without a check. The result holds whether to deny.
\<close>

definition deny_decision :: "kernel_state \<Rightarrow> ai_security_event \<Rightarrow> bool" where
  "deny_decision s ev =
     (ai_security_threat_threshold s \<le> ev_threat_score ev \<and> ai_security_auto_response s \<and>
      (case recommended_action ev of
         AI_SECURITY_ACTION_TERMINATE \<Rightarrow> True
       | AI_SECURITY_ACTION_BLOCK \<Rightarrow> True
       | AI_SECURITY_ACTION_QUARANTINE \<Rightarrow> True
       | AI_SECURITY_ACTION_WARN \<Rightarrow> False
       | _ \<Rightarrow> False))"

definition update_statistics ::
  "bool \<Rightarrow> ai_security_event \<Rightarrow> ai_security_manager \<Rightarrow> ai_security_manager" where
  "update_statistics deny ev m =
     m\<lparr> total_events_processed := total_events_processed m + 1,
        threats_detected :=
          (if 30 < ev_threat_score ev then threats_detected m + 1 else threats_detected m),
        threats_blocked :=
          (if deny \<and> recommended_action ev \<noteq> AI_SECURITY_ACTION_WARN
           then threats_blocked m + 1 else threats_blocked m) \<rparr>"

definition ai_security_make_decision ::
  "kernel_state \<Rightarrow> ai_security_event
     \<Rightarrow> error + (bool \<times> ai_security_event \<times> kernel_state)" where
  "ai_security_make_decision s ev =
     (case (case ai_security_analyze_event s ev of
              Inl NULL_DEREF \<Rightarrow> Inl NULL_DEREF
            | Inl _ \<Rightarrow> Inr (ev, s)
            | Inr r \<Rightarrow> Inr r) of
        Inl f \<Rightarrow> Inl f
      | Inr (ev', s') \<Rightarrow>
          (case ai_sec_mgr s' of
             None \<Rightarrow> Inl NULL_DEREF
           | Some m \<Rightarrow>
               (let deny = deny_decision s' ev' in
                Inr (deny, ev', s'\<lparr>ai_sec_mgr := Some (update_statistics deny ev' m)\<rparr>))))"

section \<open>Learning\<close>

text \<open>What one pass of \<^verbatim>\<open>ai_security_learning_work\<close> does to one profile.\<close>

definition learning_update_profile :: "ktime_t \<Rightarrow> ai_security_profile \<Rightarrow> ai_security_profile" where
  "learning_update_profile now p =
     (if anomaly_count p = 0 \<and> trust_score p < f32_lit (8 / 10)
      then p\<lparr> trust_score := fadd (trust_score p) (f32_lit (1 / 100)),
              risk_score := max 0 (fsub (risk_score p) (f32_lit (5 / 1000))) \<rparr>
      else p)
     \<lparr> last_activity := now \<rparr>"

definition ai_security_learning_work :: "env \<Rightarrow> kernel_state \<Rightarrow> kernel_state" where
  "ai_security_learning_work e s =
     (case ai_sec_mgr s of
        None \<Rightarrow> s
      | Some m \<Rightarrow>
          if \<not> ai_security_learning_enabled s then s
          else
            (let now = ktime_get e in
             s\<lparr>ai_sec_mgr := Some (m\<lparr>
                 recent_events :=
                   filter (\<lambda>ev. \<not> 3600000 < ktime_to_ms (now - timestamp ev))
                     (recent_events m),
                 process_profiles := map (learning_update_profile now) (process_profiles m),
                 threat_intel_last_update :=
                   (if 86400000 < ktime_to_ms (now - threat_intel_last_update m)
                    then now else threat_intel_last_update m),
                 last_learning_update := now\<rparr>)\<rparr>))"

section \<open>LSM hooks\<close>

text \<open>
  A hook returns 0 (\<open>None\<close>) or a negated error number, and the new state.
  \<open>add_to_recent_events limit ev\<close> is the end of a hook: the event is appended to the
  list of recent events when its score is above the limit, and freed otherwise.
\<close>

definition add_to_recent_events ::
  "u32 \<Rightarrow> ai_security_event \<Rightarrow> kernel_state \<Rightarrow> error + kernel_state" where
  "add_to_recent_events limit ev s =
     (if limit < ev_threat_score ev then
        (case ai_sec_mgr s of
           None \<Rightarrow> Inl NULL_DEREF
         | Some m \<Rightarrow> Inr (s\<lparr>ai_sec_mgr := Some (m\<lparr>recent_events := recent_events m @ [ev]\<rparr>)\<rparr>))
      else Inr s)"

text \<open>
  The first half of \<^verbatim>\<open>ai_security_file_permission\<close>, up to the filled-in event:
  \<open>Inl\<close> is an early \<^verbatim>\<open>return 0\<close> with the state it leaves.
\<close>

definition file_event_details ::
  "env \<Rightarrow> task_struct \<Rightarrow> struct_file \<Rightarrow> ai_security_event \<Rightarrow> ai_security_event" where
  "file_event_details e t f ev =
     (let ev1 = ev\<lparr> ev_pid := task_pid t, ppid := real_parent_pid t,
                    uid := cred_uid t, gid := cred_gid t,
                    ev_comm := take 15 (task_comm t) \<rparr> in
      case d_name f of
        None \<Rightarrow> ev1
      | Some name \<Rightarrow>
          if \<not> kmalloc_description_ok e then ev1
          else ev1\<lparr> description := Some (take 255 (''File access: '' @ name)),
                    event_data := (if strdup_ok e then Some name else None),
                    data_size := length name + 1 \<rparr>)"

definition file_permission_event ::
  "env \<Rightarrow> kernel_state \<Rightarrow> task_struct \<Rightarrow> struct_file option
     \<Rightarrow> kernel_state + (ai_security_event \<times> kernel_state)" where
  "file_permission_event e s t file =
     (case ai_sec_mgr s of
        None \<Rightarrow> Inl s
      | Some m \<Rightarrow>
          (case file of
             None \<Rightarrow> Inl s
           | Some f \<Rightarrow>
               if ai_security_is_system_process (task_pid t) then Inl s
               else
                 (let s1 = (case ai_security_get_profile s (task_pid t) of
                              Some i \<Rightarrow> s
                            | None \<Rightarrow>
                                (case ai_security_create_profile e s t of
                                   Inl err \<Rightarrow> s
                                 | Inr s' \<Rightarrow> s')) in
                  case ai_security_get_profile s1 (task_pid t) of
                    None \<Rightarrow> Inl s1
                  | Some i \<Rightarrow>
                      (case ai_security_create_event e s1 AI_SECURITY_EVENT_FILE_ACCESS of
                         Inl err \<Rightarrow> Inl s1
                       | Inr (ev, s2) \<Rightarrow> Inr (file_event_details e t f ev, s2)))))"

definition ai_security_file_permission ::
  "env \<Rightarrow> kernel_state \<Rightarrow> task_struct \<Rightarrow> struct_file option
     \<Rightarrow> error option \<times> kernel_state" where
  "ai_security_file_permission e s t file =
     (case file_permission_event e s t file of
        Inl s' \<Rightarrow> (None, s')
      | Inr (ev, s2) \<Rightarrow>
          (case ai_security_make_decision s2 ev of
             Inl f \<Rightarrow> (Some f, s2)
           | Inr (deny, ev', s3) \<Rightarrow>
               (case add_to_recent_events 20 ev' s3 of
                  Inl f \<Rightarrow> (Some f, s3)
                | Inr s4 \<Rightarrow> (if deny then Some EACCES else None, s4))))"

text \<open>
  \<^verbatim>\<open>ai_security_task_create\<close> analyses a process-creation event and frees it: the event
  carries no payload and is never added to the list of recent events.
\<close>

definition task_create_event ::
  "env \<Rightarrow> kernel_state \<Rightarrow> task_struct
     \<Rightarrow> kernel_state + (ai_security_event \<times> kernel_state)" where
  "task_create_event e s t =
     (case ai_sec_mgr s of
        None \<Rightarrow> Inl s
      | Some m \<Rightarrow>
          if ai_security_is_system_process (task_pid t) then Inl s
          else
            (case ai_security_get_profile s (task_pid t) of
               None \<Rightarrow> Inl s
             | Some i \<Rightarrow>
                 (case ai_security_create_event e s AI_SECURITY_EVENT_PROCESS_EXEC of
                    Inl err \<Rightarrow> Inl s
                  | Inr (ev, s1) \<Rightarrow>
                      Inr (ev\<lparr> ev_pid := task_pid t, uid := cred_uid t,
                               ev_comm := take 15 (task_comm t),
                               description :=
                                 (if strdup_ok e then Some ''Process creation/fork''
                                  else None) \<rparr>, s1))))"

definition ai_security_task_create ::
  "env \<Rightarrow> kernel_state \<Rightarrow> task_struct \<Rightarrow> error option \<times> kernel_state" where
  "ai_security_task_create e s t =
     (case task_create_event e s t of
        Inl s' \<Rightarrow> (None, s')
      | Inr (ev, s1) \<Rightarrow>
          (case ai_security_analyze_event s1 ev of
             Inl NULL_DEREF \<Rightarrow> (Some NULL_DEREF, s1)
           | Inl _ \<Rightarrow> (None, s1)
           | Inr (ev', s2) \<Rightarrow> (None, s2)))"

text \<open>
  \<^verbatim>\<open>ai_security_task_fix_setuid\<close>, for a change from \<open>old_uid\<close> to \<open>new_uid\<close>. Its limit
  for keeping the event is 30. The description is formatted from the two uids; no
  function reads the text, and the model keeps its fixed prefix.
\<close>

definition task_fix_setuid_event ::
  "env \<Rightarrow> kernel_state \<Rightarrow> task_struct \<Rightarrow> u32 \<Rightarrow> u32
     \<Rightarrow> kernel_state + (ai_security_event \<times> kernel_state)" where
  "task_fix_setuid_event e s t new_uid old_uid =
     (case ai_sec_mgr s of
        None \<Rightarrow> Inl s
      | Some m \<Rightarrow>
          if ai_security_is_system_process (task_pid t) then Inl s
          else if new_uid = old_uid then Inl s
          else
            (case ai_security_get_profile s (task_pid t) of
               None \<Rightarrow> Inl s
             | Some i \<Rightarrow>
                 (case ai_security_create_event e s AI_SECURITY_EVENT_PRIVILEGE_ESCALATION of
                    Inl err \<Rightarrow> Inl s
                  | Inr (ev, s1) \<Rightarrow>
                      Inr (ev\<lparr> ev_pid := task_pid t, uid := new_uid,
                               ev_comm := take 15 (task_comm t),
                               description :=
                                 (if kmalloc_description_ok e
                                  then Some ''Privilege escalation'' else None) \<rparr>, s1))))"

definition ai_security_task_fix_setuid ::
  "env \<Rightarrow> kernel_state \<Rightarrow> task_struct \<Rightarrow> u32 \<Rightarrow> u32 \<Rightarrow> error option \<times> kernel_state" where
  "ai_security_task_fix_setuid e s t new_uid old_uid =
     (case task_fix_setuid_event e s t new_uid old_uid of
        Inl s' \<Rightarrow> (None, s')
      | Inr (ev, s1) \<Rightarrow>
          (case ai_security_make_decision s1 ev of
             Inl f \<Rightarrow> (Some f, s1)
           | Inr (deny, ev', s2) \<Rightarrow>
               (case add_to_recent_events 30 ev' s2 of
                  Inl f \<Rightarrow> (Some f, s2)
                | Inr s3 \<Rightarrow> (if deny then Some EPERM else None, s3))))"

section \<open>Module life cycle\<close>

text \<open>
  The state when the module is loaded, for given values of the module parameters, and
  the state a successful \<^verbatim>\<open>ai_security_init\<close> leaves: a zeroed manager with empty lists.
\<close>

definition module_loaded :: "u32 \<Rightarrow> bool \<Rightarrow> bool \<Rightarrow> kernel_state" where
  "module_loaded threshold auto_response learning =
     \<lparr> ai_sec_mgr = None,
       event_id_counter = 1,
       ai_security_threat_threshold = threshold,
       ai_security_auto_response = auto_response,
       ai_security_learning_enabled = learning \<rparr>"

definition ai_security_init :: "kernel_state \<Rightarrow> kernel_state" where
  "ai_security_init s =
     s\<lparr>ai_sec_mgr := Some
         \<lparr> process_profiles = [],
           recent_events = [],
           total_events_processed = 0,
           threats_detected = 0,
           false_positives = 0,
           threats_blocked = 0,
           processes_monitored = 0,
           threat_intel_last_update = 0,
           last_learning_update = 0 \<rparr>\<rparr>"

section \<open>Concurrent profile creation\<close>

text \<open>
  Hooks run on several processors at once, and \<^verbatim>\<open>ai_security_create_profile\<close> is not
  one atomic action. It looks the pid up in \<^verbatim>\<open>ai_security_get_profile\<close> under
  \<^verbatim>\<open>rcu_read_lock\<close> only, which keeps no writer out (line 199), allocates and fills in
  the profile, appends it to \<^verbatim>\<open>process_profiles\<close> and counts it while it holds
  \<^verbatim>\<open>profiles_lock\<close> (lines 236 to 239), and adds it to the hash index after the lock is
  released (line 241; the \<^verbatim>\<open>hash_locks\<close> are initialised and never taken). A call in
  progress is at one of these points:

  \<^item> \<open>At_check e t\<close>: entered for the task \<open>t\<close>, before the test for the manager and the
    lookup; \<open>e\<close> holds the answers the kernel gives this call;
  \<^item> \<open>At_insert p\<close>: the lookup found no profile and \<open>p\<close> is allocated and filled in,
    before \<^verbatim>\<open>spin_lock_irqsave\<close>;
  \<^item> \<open>At_index p\<close>: \<open>p\<close> is in the list and counted, the lock is released, before
    \<^verbatim>\<open>ai_security_profile_add_to_hash\<close>;
  \<^item> \<open>Returned r\<close>: the call has returned \<open>r\<close> (\<open>None\<close> for 0).

  \<open>create_profile_step\<close> is the next action of a call, on the state the other calls have
  left. The list \<open>process_profiles\<close> stands for the list and the index alike, so a lookup
  finds a profile from its insertion into the list on; in the source it finds it only
  after the later insertion into the index, which leaves the other calls more time to
  miss it, not less.
\<close>

datatype create_profile_call =
    At_check env task_struct
  | At_insert ai_security_profile
  | At_index ai_security_profile
  | Returned "error option"

definition create_profile_step ::
  "kernel_state \<Rightarrow> create_profile_call \<Rightarrow> kernel_state \<times> create_profile_call" where
  "create_profile_step s c =
     (case c of
        At_check e t \<Rightarrow>
          (case ai_sec_mgr s of
             None \<Rightarrow> (s, Returned (Some EINVAL))
           | Some m \<Rightarrow>
               (case ai_security_get_profile s (task_pid t) of
                  Some i \<Rightarrow> (s, Returned None)
                | None \<Rightarrow>
                    if \<not> kzalloc_profile_ok e then (s, Returned (Some ENOMEM))
                    else (s, At_insert (new_profile e t))))
      | At_insert p \<Rightarrow>
          (case ai_sec_mgr s of
             None \<Rightarrow> (s, Returned (Some NULL_DEREF))
           | Some m \<Rightarrow>
               (s\<lparr>ai_sec_mgr := Some (m\<lparr>
                    process_profiles := process_profiles m @ [p],
                    processes_monitored := processes_monitored m + 1\<rparr>)\<rparr>,
                At_index p))
      | At_index p \<Rightarrow> (s, Returned None)
      | Returned r \<Rightarrow> (s, Returned r))"

text \<open>
  A schedule names, action by action, the call that moves next; a number that names no
  call is skipped.
\<close>

primrec run_calls ::
  "nat list \<Rightarrow> kernel_state \<times> create_profile_call list
     \<Rightarrow> kernel_state \<times> create_profile_call list" where
  "run_calls [] sc = sc"
| "run_calls (i # schedule) sc =
     run_calls schedule
       (if i < length (snd sc)
        then (fst (create_profile_step (fst sc) (snd sc ! i)),
              (snd sc)[i := snd (create_profile_step (fst sc) (snd sc ! i))])
        else sc)"

text \<open>The profiles that calls in progress have allocated and not yet inserted.\<close>

primrec pending_profile :: "create_profile_call \<Rightarrow> ai_security_profile list" where
  "pending_profile (At_check e t) = []"
| "pending_profile (At_insert p) = [p]"
| "pending_profile (At_index p) = []"
| "pending_profile (Returned r) = []"

text \<open>
  The states the module can be in, with the calls of \<^verbatim>\<open>ai_security_create_profile\<close> in
  progress: after initialisation, any interleaving of hook calls, learning passes,
  writes to the module parameters and actions of profile creations, for any answers of
  the kernel. A call of \<^verbatim>\<open>ai_security_create_profile\<close> may be entered for any task at any
  time (\<open>create_profile_enter\<close>; the function is declared in \<^verbatim>\<open>ai_security.h\<close>, and the
  file-permission hook calls it for the current task), and any call in progress may take
  its next action (\<open>create_profile_action\<close>). The file-permission hook calls the function
  between two lookups. A hook call that other calls overlap there is an entered call
  and its actions, followed, when the pid has a profile by then, by the hook itself,
  which finds the profile. The rest of a hook (the event built, analysed under the lock
  of the profile and appended under \<^verbatim>\<open>events_lock\<close>) and a learning pass are taken as one
  action each; none of them adds or removes a profile.
\<close>

inductive reachable :: "kernel_state \<Rightarrow> create_profile_call list \<Rightarrow> bool" where
  init: "reachable (ai_security_init (module_loaded threshold auto_response learning)) []"
| file_permission:
    "reachable s cs \<Longrightarrow> reachable (snd (ai_security_file_permission e s t file)) cs"
| task_create:
    "reachable s cs \<Longrightarrow> reachable (snd (ai_security_task_create e s t)) cs"
| task_fix_setuid:
    "reachable s cs \<Longrightarrow>
     reachable (snd (ai_security_task_fix_setuid e s t new_uid old_uid)) cs"
| learning_work:
    "reachable s cs \<Longrightarrow> reachable (ai_security_learning_work e s) cs"
| set_parameters:
    "reachable s cs \<Longrightarrow>
     reachable (s\<lparr> ai_security_threat_threshold := threshold,
                   ai_security_auto_response := auto_response,
                   ai_security_learning_enabled := learning \<rparr>) cs"
| create_profile_enter:
    "reachable s cs \<Longrightarrow> reachable s (cs @ [At_check e t])"
| create_profile_action:
    "reachable s cs \<Longrightarrow> i < length cs \<Longrightarrow>
     reachable (fst (create_profile_step s (cs ! i)))
       (cs[i := snd (create_profile_step s (cs ! i))])"

section \<open>The scoring rule in the words of the specification\<close>

text \<open>
  The base score per event type as the specification words it. The sensitive-pattern
  heuristic is: the event has a payload and its description contains \<^verbatim>\<open>sensitive\<close>. An
  executable lies under a transient directory when its path contains \<^verbatim>\<open>/tmp/\<close> or
  \<^verbatim>\<open>/var/tmp/\<close>. The high-volume threshold is 100 connections.
\<close>

definition sensitive_payload :: "ai_security_event \<Rightarrow> bool" where
  "sensitive_payload ev =
     (event_data ev \<noteq> None \<and>
      (case description ev of None \<Rightarrow> False | Some txt \<Rightarrow> strstr txt ''sensitive''))"

definition transient_executable :: "ai_security_event \<Rightarrow> bool" where
  "transient_executable ev =
     (case event_data ev of
        None \<Rightarrow> False
      | Some exe \<Rightarrow> strstr exe ''/tmp/'' \<or> strstr exe ''/var/tmp/'')"

definition base_score :: "ai_security_profile \<Rightarrow> ai_security_event \<Rightarrow> nat" where
  "base_score p ev =
     (case ev_type ev of
        AI_SECURITY_EVENT_FILE_ACCESS \<Rightarrow> if sensitive_payload ev then 30 else 0
      | AI_SECURITY_EVENT_NETWORK_CONNECT \<Rightarrow>
          if 100 < unat (network_connection_count p) then 25 else 0
      | AI_SECURITY_EVENT_PRIVILEGE_ESCALATION \<Rightarrow> 60
      | AI_SECURITY_EVENT_PROCESS_EXEC \<Rightarrow> if transient_executable ev then 40 else 0
      | _ \<Rightarrow> 0)"

text \<open>The confidence as the specification words it: the scaled score rounded to nearest.\<close>

definition spec_confidence :: "f32 \<Rightarrow> nat" where
  "spec_confidence b = min 100 (nat (round (b * 100)))"

section \<open>Example inputs\<close>

definition example_env :: env where
  "example_env =
     \<lparr> ktime_get = 1000, kzalloc_profile_ok = True, kzalloc_event_ok = True,
       kmalloc_description_ok = True, strdup_ok = True, full_name_hash = (\<lambda>str. 0) \<rparr>"

definition example_task :: task_struct where
  "example_task =
     \<lparr> task_pid = 42, task_comm = ''sh'', real_parent_pid = 7,
       cred_uid = 1000, cred_gid = 1000, exe_path = Some ''/bin/sh'' \<rparr>"

definition example_file :: struct_file where
  "example_file = \<lparr> d_name = Some ''notes.txt'' \<rparr>"

definition sensitive_file :: struct_file where
  "sensitive_file = \<lparr> d_name = Some ''sensitive.db'' \<rparr>"

definition initial_state :: kernel_state where
  "initial_state = ai_security_init (module_loaded 75 True True)"

text \<open>The state with the given profiles and nothing else.\<close>

definition manager_with :: "ai_security_profile list \<Rightarrow> ai_security_manager" where
  "manager_with ps =
     \<lparr> process_profiles = ps, recent_events = [],
       total_events_processed = 0, threats_detected = 0, false_positives = 0,
       threats_blocked = 0, processes_monitored = of_nat (length ps),
       threat_intel_last_update = 0, last_learning_update = 0 \<rparr>"

definition state_with :: "ai_security_profile list \<Rightarrow> kernel_state" where
  "state_with ps = initial_state\<lparr>ai_sec_mgr := Some (manager_with ps)\<rparr>"

definition example_profile :: ai_security_profile where
  "example_profile = new_profile example_env example_task"

definition low_trust_profile :: ai_security_profile where
  "low_trust_profile = example_profile\<lparr>trust_score := f32_lit (2 / 10)\<rparr>"

text \<open>An event of the example task, as \<^verbatim>\<open>ai_security_create_event\<close> leaves it.\<close>

definition example_event :: "ai_security_event_type \<Rightarrow> ai_security_event" where
  "example_event ty =
     \<lparr> event_id = 2, ev_type = ty, timestamp = 1000,
       ev_pid = 42, ppid = 7, uid = 1000, gid = 1000, ev_comm = ''sh'',
       description = None, event_data = None, data_size = 0,
       threat_level = AI_SECURITY_THREAT_NONE, ev_threat_score = 0,
       recommended_action = AI_SECURITY_ACTION_ALLOW, confidence = 50,
       false_positive_flag = False, escalated = False \<rparr>"

text \<open>
  A file-access event that scored 30, and the profile of the example task after two such
  events.
\<close>

definition flagged_event :: ai_security_event where
  "flagged_event =
     (example_event AI_SECURITY_EVENT_FILE_ACCESS)
       \<lparr> threat_level := AI_SECURITY_THREAT_LOW, ev_threat_score := 30, confidence := 80 \<rparr>"

definition twice_flagged_profile :: ai_security_profile where
  "twice_flagged_profile =
     update_profile_metrics (update_profile_metrics example_profile flagged_event)
       flagged_event"

text \<open>
  A store that holds \<^verbatim>\<open>AI_SECURITY_MAX_PROFILES\<close> profiles, for the pids 100 to 355, and
  the answers of a kernel whose event allocation fails.
\<close>

definition AI_SECURITY_MAX_PROFILES :: nat where
  "AI_SECURITY_MAX_PROFILES = 256"

definition numbered_profile :: "nat \<Rightarrow> ai_security_profile" where
  "numbered_profile n = example_profile\<lparr>pr_pid := of_nat n\<rparr>"

definition full_profiles :: "ai_security_profile list" where
  "full_profiles = map numbered_profile [100..<356]"

definition full_store :: kernel_state where
  "full_store = state_with full_profiles"

definition trusted_profile :: ai_security_profile where
  "trusted_profile = example_profile\<lparr>trust_score := f32_lit (8 / 10)\<rparr>"

definition failing_env :: env where
  "failing_env = example_env\<lparr>kzalloc_event_ok := False\<rparr>"

text \<open>
  The module after the first file access of the example task, which creates its profile,
  and \<open>n\<close> changes of its uid from 1000 to 0.
\<close>

primrec escalated_state :: "nat \<Rightarrow> kernel_state" where
  "escalated_state 0 =
     snd (ai_security_file_permission example_env initial_state example_task
            (Some example_file))"
| "escalated_state (Suc n) =
     snd (ai_security_task_fix_setuid example_env (escalated_state n) example_task 0 1000)"

section \<open>Observations of a state\<close>

text \<open>
  The recent events, the pids with a profile and the profiles; all empty without a
  manager.
\<close>

definition recent_events_of :: "kernel_state \<Rightarrow> ai_security_event list" where
  "recent_events_of s = (case ai_sec_mgr s of None \<Rightarrow> [] | Some m \<Rightarrow> recent_events m)"

definition profile_pids :: "kernel_state \<Rightarrow> pid_t list" where
  "profile_pids s =
     (case ai_sec_mgr s of None \<Rightarrow> [] | Some m \<Rightarrow> map pr_pid (process_profiles m))"

definition profiles_of :: "kernel_state \<Rightarrow> ai_security_profile list" where
  "profiles_of s = (case ai_sec_mgr s of None \<Rightarrow> [] | Some m \<Rightarrow> process_profiles m)"

text \<open>
  The three scores of a profile lie in their declared range, and they are floats.
\<close>

definition scores_in_range :: "ai_security_profile \<Rightarrow> bool" where
  "scores_in_range p =
     (0 \<le> trust_score p \<and> trust_score p \<le> 1 \<and>
      0 \<le> risk_score p \<and> risk_score p \<le> 1 \<and>
      0 \<le> behavior_score p \<and> behavior_score p \<le> 1)"

definition float_scores :: "ai_security_profile \<Rightarrow> bool" where
  "float_scores p =
     (is_f32 (trust_score p) \<and> is_f32 (risk_score p) \<and> is_f32 (behavior_score p))"

text \<open>
  The largest trust a learning pass can produce: the float below \<^verbatim>\<open>0.8f\<close> plus
  \<^verbatim>\<open>0.01f\<close>, rounded.
\<close>

definition trust_bounded :: "ai_security_profile \<Rightarrow> bool" where
  "trust_bounded p = (trust_score p \<le> 13589544 / 16777216)"

text \<open>
  The score that the analysis in \<^verbatim>\<open>ai_security_task_create\<close> gives the event of the
  hook; \<open>None\<close> when the hook returns before the analysis.
\<close>

definition task_create_score :: "env \<Rightarrow> kernel_state \<Rightarrow> task_struct \<Rightarrow> u32 option" where
  "task_create_score e s t =
     (case task_create_event e s t of
        Inl s' \<Rightarrow> None
      | Inr (ev, s1) \<Rightarrow>
          (case ai_security_analyze_event s1 ev of
             Inl f \<Rightarrow> None
           | Inr (ev', s2) \<Rightarrow> Some (ev_threat_score ev')))"

text \<open>The five statistics of the manager, in the order of the structure.\<close>

definition statistics :: "ai_security_manager \<Rightarrow> u64 \<times> u64 \<times> u64 \<times> u64 \<times> u64" where
  "statistics m =
     (total_events_processed m, threats_detected m, false_positives m,
      threats_blocked m, processes_monitored m)"

section \<open>Properties\<close>

subsection \<open>Rounding\<close>

text \<open>
  The exponent search finds the binade of its argument, so a float operation on known
  operands is evaluated from the binade of the exact result.
\<close>

lemma floor_rat_numeral_divide [simp]:
  "\<lfloor>numeral a / numeral b :: rat\<rfloor> = numeral a div numeral b"
  by (metis floor_divide_of_int_eq of_int_numeral)

lemma pow2_powi: "pow2 e = 2 powi e"
  by (simp add: pow2_def power_int_def inverse_eq_divide power_one_over)

lemma pow2_pos: "0 < pow2 e"
  by (simp add: pow2_powi)

lemma pow2_less_iff: "pow2 a < pow2 b \<longleftrightarrow> a < b"
proof
  assume "pow2 a < pow2 b"
  then show "a < b"
    by (metis pow2_powi power_int_increasing not_le one_le_numeral)
next
  assume "a < b"
  then show "pow2 a < pow2 b"
    by (simp add: pow2_powi power_int_strict_increasing)
qed

lemma find_exp_eq:
  "pow2 e \<le> q \<Longrightarrow> q < pow2 (e + 1) \<Longrightarrow> - 126 \<le> e \<Longrightarrow> e \<le> int n - 126
   \<Longrightarrow> find_exp n q = e"
proof (induction n)
  case 0
  then show ?case by simp
next
  case (Suc n)
  show ?case
  proof (cases "pow2 (int (Suc n) - 126) \<le> q")
    case True
    with Suc.prems(2) have "pow2 (int (Suc n) - 126) < pow2 (e + 1)" by simp
    then have "int (Suc n) - 126 < e + 1" by (simp only: pow2_less_iff)
    with Suc.prems(4) have "e = int (Suc n) - 126" by simp
    with True show ?thesis by simp
  next
    case False
    with Suc.prems(1) have "pow2 e < pow2 (int (Suc n) - 126)" by simp
    then have "e < int (Suc n) - 126" by (simp only: pow2_less_iff)
    then have "e \<le> int n - 126" by simp
    with Suc False show ?thesis by simp
  qed
qed

lemma find_exp_subnormal: "q < pow2 (- 126) \<Longrightarrow> find_exp n q = - 126"
proof (induction n)
  case 0
  then show ?case by simp
next
  case (Suc n)
  have "pow2 (- 126) < pow2 (int (Suc n) - 126)" by (simp add: pow2_less_iff)
  with Suc show ?case by simp
qed

lemma f32_exp_eq:
  "pow2 e \<le> \<bar>q\<bar> \<Longrightarrow> \<bar>q\<bar> < pow2 (e + 1) \<Longrightarrow> - 126 \<le> e \<Longrightarrow> e \<le> 127 \<Longrightarrow> f32_exp q = e"
  unfolding f32_exp_def by (rule find_exp_eq) simp_all

lemma round_f32_eq:
  "pow2 e \<le> \<bar>q\<bar> \<Longrightarrow> \<bar>q\<bar> < pow2 (e + 1) \<Longrightarrow> - 126 \<le> e \<Longrightarrow> e \<le> 127
   \<Longrightarrow> round_f32 q = of_int (rne (q / pow2 (e - 23))) * pow2 (e - 23)"
  by (simp add: round_f32_def f32_exp_eq Let_def)

lemma f32_lit_03: "f32_lit (3 / 10) = 5033165 / 16777216"
  unfolding f32_lit_def by (subst round_f32_eq [of "- 2"]) (simp_all add: pow2_def rne_def Let_def)

lemma f32_lit_02: "f32_lit (2 / 10) = 13421773 / 67108864"
  unfolding f32_lit_def by (subst round_f32_eq [of "- 3"]) (simp_all add: pow2_def rne_def Let_def)

lemma f32_lit_07: "f32_lit (7 / 10) = 11744051 / 16777216"
  unfolding f32_lit_def by (subst round_f32_eq [of "- 1"]) (simp_all add: pow2_def rne_def Let_def)

lemma f32_lit_08: "f32_lit (8 / 10) = 13421773 / 16777216"
  unfolding f32_lit_def by (subst round_f32_eq [of "- 1"]) (simp_all add: pow2_def rne_def Let_def)

lemma f32_lit_001: "f32_lit (1 / 100) = 5368709 / 536870912"
  unfolding f32_lit_def by (subst round_f32_eq [of "- 7"]) (simp_all add: pow2_def rne_def Let_def)

lemma f32_lit_0005: "f32_lit (5 / 1000) = 5368709 / 1073741824"
  unfolding f32_lit_def by (subst round_f32_eq [of "- 8"]) (simp_all add: pow2_def rne_def Let_def)

lemma u32_to_f32_100: "u32_to_f32 100 = 100"
  unfolding u32_to_f32_def by (subst round_f32_eq [of 6]) (simp_all add: pow2_def rne_def Let_def)

lemma fmul_08_100: "fmul (13421773 / 16777216) 100 = 80"
  unfolding fmul_def by (subst round_f32_eq [of 6]) (simp_all add: pow2_def rne_def Let_def)

lemma rne_nonneg: "0 \<le> y \<Longrightarrow> 0 \<le> rne y"
  by (auto simp: rne_def Let_def)

lemma rne_le_double: 
  assumes "0 \<le> y" shows "of_int (rne y) \<le> 2 * y"
proof -
  have f: "of_int \<lfloor>y\<rfloor> \<le> y" by simp
  have f0: "0 \<le> \<lfloor>y\<rfloor>" using assms by simp
  show ?thesis
  proof (cases "y - of_int \<lfloor>y\<rfloor> < 1 / 2")
    case True
    have "of_int \<lfloor>y\<rfloor> \<le> 2 * y" using f assms by linarith
    with True show ?thesis by (simp add: rne_def Let_def)
  next
    case False
    then have "1/2 \<le> y" using f0
      by (smt (verit, best) of_int_0_le_iff add_increasing2 diff_add_cancel linorder_not_le add.commute)
    then have "of_int \<lfloor>y\<rfloor> + 1 \<le> 2 * y" using False by linarith
    moreover have "rne y \<le> \<lfloor>y\<rfloor> + 1" by (simp add: rne_def Let_def)
    ultimately show ?thesis
      by (smt (verit, best) of_int_le_iff of_int_add of_int_1 order_trans)
  qed
qed

text \<open>
  No float lies between a decimal literal and the float it denotes, so comparing a float
  with \<^verbatim>\<open>0.3f\<close> or \<^verbatim>\<open>0.8f\<close> is comparing it with 0.3 or 0.8.
\<close>

lemma no_f32_between:
  assumes f: "is_f32 t"
    and lo: "pow2 e \<le> t" and hi: "t < pow2 (e + 1)" and e: "- 126 \<le> e" "e \<le> 127"
    and a: "of_int k < t / pow2 (e - 23)" and b: "t / pow2 (e - 23) < of_int (k + 1)"
  shows False
proof -
  from lo pow2_pos [of e] have "0 < t" by simp
  with lo hi have "pow2 e \<le> \<bar>t\<bar>" "\<bar>t\<bar> < pow2 (e + 1)" by simp_all
  from round_f32_eq [OF this e] f
  have "of_int (rne (t / pow2 (e - 23))) * pow2 (e - 23) = t"
    by (simp add: is_f32_def)
  with pow2_pos [of "e - 23"] have "t / pow2 (e - 23) = of_int (rne (t / pow2 (e - 23)))"
    by (simp add: field_simps)
  with a b have "(of_int k :: rat) < of_int (rne (t / pow2 (e - 23)))"
    and "(of_int (rne (t / pow2 (e - 23))) :: rat) < of_int (k + 1)" by simp_all
  then have "k < rne (t / pow2 (e - 23))" "rne (t / pow2 (e - 23)) < k + 1"
    by (simp_all only: of_int_less_iff)
  then show False by simp
qed

lemma f32_below_03:
  assumes "is_f32 t"
  shows "t < f32_lit (3 / 10) \<longleftrightarrow> t < 3 / 10"
proof
  assume "t < 3 / 10"
  then show "t < f32_lit (3 / 10)" unfolding f32_lit_03 by simp
next
  assume lt: "t < f32_lit (3 / 10)"
  show "t < 3 / 10"
  proof (rule ccontr)
    assume "\<not> t < 3 / 10"
    then have ge: "3 / 10 \<le> t" by simp
    from lt have lt': "t < 5033165 / 16777216" unfolding f32_lit_03 .
    have "pow2 (- 2) \<le> t" "t < pow2 (- 2 + 1)"
      using ge lt' by (simp_all add: pow2_def)
    moreover have "of_int 10066329 < t / pow2 (- 2 - 23)"
      using ge by (simp add: pow2_def)
    moreover have "t / pow2 (- 2 - 23) < of_int (10066329 + 1)"
      using lt' by (simp add: pow2_def)
    ultimately show False
      using no_f32_between [OF assms, of "- 2" 10066329] by simp
  qed
qed

lemma f32_below_08:
  assumes "is_f32 t"
  shows "t < f32_lit (8 / 10) \<longleftrightarrow> t < 8 / 10"
proof
  assume "t < 8 / 10"
  then show "t < f32_lit (8 / 10)" unfolding f32_lit_08 by simp
next
  assume lt: "t < f32_lit (8 / 10)"
  show "t < 8 / 10"
  proof (rule ccontr)
    assume "\<not> t < 8 / 10"
    then have ge: "8 / 10 \<le> t" by simp
    from lt have lt': "t < 13421773 / 16777216" unfolding f32_lit_08 .
    have "pow2 (- 1) \<le> t" "t < pow2 (- 1 + 1)"
      using ge lt' by (simp_all add: pow2_def)
    moreover have "of_int 13421772 < t / pow2 (- 1 - 23)"
      using ge by (simp add: pow2_def)
    moreover have "t / pow2 (- 1 - 23) < of_int (13421772 + 1)"
      using lt' by (simp add: pow2_def)
    ultimately show False
      using no_f32_between [OF assms, of "- 1" 13421772] by simp
  qed
qed

subsection \<open>Classification\<close>

lemma classify_threat_unat:
  "ai_security_classify_threat score =
     (if 90 \<le> unat score then AI_SECURITY_THREAT_CRITICAL
      else if 70 \<le> unat score then AI_SECURITY_THREAT_HIGH
      else if 50 \<le> unat score then AI_SECURITY_THREAT_MEDIUM
      else if 25 \<le> unat score then AI_SECURITY_THREAT_LOW
      else AI_SECURITY_THREAT_NONE)"
  by (simp add: ai_security_classify_threat_def word_le_nat_alt)

text \<open>
  Claim C1. The threat level is a total step function of the score: 90 and above is
  Critical, 70 to 89 High, 50 to 69 Medium, 25 to 49 Low, below 25 None; and it is
  monotone: a score that is not smaller never gets a smaller level. This holds for
  every \<^verbatim>\<open>u32\<close> score, in particular for those between 0 and 100.
\<close>

theorem classify_threat_step_monotone:
  "(90 \<le> unat s \<longrightarrow> ai_security_classify_threat s = AI_SECURITY_THREAT_CRITICAL) \<and>
   (70 \<le> unat s \<and> unat s < 90 \<longrightarrow> ai_security_classify_threat s = AI_SECURITY_THREAT_HIGH) \<and>
   (50 \<le> unat s \<and> unat s < 70 \<longrightarrow> ai_security_classify_threat s = AI_SECURITY_THREAT_MEDIUM) \<and>
   (25 \<le> unat s \<and> unat s < 50 \<longrightarrow> ai_security_classify_threat s = AI_SECURITY_THREAT_LOW) \<and>
   (unat s < 25 \<longrightarrow> ai_security_classify_threat s = AI_SECURITY_THREAT_NONE) \<and>
   (s1 \<le> s2 \<longrightarrow>
      threat_level_val (ai_security_classify_threat s1)
        \<le> threat_level_val (ai_security_classify_threat s2))"
proof -
  have mono: "threat_level_val (ai_security_classify_threat s1)
        \<le> threat_level_val (ai_security_classify_threat s2)" if "s1 \<le> s2"
  proof -
    from that have "unat s1 \<le> unat s2" by (simp add: word_le_nat_alt)
    then show ?thesis by (simp add: classify_threat_unat)
  qed
  show ?thesis using mono by (simp add: classify_threat_unat)
qed

theorem classify_threat_step_monotone_witness:
  "ai_security_classify_threat 95 = AI_SECURITY_THREAT_CRITICAL \<and>
   ai_security_classify_threat 80 = AI_SECURITY_THREAT_HIGH \<and>
   ai_security_classify_threat 50 = AI_SECURITY_THREAT_MEDIUM \<and>
   ai_security_classify_threat 30 = AI_SECURITY_THREAT_LOW \<and>
   ai_security_classify_threat 24 = AI_SECURITY_THREAT_NONE \<and>
   (30 :: u32) \<le> 95 \<and>
   threat_level_val (ai_security_classify_threat 30)
     \<le> threat_level_val (ai_security_classify_threat 95)"
  using classify_threat_step_monotone [of 95 30 95]
    classify_threat_step_monotone [of 80 30 95]
    classify_threat_step_monotone [of 50 30 95]
    classify_threat_step_monotone [of 30 30 95]
    classify_threat_step_monotone [of 24 30 95]
  by simp

subsection \<open>Event analysis\<close>

lemma analyze_event_found:
  assumes "ai_sec_mgr s = Some m"
    and "ai_security_profile_lookup (process_profiles m) (ev_pid ev) = Some i"
    and "event_type_score (process_profiles m ! i) ev = Inr inc"
  shows "ai_security_analyze_event s ev =
     Inr (assess_event (ai_security_threat_threshold s) (process_profiles m ! i) inc ev,
          s\<lparr>ai_sec_mgr := Some (m\<lparr>process_profiles := (process_profiles m)
             [i := update_profile_metrics (process_profiles m ! i)
                (assess_event (ai_security_threat_threshold s) (process_profiles m ! i) inc ev)]\<rparr>)\<rparr>)"
  using assms
  by (simp add: ai_security_analyze_event_def ai_security_get_profile_def Let_def)

lemma event_type_score_base:
  assumes "ev_type ev = AI_SECURITY_EVENT_FILE_ACCESS \<longrightarrow> event_data ev \<noteq> None
             \<longrightarrow> description ev \<noteq> None"
  shows "event_type_score p ev = Inr (of_nat (base_score p ev))"
  using assms
  by (cases "ev_type ev")
     (auto simp: event_type_score_def base_score_def sensitive_payload_def
        transient_executable_def word_less_nat_alt split: option.splits)

lemma base_score_le: "base_score p ev \<le> 60"
  by (cases "ev_type ev") (simp_all add: base_score_def)

lemma unat_profile_adjustment:
  "unat (profile_adjustment p) =
     (if trust_score p < f32_lit (3 / 10) then 20 else 0)
     + (if 5 < unat (anomaly_count p) then 15 else 0)"
  by (simp add: profile_adjustment_def word_less_nat_alt)

lemma unat_min_100: "unat (min w (100 :: u32)) = min (unat w) 100"
  by (simp add: min_def word_le_nat_alt)

lemma unat_score_sum:
  assumes "b \<le> 60"
  shows "unat (of_nat b + profile_adjustment p :: u32) = b + unat (profile_adjustment p)"
proof -
  have a: "unat (profile_adjustment p) \<le> 35"
    by (simp add: unat_profile_adjustment)
  have b: "unat (of_nat b :: u32) = b"
    using assms by (simp add: unat_of_nat)
  have "unat (of_nat b + profile_adjustment p :: u32)
          = (unat (of_nat b :: u32) + unat (profile_adjustment p)) mod 2 ^ 32"
    by (simp add: unat_word_ariths)
  also have "\<dots> = b + unat (profile_adjustment p)"
    using a assms b by simp
  finally show ?thesis .
qed

lemma assess_event_score [simp]:
  "ev_threat_score (assess_event thr p inc ev)
     = min (ev_threat_score ev + inc + profile_adjustment p) 100"
  by (simp add: assess_event_def Let_def)

lemma assess_event_level [simp]:
  "threat_level (assess_event thr p inc ev)
     = ai_security_classify_threat (min (ev_threat_score ev + inc + profile_adjustment p) 100)"
  by (simp add: assess_event_def Let_def)

lemma assess_event_action [simp]:
  "recommended_action (assess_event thr p inc ev)
     = recommend_action thr (min (ev_threat_score ev + inc + profile_adjustment p) 100)"
  by (simp add: assess_event_def Let_def)

lemma assess_event_confidence [simp]:
  "confidence (assess_event thr p inc ev)
     = min (f32_to_u32 (fmul (behavior_score p) (u32_to_f32 100))) 100"
  by (simp add: assess_event_def Let_def)

lemma state_with_simps:
  "ai_sec_mgr (state_with ps) = Some (manager_with ps)"
  "ai_security_threat_threshold (state_with ps) = 75"
  "ai_security_auto_response (state_with ps) = True"
  "ai_security_learning_enabled (state_with ps) = True"
  "event_id_counter (state_with ps) = 1"
  "process_profiles (manager_with ps) = ps"
  "recent_events (manager_with ps) = []"
  by (simp_all add: state_with_def manager_with_def initial_state_def ai_security_init_def
      module_loaded_def)

lemma example_event_simps:
  "ev_pid (example_event ty) = 42"
  "ev_type (example_event ty) = ty"
  "ev_threat_score (example_event ty) = 0"
  "event_data (example_event ty) = None"
  "description (example_event ty) = None"
  by (simp_all add: example_event_def)

lemma example_profile_simps:
  "pr_pid example_profile = 42"
  "anomaly_count example_profile = 0"
  "trust_score example_profile = f32_lit (7 / 10)"
  "behavior_score example_profile = f32_lit (8 / 10)"
  "risk_score example_profile = f32_lit (2 / 10)"
  by (simp_all add: example_profile_def new_profile_def example_task_def)

lemma analyze_event_result:
  assumes mgr: "ai_sec_mgr s = Some m"
    and prof: "ai_security_get_profile s (ev_pid ev) = Some i"
    and desc: "ev_type ev = AI_SECURITY_EVENT_FILE_ACCESS \<longrightarrow> event_data ev \<noteq> None
             \<longrightarrow> description ev \<noteq> None"
  shows "\<exists>s'. ai_security_analyze_event s ev =
     Inr (assess_event (ai_security_threat_threshold s) (process_profiles m ! i)
            (of_nat (base_score (process_profiles m ! i) ev)) ev, s')"
proof -
  from prof mgr have look: "ai_security_profile_lookup (process_profiles m) (ev_pid ev) = Some i"
    by (simp add: ai_security_get_profile_def)
  from analyze_event_found [OF mgr look event_type_score_base [OF desc]]
  show ?thesis by blast
qed

lemma score_of_analysed_event:
  assumes mgr: "ai_sec_mgr s = Some m"
    and prof: "ai_security_get_profile s (ev_pid ev) = Some i"
    and fresh: "ev_threat_score ev = 0"
    and desc: "ev_type ev = AI_SECURITY_EVENT_FILE_ACCESS \<longrightarrow> event_data ev \<noteq> None
             \<longrightarrow> description ev \<noteq> None"
  shows "\<exists>ev' s'. ai_security_analyze_event s ev = Inr (ev', s') \<and>
     unat (ev_threat_score ev') =
       min 100 (base_score (process_profiles m ! i) ev
         + (if trust_score (process_profiles m ! i) < f32_lit (3 / 10) then 20 else 0)
         + (if 5 < unat (anomaly_count (process_profiles m ! i)) then 15 else 0)) \<and>
     (ev_type ev = AI_SECURITY_EVENT_PRIVILEGE_ESCALATION \<and>
      trust_score (process_profiles m ! i) = f32_lit (2 / 10) \<and>
      unat (anomaly_count (process_profiles m ! i)) \<le> 5 \<and>
      ai_security_threat_threshold s = 75
      \<longrightarrow> ev_threat_score ev' = 80 \<and> threat_level ev' = AI_SECURITY_THREAT_HIGH \<and>
          recommended_action ev' = AI_SECURITY_ACTION_BLOCK)"
proof -
  let ?p = "process_profiles m ! i"
  let ?ev = "assess_event (ai_security_threat_threshold s) ?p (of_nat (base_score ?p ev)) ev"
  from prof mgr have look: "ai_security_profile_lookup (process_profiles m) (ev_pid ev) = Some i"
    by (simp add: ai_security_get_profile_def)
  from analyze_event_found [OF mgr look event_type_score_base [OF desc]]
  obtain s' where run: "ai_security_analyze_event s ev = Inr (?ev, s')"
    by blast
  have score: "unat (ev_threat_score ?ev) =
       min 100 (base_score ?p ev
         + (if trust_score ?p < f32_lit (3 / 10) then 20 else 0)
         + (if 5 < unat (anomaly_count ?p) then 15 else 0))"
  proof -
    have 1: "ev_threat_score ?ev = min (of_nat (base_score ?p ev) + profile_adjustment ?p) 100"
      by (simp add: fresh)
    show ?thesis
      unfolding 1 unat_min_100 unat_score_sum [OF base_score_le] unat_profile_adjustment
      by (simp add: min.commute add.assoc)
  qed
  have scen: "ev_threat_score ?ev = 80 \<and> threat_level ?ev = AI_SECURITY_THREAT_HIGH \<and>
          recommended_action ?ev = AI_SECURITY_ACTION_BLOCK"
    if "ev_type ev = AI_SECURITY_EVENT_PRIVILEGE_ESCALATION"
      and "trust_score ?p = f32_lit (2 / 10)"
      and "unat (anomaly_count ?p) \<le> 5"
      and "ai_security_threat_threshold s = 75"
  proof -
    from that(3) have "\<not> 5 < anomaly_count ?p" by (simp add: word_less_nat_alt)
    moreover from that(2) have "trust_score ?p < f32_lit (3 / 10)"
      unfolding f32_lit_02 f32_lit_03 by simp
    ultimately show ?thesis using that(1,4)
      by (simp add: fresh base_score_def profile_adjustment_def
          ai_security_classify_threat_def recommend_action_def)
  qed
  from run score scen show ?thesis by blast
qed


text \<open>
  Claim C2. For an event as \<^verbatim>\<open>ai_security_create_event\<close> leaves it (score 0) and a
  profile found for its pid, whose trust is a float, the analysis returns, and the score
  is the base score of the event type plus 20 when the trust is below 0.3 plus 15 when
  there are more than five anomalies, capped at 100. A privilege escalation by a process
  of trust \<^verbatim>\<open>0.2f\<close> (and no more than five anomalies) under the threshold 75 scores 80,
  is High and is to be blocked. A file-access event with a payload carries a description
  in every hook.
\<close>

theorem analyze_event_score:
  assumes mgr: "ai_sec_mgr s = Some m"
    and prof: "ai_security_get_profile s (ev_pid ev) = Some i"
    and fresh: "ev_threat_score ev = 0"
    and desc: "ev_type ev = AI_SECURITY_EVENT_FILE_ACCESS \<longrightarrow> event_data ev \<noteq> None
             \<longrightarrow> description ev \<noteq> None"
    and rep: "is_f32 (trust_score (process_profiles m ! i))"
  shows "\<exists>ev' s'. ai_security_analyze_event s ev = Inr (ev', s') \<and>
     unat (ev_threat_score ev') =
       min 100 (base_score (process_profiles m ! i) ev
         + (if trust_score (process_profiles m ! i) < 3 / 10 then 20 else 0)
         + (if 5 < unat (anomaly_count (process_profiles m ! i)) then 15 else 0)) \<and>
     (ev_type ev = AI_SECURITY_EVENT_PRIVILEGE_ESCALATION \<and>
      trust_score (process_profiles m ! i) = f32_lit (2 / 10) \<and>
      unat (anomaly_count (process_profiles m ! i)) \<le> 5 \<and>
      ai_security_threat_threshold s = 75
      \<longrightarrow> ev_threat_score ev' = 80 \<and> threat_level ev' = AI_SECURITY_THREAT_HIGH \<and>
          recommended_action ev' = AI_SECURITY_ACTION_BLOCK)"
  using score_of_analysed_event [OF mgr prof fresh desc]
  unfolding f32_below_03 [OF rep] .

theorem analyze_event_score_witness:
  "ai_sec_mgr (state_with [low_trust_profile]) = Some (manager_with [low_trust_profile]) \<and>
   ai_security_get_profile (state_with [low_trust_profile])
     (ev_pid (example_event AI_SECURITY_EVENT_PRIVILEGE_ESCALATION)) = Some 0 \<and>
   ev_threat_score (example_event AI_SECURITY_EVENT_PRIVILEGE_ESCALATION) = 0 \<and>
   trust_score low_trust_profile = f32_lit (2 / 10) \<and>
   is_f32 (trust_score low_trust_profile) \<and>
   (\<exists>ev' s'. ai_security_analyze_event (state_with [low_trust_profile])
        (example_event AI_SECURITY_EVENT_PRIVILEGE_ESCALATION) = Inr (ev', s') \<and>
      ev_threat_score ev' = 80 \<and> threat_level ev' = AI_SECURITY_THREAT_HIGH \<and>
      recommended_action ev' = AI_SECURITY_ACTION_BLOCK)"
proof -
  let ?s = "state_with [low_trust_profile]"
  let ?ev = "example_event AI_SECURITY_EVENT_PRIVILEGE_ESCALATION"
  have mgr: "ai_sec_mgr ?s = Some (manager_with [low_trust_profile])"
    by (simp add: state_with_simps)
  have prof: "ai_security_get_profile ?s (ev_pid ?ev) = Some 0"
    by (simp add: ai_security_get_profile_def state_with_simps example_event_simps
        low_trust_profile_def example_profile_simps)
  have fresh: "ev_threat_score ?ev = 0"
    by (simp add: example_event_simps)
  have desc: "ev_type ?ev = AI_SECURITY_EVENT_FILE_ACCESS \<longrightarrow> event_data ?ev \<noteq> None
             \<longrightarrow> description ?ev \<noteq> None"
    by (simp add: example_event_simps)
  have trust: "trust_score low_trust_profile = f32_lit (2 / 10)"
    by (simp add: low_trust_profile_def)
  have anom: "unat (anomaly_count low_trust_profile) \<le> 5"
    by (simp add: low_trust_profile_def example_profile_simps)
  have rep: "is_f32 (trust_score (process_profiles (manager_with [low_trust_profile]) ! 0))"
    unfolding is_f32_def state_with_simps nth_Cons_0 trust f32_lit_02
    by (subst round_f32_eq [of "- 3"]) (simp_all add: pow2_def rne_def Let_def)
  from rep have rep': "is_f32 (trust_score low_trust_profile)"
    by (simp add: state_with_simps)
  from analyze_event_score [OF mgr prof fresh desc rep] trust anom mgr prof fresh rep'
  show ?thesis
    by (simp add: state_with_simps example_event_simps) blast
qed

text \<open>
  Claim C3. For an event whose profile is found, under any threshold: the action is
  Terminate when the score reaches the threshold and 90, Block when it reaches the
  threshold and lies in 80 to 89, Quarantine when it reaches the threshold and is below
  80, Warn when it is below the threshold and at least 50, and Allow otherwise.
\<close>

theorem analyze_event_action:
  assumes mgr: "ai_sec_mgr s = Some m"
    and prof: "ai_security_get_profile s (ev_pid ev) = Some i"
    and desc: "ev_type ev = AI_SECURITY_EVENT_FILE_ACCESS \<longrightarrow> event_data ev \<noteq> None
             \<longrightarrow> description ev \<noteq> None"
  shows "\<exists>ev' s'. ai_security_analyze_event s ev = Inr (ev', s') \<and>
     (unat (ai_security_threat_threshold s) \<le> unat (ev_threat_score ev') \<and>
      90 \<le> unat (ev_threat_score ev')
        \<longrightarrow> recommended_action ev' = AI_SECURITY_ACTION_TERMINATE) \<and>
     (unat (ai_security_threat_threshold s) \<le> unat (ev_threat_score ev') \<and>
      80 \<le> unat (ev_threat_score ev') \<and> unat (ev_threat_score ev') < 90
        \<longrightarrow> recommended_action ev' = AI_SECURITY_ACTION_BLOCK) \<and>
     (unat (ai_security_threat_threshold s) \<le> unat (ev_threat_score ev') \<and>
      unat (ev_threat_score ev') < 80
        \<longrightarrow> recommended_action ev' = AI_SECURITY_ACTION_QUARANTINE) \<and>
     (50 \<le> unat (ev_threat_score ev') \<and>
      unat (ev_threat_score ev') < unat (ai_security_threat_threshold s)
        \<longrightarrow> recommended_action ev' = AI_SECURITY_ACTION_WARN) \<and>
     (unat (ev_threat_score ev') < 50 \<and>
      unat (ev_threat_score ev') < unat (ai_security_threat_threshold s)
        \<longrightarrow> recommended_action ev' = AI_SECURITY_ACTION_ALLOW)"
proof -
  from analyze_event_result [OF mgr prof desc]
  obtain s' where run: "ai_security_analyze_event s ev =
     Inr (assess_event (ai_security_threat_threshold s) (process_profiles m ! i)
            (of_nat (base_score (process_profiles m ! i) ev)) ev, s')"
    by blast
  show ?thesis
    unfolding run
    by (simp add: recommend_action_def word_le_nat_alt)
qed

theorem analyze_event_action_witness:
  "ai_sec_mgr (state_with [low_trust_profile]) = Some (manager_with [low_trust_profile]) \<and>
   ai_security_get_profile (state_with [low_trust_profile])
     (ev_pid (example_event AI_SECURITY_EVENT_PRIVILEGE_ESCALATION)) = Some 0 \<and>
   ev_type (example_event AI_SECURITY_EVENT_PRIVILEGE_ESCALATION)
     \<noteq> AI_SECURITY_EVENT_FILE_ACCESS \<and>
   unat (ai_security_threat_threshold (state_with [low_trust_profile])) = 75 \<and>
   (\<exists>ev' s'. ai_security_analyze_event (state_with [low_trust_profile])
        (example_event AI_SECURITY_EVENT_PRIVILEGE_ESCALATION) = Inr (ev', s') \<and>
      unat (ev_threat_score ev') = 80 \<and>
      recommended_action ev' = AI_SECURITY_ACTION_BLOCK)"
proof -
  let ?s = "state_with [low_trust_profile]"
  let ?ev = "example_event AI_SECURITY_EVENT_PRIVILEGE_ESCALATION"
  have mgr: "ai_sec_mgr ?s = Some (manager_with [low_trust_profile])"
    by (simp add: state_with_simps)
  have prof: "ai_security_get_profile ?s (ev_pid ?ev) = Some 0"
    by (simp add: ai_security_get_profile_def state_with_simps example_event_simps
        low_trust_profile_def example_profile_simps)
  have ty: "ev_type ?ev \<noteq> AI_SECURITY_EVENT_FILE_ACCESS"
    by (simp add: example_event_simps)
  then have desc: "ev_type ?ev = AI_SECURITY_EVENT_FILE_ACCESS \<longrightarrow> event_data ?ev \<noteq> None
             \<longrightarrow> description ?ev \<noteq> None"
    by simp
  have thr: "unat (ai_security_threat_threshold ?s) = 75"
    by (simp add: state_with_simps)
  have lt: "trust_score low_trust_profile < f32_lit (3 / 10)"
    unfolding low_trust_profile_def f32_lit_02 f32_lit_03 by simp
  from analyze_event_result [OF mgr prof desc]
  obtain s' where run: "ai_security_analyze_event ?s ?ev =
     Inr (assess_event (ai_security_threat_threshold ?s) low_trust_profile
            (of_nat (base_score low_trust_profile ?ev)) ?ev, s')"
    by (auto simp: state_with_simps)
  have score: "unat (ev_threat_score (assess_event (ai_security_threat_threshold ?s)
      low_trust_profile (of_nat (base_score low_trust_profile ?ev)) ?ev)) = 80"
    using lt
    by (simp add: example_event_simps base_score_def profile_adjustment_def
        low_trust_profile_def example_profile_simps)
  from analyze_event_action [OF mgr prof desc] run score thr
  have "recommended_action (assess_event (ai_security_threat_threshold ?s)
      low_trust_profile (of_nat (base_score low_trust_profile ?ev)) ?ev)
        = AI_SECURITY_ACTION_BLOCK"
    by simp
  with mgr prof ty thr run score show ?thesis by simp
qed

subsection \<open>Confidence\<close>

lemma round_f32_nonneg: "0 \<le> q \<Longrightarrow> 0 \<le> round_f32 q"
  using pow2_pos [of "f32_exp q - 23"]
  by (simp add: round_f32_def Let_def rne_nonneg)

lemma round_f32_le_double: 
  assumes "0 \<le> q" shows "round_f32 q \<le> 2 * q"
proof -
  let ?u = "pow2 (f32_exp q - 23)"
  have u: "0 < ?u" by (rule pow2_pos)
  with assms have "0 \<le> q / ?u" by simp
  then have "of_int (rne (q / ?u)) \<le> 2 * (q / ?u)" by (rule rne_le_double)
  with u have "of_int (rne (q / ?u)) * ?u \<le> 2 * (q / ?u) * ?u"
    by (simp only: mult_le_cancel_right_pos)
  with u show ?thesis by (simp add: round_f32_def Let_def)
qed

lemma unat_f32_to_u32:
  assumes "0 \<le> x" "x < 2 ^ 32"
  shows "unat (f32_to_u32 x) = nat \<lfloor>x\<rfloor>"
proof -
  have "0 \<le> \<lfloor>x\<rfloor>" using assms by simp
  moreover have "\<lfloor>x\<rfloor> < 2 ^ 32" using assms
    by (metis floor_less_iff of_int_numeral of_int_power)
  ultimately show ?thesis using assms
    by (simp add: f32_to_u32_def unat_eq_nat_uint uint_word_of_int take_bit_int_eq_self)
qed

lemma u32_to_f32_30: "u32_to_f32 30 = 30"
  unfolding u32_to_f32_def by (subst round_f32_eq [of 4]) (simp_all add: pow2_def rne_def Let_def)

lemma f32_lit_200: "f32_lit 200 = 200"
  unfolding f32_lit_def by (subst round_f32_eq [of 7]) (simp_all add: pow2_def rne_def Let_def)

lemma fdiv_30_200: "fdiv 30 200 = 5033165 / 33554432"
  unfolding fdiv_def by (subst round_f32_eq [of "- 3"]) (simp_all add: pow2_def rne_def Let_def)

lemma fsub_behavior_1: "fsub (13421773 / 16777216) (5033165 / 33554432) = 5452595 / 8388608"
  unfolding fsub_def by (subst round_f32_eq [of "- 1"]) (simp_all add: pow2_def rne_def Let_def)

lemma fsub_behavior_2: "fsub (5452595 / 8388608) (5033165 / 33554432) = 16777215 / 33554432"
  unfolding fsub_def by (subst round_f32_eq [of "- 2"]) (simp_all add: pow2_def rne_def Let_def)

lemma fmul_behavior_2: "fmul (16777215 / 33554432) 100 = 13107199 / 262144"
  unfolding fmul_def by (subst round_f32_eq [of 5]) (simp_all add: pow2_def rne_def Let_def)

lemma example_profile_behavior: "behavior_score example_profile = 13421773 / 16777216"
  by (simp only: example_profile_simps f32_lit_08)

lemma twice_flagged_behavior: "behavior_score twice_flagged_profile = 16777215 / 33554432"
  unfolding twice_flagged_profile_def update_profile_metrics_def Let_def
  by (simp add: flagged_event_def example_event_def example_profile_behavior u32_to_f32_30
      f32_lit_200 fdiv_30_200 fsub_behavior_1 fsub_behavior_2)

lemma twice_flagged_pid: "pr_pid twice_flagged_profile = 42"
  unfolding twice_flagged_profile_def update_profile_metrics_def Let_def
  by (simp add: example_profile_simps)

text \<open>
  Claim C9, as stated, fails: the confidence is not the scaled behaviour score rounded to
  nearest. After two file-access events of score 30 the behaviour score of a new process
  is \<open>16777215 / 33554432\<close>, just below one half; scaled by 100 it is just below 50,
  the specification's rounding gives 50, and the analysis of the next event reports 49.
\<close>

theorem confidence_not_rounded:
  "behavior_score twice_flagged_profile = 16777215 / 33554432 \<and>
   map_sum id (confidence \<circ> fst)
     (ai_security_analyze_event (state_with [twice_flagged_profile])
        (example_event AI_SECURITY_EVENT_FILE_ACCESS)) = Inr 49 \<and>
   spec_confidence (behavior_score twice_flagged_profile) = 50"
proof -
  let ?s = "state_with [twice_flagged_profile]"
  let ?ev = "example_event AI_SECURITY_EVENT_FILE_ACCESS"
  have mgr: "ai_sec_mgr ?s = Some (manager_with [twice_flagged_profile])"
    by (simp add: state_with_simps)
  have prof: "ai_security_get_profile ?s (ev_pid ?ev) = Some 0"
    by (simp add: ai_security_get_profile_def state_with_simps example_event_simps
        twice_flagged_pid)
  have desc: "ev_type ?ev = AI_SECURITY_EVENT_FILE_ACCESS \<longrightarrow> event_data ?ev \<noteq> None
             \<longrightarrow> description ?ev \<noteq> None"
    by (simp add: example_event_simps)
  from analyze_event_result [OF mgr prof desc]
  obtain s' where run: "ai_security_analyze_event ?s ?ev =
     Inr (assess_event (ai_security_threat_threshold ?s) twice_flagged_profile
            (of_nat (base_score twice_flagged_profile ?ev)) ?ev, s')"
    by (auto simp: state_with_simps)
  have conf: "min (f32_to_u32 (fmul (16777215 / 33554432) (u32_to_f32 100))) 100 = (49 :: u32)"
    unfolding u32_to_f32_100 fmul_behavior_2 by (simp add: f32_to_u32_def)
  have spec: "spec_confidence (16777215 / 33554432) = 50"
    by (simp add: spec_confidence_def round_def)
  show ?thesis
    unfolding run by (simp add: conf twice_flagged_behavior spec)
qed

text \<open>
  Claim C9, amended. For a behaviour score between 0 and 1 the confidence is the
  single-precision product of the behaviour score and 100 with its fractional part
  discarded (the cast to \<^verbatim>\<open>u32\<close> truncates), and at most 100.
\<close>

theorem analyze_event_confidence:
  assumes mgr: "ai_sec_mgr s = Some m"
    and prof: "ai_security_get_profile s (ev_pid ev) = Some i"
    and desc: "ev_type ev = AI_SECURITY_EVENT_FILE_ACCESS \<longrightarrow> event_data ev \<noteq> None
             \<longrightarrow> description ev \<noteq> None"
    and lo: "0 \<le> behavior_score (process_profiles m ! i)"
    and hi: "behavior_score (process_profiles m ! i) \<le> 1"
  shows "\<exists>ev' s'. ai_security_analyze_event s ev = Inr (ev', s') \<and>
     unat (confidence ev') =
       min 100 (nat \<lfloor>fmul (behavior_score (process_profiles m ! i)) 100\<rfloor>)"
proof -
  let ?b = "behavior_score (process_profiles m ! i)"
  from analyze_event_result [OF mgr prof desc]
  obtain s' where run: "ai_security_analyze_event s ev =
     Inr (assess_event (ai_security_threat_threshold s) (process_profiles m ! i)
            (of_nat (base_score (process_profiles m ! i) ev)) ev, s')"
    by blast
  from lo have "0 \<le> ?b * 100" by simp
  then have "0 \<le> fmul ?b 100" and "fmul ?b 100 \<le> 2 * (?b * 100)"
    unfolding fmul_def by (rule round_f32_nonneg, rule round_f32_le_double)
  moreover from hi have "2 * (?b * 100) < 2 ^ 32" by simp
  ultimately have "unat (f32_to_u32 (fmul ?b 100)) = nat \<lfloor>fmul ?b 100\<rfloor>"
    by (intro unat_f32_to_u32) simp_all
  then have "unat (min (f32_to_u32 (fmul ?b 100)) 100) = min 100 (nat \<lfloor>fmul ?b 100\<rfloor>)"
    unfolding unat_min_100 by (simp only: min.commute)
  then show ?thesis
    unfolding run
    by (simp add: u32_to_f32_100)
qed

theorem analyze_event_confidence_witness:
  "ai_sec_mgr (state_with [example_profile]) = Some (manager_with [example_profile]) \<and>
   ai_security_get_profile (state_with [example_profile])
     (ev_pid (example_event AI_SECURITY_EVENT_PROCESS_EXEC)) = Some 0 \<and>
   ev_type (example_event AI_SECURITY_EVENT_PROCESS_EXEC) \<noteq> AI_SECURITY_EVENT_FILE_ACCESS \<and>
   0 \<le> behavior_score example_profile \<and> behavior_score example_profile \<le> 1 \<and>
   (\<exists>ev' s'. ai_security_analyze_event (state_with [example_profile])
        (example_event AI_SECURITY_EVENT_PROCESS_EXEC) = Inr (ev', s') \<and>
      unat (confidence ev') = 80)"
proof -
  let ?s = "state_with [example_profile]"
  let ?ev = "example_event AI_SECURITY_EVENT_PROCESS_EXEC"
  have mgr: "ai_sec_mgr ?s = Some (manager_with [example_profile])"
    by (simp add: state_with_simps)
  have prof: "ai_security_get_profile ?s (ev_pid ?ev) = Some 0"
    by (simp add: ai_security_get_profile_def state_with_simps example_event_simps
        example_profile_simps)
  have ty: "ev_type ?ev \<noteq> AI_SECURITY_EVENT_FILE_ACCESS"
    by (simp add: example_event_simps)
  then have desc: "ev_type ?ev = AI_SECURITY_EVENT_FILE_ACCESS \<longrightarrow> event_data ?ev \<noteq> None
             \<longrightarrow> description ?ev \<noteq> None"
    by simp
  have b: "behavior_score example_profile = 13421773 / 16777216"
    by (rule example_profile_behavior)
  have lo: "0 \<le> behavior_score (process_profiles (manager_with [example_profile]) ! 0)"
    and hi: "behavior_score (process_profiles (manager_with [example_profile]) ! 0) \<le> 1"
    by (simp_all add: state_with_simps b)
  from analyze_event_confidence [OF mgr prof desc lo hi] mgr prof ty
  show ?thesis
    by (simp add: state_with_simps b fmul_08_100)
qed

subsection \<open>Profile creation\<close>

lemma profile_lookup_None_iff:
  "ai_security_profile_lookup ps pid = None \<longleftrightarrow> pid \<notin> pr_pid ` set ps"
  by (induction ps) (auto split: option.splits)

lemma profile_lookup_Some:
  "ai_security_profile_lookup ps pid = Some i \<Longrightarrow> i < length ps \<and> pr_pid (ps ! i) = pid"
  by (induction ps arbitrary: i) (auto split: option.splits if_splits)

lemma profile_lookup_append_new:
  "pr_pid p = pid \<Longrightarrow> ai_security_profile_lookup (ps @ [p]) pid = Some (length ps)"
  by (induction ps) simp_all

lemma profile_lookup_append_other:
  "pr_pid p \<noteq> pid \<Longrightarrow>
   ai_security_profile_lookup (ps @ [p]) pid = ai_security_profile_lookup ps pid"
  by (induction ps) simp_all

lemma create_profile_new:
  assumes mgr: "ai_sec_mgr s = Some m"
    and none: "ai_security_get_profile s (task_pid t) = None"
    and alloc: "kzalloc_profile_ok e"
  shows "ai_security_create_profile e s t =
     Inr (s\<lparr>ai_sec_mgr := Some (m\<lparr>
            process_profiles := process_profiles m @ [new_profile e t],
            processes_monitored := processes_monitored m + 1\<rparr>)\<rparr>)"
  using assms by (simp add: ai_security_create_profile_def)

lemma new_profile_simps:
  "pr_pid (new_profile e t) = task_pid t"
  "pr_threat_score (new_profile e t) = 0"
  "current_threat (new_profile e t) = AI_SECURITY_THREAT_NONE"
  "behavior_score (new_profile e t) = f32_lit (8 / 10)"
  "risk_score (new_profile e t) = f32_lit (2 / 10)"
  "trust_score (new_profile e t) = f32_lit (7 / 10)"
  "anomaly_count (new_profile e t) = 0"
  by (simp_all add: new_profile_def)

lemma new_profile_adjustment: "profile_adjustment (new_profile e t) = 0"
proof -
  have "\<not> f32_lit (7 / 10) < f32_lit (3 / 10)"
    unfolding f32_lit_07 f32_lit_03 by simp
  then show ?thesis
    by (simp add: profile_adjustment_def new_profile_def)
qed

lemma new_profile_confidence:
  "min (f32_to_u32 (fmul (behavior_score (new_profile e t)) (u32_to_f32 100))) 100 = (80 :: u32)"
  unfolding new_profile_simps f32_lit_08 u32_to_f32_100 fmul_08_100
  by (simp add: f32_to_u32_def)

lemma unat_base_score: "unat (min (of_nat (base_score p ev)) (100 :: u32)) = base_score p ev"
proof -
  have "base_score p ev \<le> 60" by (rule base_score_le)
  then have "unat (of_nat (base_score p ev) :: u32) = base_score p ev"
    by (simp add: unat_of_nat)
  with \<open>base_score p ev \<le> 60\<close> show ?thesis
    by (simp add: unat_min_100)
qed

text \<open>
  Claim C10. A profile created for a pid that had none starts with threat score 0, threat
  level None, behaviour \<^verbatim>\<open>0.8f\<close>, risk \<^verbatim>\<open>0.2f\<close> and trust \<^verbatim>\<open>0.7f\<close>. The first event
  of that process therefore gets neither adjustment: its score is the base score of its
  type, and its confidence is 80.
\<close>

theorem new_profile_first_event:
  assumes mgr: "ai_sec_mgr s = Some m"
    and none: "ai_security_get_profile s (task_pid t) = None"
    and alloc: "kzalloc_profile_ok e"
  shows "\<exists>s' m' i. ai_security_create_profile e s t = Inr s' \<and> ai_sec_mgr s' = Some m' \<and>
     ai_security_get_profile s' (task_pid t) = Some i \<and>
     pr_threat_score (process_profiles m' ! i) = 0 \<and>
     current_threat (process_profiles m' ! i) = AI_SECURITY_THREAT_NONE \<and>
     behavior_score (process_profiles m' ! i) = f32_lit (8 / 10) \<and>
     risk_score (process_profiles m' ! i) = f32_lit (2 / 10) \<and>
     trust_score (process_profiles m' ! i) = f32_lit (7 / 10) \<and>
     (\<forall>ev. ev_pid ev = task_pid t \<and> ev_threat_score ev = 0 \<and>
        (ev_type ev = AI_SECURITY_EVENT_FILE_ACCESS \<longrightarrow> event_data ev \<noteq> None
           \<longrightarrow> description ev \<noteq> None)
        \<longrightarrow> (\<exists>ev' s''. ai_security_analyze_event s' ev = Inr (ev', s'') \<and>
               unat (ev_threat_score ev') = base_score (process_profiles m' ! i) ev \<and>
               confidence ev' = 80))"
proof -
  let ?p = "new_profile e t"
  let ?m = "m\<lparr>process_profiles := process_profiles m @ [?p],
               processes_monitored := processes_monitored m + 1\<rparr>"
  let ?s = "s\<lparr>ai_sec_mgr := Some ?m\<rparr>"
  let ?i = "length (process_profiles m)"
  have run: "ai_security_create_profile e s t = Inr ?s"
    by (rule create_profile_new [OF mgr none alloc])
  have mgr': "ai_sec_mgr ?s = Some ?m" by simp
  have prof: "ai_security_get_profile ?s (task_pid t) = Some ?i"
    by (simp add: ai_security_get_profile_def profile_lookup_append_new new_profile_simps)
  have nth: "process_profiles ?m ! ?i = ?p" by simp
  have first: "\<exists>ev' s''. ai_security_analyze_event ?s ev = Inr (ev', s'') \<and>
               unat (ev_threat_score ev') = base_score ?p ev \<and> confidence ev' = 80"
    if pid: "ev_pid ev = task_pid t" and fresh: "ev_threat_score ev = 0"
      and desc: "ev_type ev = AI_SECURITY_EVENT_FILE_ACCESS \<longrightarrow> event_data ev \<noteq> None
           \<longrightarrow> description ev \<noteq> None" for ev
  proof -
    from prof pid have prof': "ai_security_get_profile ?s (ev_pid ev) = Some ?i" by simp
    from analyze_event_result [OF mgr' prof' desc]
    obtain s'' where "ai_security_analyze_event ?s ev =
      Inr (assess_event (ai_security_threat_threshold ?s) ?p (of_nat (base_score ?p ev)) ev, s'')"
      unfolding nth by blast
    then show ?thesis
      by (simp add: fresh new_profile_adjustment unat_base_score new_profile_confidence)
  qed
  show ?thesis
    apply (rule exI [of _ ?s], rule exI [of _ ?m], rule exI [of _ ?i])
    apply (simp only: run mgr' prof nth new_profile_simps)
    using first apply simp
    done
qed

theorem new_profile_first_event_witness:
  "ai_sec_mgr initial_state = Some (manager_with []) \<and>
   ai_security_get_profile initial_state (task_pid example_task) = None \<and>
   kzalloc_profile_ok example_env \<and>
   ev_pid (example_event AI_SECURITY_EVENT_FILE_ACCESS) = task_pid example_task \<and>
   ev_threat_score (example_event AI_SECURITY_EVENT_FILE_ACCESS) = 0 \<and>
   event_data (example_event AI_SECURITY_EVENT_FILE_ACCESS) = None \<and>
   (\<exists>s' m' i. ai_security_create_profile example_env initial_state example_task = Inr s' \<and>
      ai_sec_mgr s' = Some m' \<and>
      ai_security_get_profile s' (task_pid example_task) = Some i \<and>
      trust_score (process_profiles m' ! i) = f32_lit (7 / 10) \<and>
      behavior_score (process_profiles m' ! i) = f32_lit (8 / 10) \<and>
      (\<exists>ev' s''. ai_security_analyze_event s' (example_event AI_SECURITY_EVENT_FILE_ACCESS)
           = Inr (ev', s'') \<and>
         unat (ev_threat_score ev') = 0 \<and> confidence ev' = 80))"
proof -
  let ?ev = "example_event AI_SECURITY_EVENT_FILE_ACCESS"
  have mgr: "ai_sec_mgr initial_state = Some (manager_with [])"
    by (simp add: initial_state_def ai_security_init_def manager_with_def)
  have none: "ai_security_get_profile initial_state (task_pid example_task) = None"
    by (simp add: ai_security_get_profile_def mgr manager_with_def)
  have alloc: "kzalloc_profile_ok example_env"
    by (simp add: example_env_def)
  have pid: "ev_pid ?ev = task_pid example_task"
    by (simp add: example_event_simps example_task_def)
  have fresh: "ev_threat_score ?ev = 0" and data: "event_data ?ev = None"
    by (simp_all add: example_event_simps)
  have base: "base_score p ?ev = 0" for p
    by (simp add: base_score_def sensitive_payload_def example_event_simps)
  from new_profile_first_event [OF mgr none alloc]
  obtain s' m' i where
    run: "ai_security_create_profile example_env initial_state example_task = Inr s'"
      "ai_sec_mgr s' = Some m'" "ai_security_get_profile s' (task_pid example_task) = Some i"
      "trust_score (process_profiles m' ! i) = f32_lit (7 / 10)"
      "behavior_score (process_profiles m' ! i) = f32_lit (8 / 10)"
    and first: "\<forall>ev. ev_pid ev = task_pid example_task \<and> ev_threat_score ev = 0 \<and>
        (ev_type ev = AI_SECURITY_EVENT_FILE_ACCESS \<longrightarrow> event_data ev \<noteq> None
           \<longrightarrow> description ev \<noteq> None)
        \<longrightarrow> (\<exists>ev' s''. ai_security_analyze_event s' ev = Inr (ev', s'') \<and>
               unat (ev_threat_score ev') = base_score (process_profiles m' ! i) ev \<and>
               confidence ev' = 80)"
    by blast
  from first [rule_format, of ?ev] pid fresh data
  have "\<exists>ev' s''. ai_security_analyze_event s' ?ev = Inr (ev', s'') \<and>
         unat (ev_threat_score ev') = 0 \<and> confidence ev' = 80"
    by (simp add: base)
  with run mgr none alloc pid fresh data show ?thesis by blast
qed

subsection \<open>The profile count\<close>

lemma full_profiles_length: "length full_profiles = 256"
  unfolding full_profiles_def by simp

lemma full_profiles_set: "set full_profiles = numbered_profile ` {100..<356}"
  unfolding full_profiles_def by (simp only: set_map set_upt)

lemma full_profiles_pids: "pid \<in> pr_pid ` set full_profiles \<Longrightarrow> 100 \<le> unat pid"
proof -
  assume "pid \<in> pr_pid ` set full_profiles"
  then obtain n where n: "100 \<le> n" "n < 356" and pid: "pid = of_nat n"
    unfolding full_profiles_set by (auto simp: numbered_profile_def)
  from n have "unat (of_nat n :: pid_t) = n" by (simp add: unat_of_nat)
  with n pid show ?thesis by simp
qed

lemma full_store_no_example:
  "ai_security_get_profile full_store (task_pid example_task) = None"
proof -
  have "task_pid example_task \<notin> pr_pid ` set full_profiles"
    using full_profiles_pids [of "task_pid example_task"]
    by (auto simp: example_task_def)
  then show ?thesis
    by (simp add: ai_security_get_profile_def full_store_def state_with_simps
        profile_lookup_None_iff)
qed

text \<open>
  Claim C7, as stated, fails: \<^verbatim>\<open>ai_security_create_profile\<close> never reads
  \<^verbatim>\<open>AI_SECURITY_MAX_PROFILES\<close>. In a store that holds 256 profiles, creating a profile
  for a pid without one returns 0 and leaves 257 profiles.
\<close>

theorem create_profile_beyond_maximum:
  "length (process_profiles (manager_with full_profiles)) = AI_SECURITY_MAX_PROFILES \<and>
   ai_sec_mgr full_store = Some (manager_with full_profiles) \<and>
   ai_security_get_profile full_store (task_pid example_task) = None \<and>
   ai_security_create_profile example_env full_store example_task =
     Inr (full_store\<lparr>ai_sec_mgr := Some ((manager_with full_profiles)\<lparr>
            process_profiles := full_profiles @ [new_profile example_env example_task],
            processes_monitored := 257\<rparr>)\<rparr>) \<and>
   length (full_profiles @ [new_profile example_env example_task])
     = AI_SECURITY_MAX_PROFILES + 1"
proof -
  have mgr: "ai_sec_mgr full_store = Some (manager_with full_profiles)"
    by (simp add: full_store_def state_with_simps)
  have alloc: "kzalloc_profile_ok example_env" by (simp add: example_env_def)
  have mon: "processes_monitored (manager_with full_profiles) + 1 = 257"
    unfolding manager_with_def by (simp add: full_profiles_length)
  from create_profile_new [OF mgr full_store_no_example alloc] mgr full_store_no_example
  show ?thesis
    by (simp add: state_with_simps full_profiles_length mon AI_SECURITY_MAX_PROFILES_def)
qed

text \<open>
  Claim C7, amended. With the maximum number of profiles or more in the store, creating
  a profile for a pid without one succeeds whenever the allocation does: the new profile
  is appended and is the one found for the pid. The creation fails only with
  \<open>ENOMEM\<close>, when the allocation fails.
\<close>

theorem create_profile_no_limit:
  assumes mgr: "ai_sec_mgr s = Some m"
    and full: "AI_SECURITY_MAX_PROFILES \<le> length (process_profiles m)"
    and none: "ai_security_get_profile s (task_pid t) = None"
  shows "(kzalloc_profile_ok e \<longrightarrow>
           (\<exists>s' m'. ai_security_create_profile e s t = Inr s' \<and> ai_sec_mgr s' = Some m' \<and>
              process_profiles m' = process_profiles m @ [new_profile e t] \<and>
              ai_security_get_profile s' (task_pid t) = Some (length (process_profiles m)))) \<and>
         (\<not> kzalloc_profile_ok e \<longrightarrow> ai_security_create_profile e s t = Inl ENOMEM)"
proof (cases "kzalloc_profile_ok e")
  case True
  from create_profile_new [OF mgr none True] True show ?thesis
    by (simp add: ai_security_get_profile_def profile_lookup_append_new new_profile_simps)
next
  case False
  with mgr none show ?thesis
    by (simp add: ai_security_create_profile_def)
qed

theorem create_profile_no_limit_witness:
  "ai_sec_mgr full_store = Some (manager_with full_profiles) \<and>
   AI_SECURITY_MAX_PROFILES \<le> length (process_profiles (manager_with full_profiles)) \<and>
   ai_security_get_profile full_store (task_pid example_task) = None \<and>
   kzalloc_profile_ok example_env \<and>
   (\<exists>s' m'. ai_security_create_profile example_env full_store example_task = Inr s' \<and>
      ai_sec_mgr s' = Some m' \<and> length (process_profiles m') = 257)"
proof -
  have mgr: "ai_sec_mgr full_store = Some (manager_with full_profiles)"
    by (simp add: full_store_def state_with_simps)
  have full: "AI_SECURITY_MAX_PROFILES \<le> length (process_profiles (manager_with full_profiles))"
    by (simp add: state_with_simps full_profiles_length AI_SECURITY_MAX_PROFILES_def)
  have alloc: "kzalloc_profile_ok example_env" by (simp add: example_env_def)
  from create_profile_no_limit [OF mgr full full_store_no_example, of example_env] alloc
  obtain s' m' where "ai_security_create_profile example_env full_store example_task = Inr s'"
    "ai_sec_mgr s' = Some m'"
    "process_profiles m' = process_profiles (manager_with full_profiles)
       @ [new_profile example_env example_task]"
    by blast
  moreover from this(3) have "length (process_profiles m') = 257"
    by (simp add: state_with_simps full_profiles_length AI_SECURITY_MAX_PROFILES_def)
  ultimately show ?thesis using mgr full full_store_no_example alloc by blast
qed

subsection \<open>Hooks and the list of recent events\<close>

lemma pr_pid_update_profile_metrics [simp]:
  "pr_pid (update_profile_metrics p ev) = pr_pid p"
  by (simp add: update_profile_metrics_def Let_def)

lemma map_pr_pid_update:
  "map pr_pid (ps[i := update_profile_metrics (ps ! i) ev]) = map pr_pid ps"
proof (cases "i < length ps")
  case True
  then have "(map pr_pid ps)[i := pr_pid (ps ! i)] = map pr_pid ps"
    by (metis list_update_id nth_map)
  then show ?thesis by (simp add: map_update)
next
  case False
  then have "length ps \<le> i" by simp
  then show ?thesis by (simp only: list_update_beyond)
qed

lemma create_event_Inr:
  assumes "ai_security_create_event e s ty = Inr (ev, s')"
  shows "ai_sec_mgr s' = ai_sec_mgr s"
    and "ai_security_threat_threshold s' = ai_security_threat_threshold s"
    and "ev_type ev = ty" and "ev_threat_score ev = 0"
    and "event_data ev = None" and "description ev = None"
  using assms by (auto simp: ai_security_create_event_def new_event_def split: if_splits)

lemma analyze_event_frame:
  assumes "ai_security_analyze_event s ev = Inr (ev', s')"
  shows "recent_events_of s' = recent_events_of s"
    and "profile_pids s' = profile_pids s"
    and "ai_sec_mgr s' \<noteq> None"
    and "ai_security_threat_threshold s' = ai_security_threat_threshold s"
    and "ai_security_auto_response s' = ai_security_auto_response s"
  using assms
  by (auto simp: ai_security_analyze_event_def recent_events_of_def profile_pids_def Let_def
      map_pr_pid_update split: option.splits sum.splits)

lemma make_decision_cases:
  assumes "ai_security_make_decision s ev = Inr (deny, ev', s')"
  obtains s1 m1 where
    "ai_security_analyze_event s ev = Inr (ev', s1) \<or> (s1 = s \<and> ev' = ev)"
    and "ai_sec_mgr s1 = Some m1"
    and "deny = deny_decision s1 ev'"
    and "s' = s1\<lparr>ai_sec_mgr := Some (update_statistics deny ev' m1)\<rparr>"
proof (cases "ai_security_analyze_event s ev")
  case (Inl f)
  with assms obtain m1 where "ai_sec_mgr s = Some m1" "ev' = ev"
    "deny = deny_decision s ev" "s' = s\<lparr>ai_sec_mgr := Some (update_statistics deny ev m1)\<rparr>"
    by (cases f) (auto simp: ai_security_make_decision_def Let_def split: option.splits)
  then show ?thesis using that [of s m1] by simp
next
  case (Inr r)
  obtain ev1 s1 where r: "r = (ev1, s1)" by (cases r)
  with Inr assms obtain m1 where "ai_sec_mgr s1 = Some m1" "ev' = ev1"
    "deny = deny_decision s1 ev1" "s' = s1\<lparr>ai_sec_mgr := Some (update_statistics deny ev1 m1)\<rparr>"
    by (auto simp: ai_security_make_decision_def Let_def split: option.splits)
  with Inr r show ?thesis using that [of s1 m1] by simp
qed

lemma make_decision_frame:
  assumes "ai_security_make_decision s ev = Inr (deny, ev', s')"
  shows "recent_events_of s' = recent_events_of s"
    and "profile_pids s' = profile_pids s"
    and "ai_sec_mgr s' \<noteq> None"
proof -
  from assms obtain s1 m1 where
    a: "ai_security_analyze_event s ev = Inr (ev', s1) \<or> (s1 = s \<and> ev' = ev)"
    and m1: "ai_sec_mgr s1 = Some m1"
    and s': "s' = s1\<lparr>ai_sec_mgr := Some (update_statistics deny ev' m1)\<rparr>"
    by (rule make_decision_cases)
  from a have "recent_events_of s1 = recent_events_of s \<and> profile_pids s1 = profile_pids s"
    using analyze_event_frame(1,2) by blast
  with m1 s' show "recent_events_of s' = recent_events_of s"
    and "profile_pids s' = profile_pids s" and "ai_sec_mgr s' \<noteq> None"
    by (auto simp: recent_events_of_def profile_pids_def update_statistics_def)
qed

lemma make_decision_result:
  assumes mgr: "ai_sec_mgr s = Some m"
    and prof: "ai_security_get_profile s (ev_pid ev) = Some i"
    and desc: "ev_type ev = AI_SECURITY_EVENT_FILE_ACCESS \<longrightarrow> event_data ev \<noteq> None
             \<longrightarrow> description ev \<noteq> None"
  shows "\<exists>deny s'. ai_security_make_decision s ev =
     Inr (deny, assess_event (ai_security_threat_threshold s) (process_profiles m ! i)
            (of_nat (base_score (process_profiles m ! i) ev)) ev, s')"
proof -
  from analyze_event_result [OF mgr prof desc]
  obtain s1 where run: "ai_security_analyze_event s ev =
     Inr (assess_event (ai_security_threat_threshold s) (process_profiles m ! i)
            (of_nat (base_score (process_profiles m ! i) ev)) ev, s1)"
    by blast
  from analyze_event_frame(3) [OF run] obtain m1 where "ai_sec_mgr s1 = Some m1" by blast
  with run show ?thesis
    by (simp add: ai_security_make_decision_def Let_def)
qed

lemma add_to_recent_events_result:
  assumes "ai_sec_mgr s \<noteq> None"
  shows "\<exists>s'. add_to_recent_events limit ev s = Inr s' \<and>
     recent_events_of s' =
       (if limit < ev_threat_score ev then recent_events_of s @ [ev] else recent_events_of s) \<and>
     profile_pids s' = profile_pids s"
  using assms
  by (auto simp: add_to_recent_events_def recent_events_of_def profile_pids_def)

lemma create_profile_frame:
  assumes "ai_security_create_profile e s t = Inr s'"
  shows "recent_events_of s' = recent_events_of s"
    and "profile_pids s' = profile_pids s \<or>
         (task_pid t \<notin> set (profile_pids s) \<and> profile_pids s' = profile_pids s @ [task_pid t])"
    and "ai_security_threat_threshold s' = ai_security_threat_threshold s"
  using assms
  by (auto simp: ai_security_create_profile_def ai_security_get_profile_def
      recent_events_of_def profile_pids_def profile_lookup_None_iff new_profile_simps
      split: option.splits if_splits)

lemma get_profile_cong:
  "ai_sec_mgr s' = ai_sec_mgr s \<Longrightarrow> ai_security_get_profile s' pid = ai_security_get_profile s pid"
  by (simp add: ai_security_get_profile_def)

lemma recent_events_of_cong:
  "ai_sec_mgr s' = ai_sec_mgr s \<Longrightarrow> recent_events_of s' = recent_events_of s"
  by (simp add: recent_events_of_def)

lemma profile_pids_cong:
  "ai_sec_mgr s' = ai_sec_mgr s \<Longrightarrow> profile_pids s' = profile_pids s"
  by (simp add: profile_pids_def)

lemma file_event_details_simps:
  "ev_pid (file_event_details e t f ev) = task_pid t"
  "ev_type (file_event_details e t f ev) = ev_type ev"
  "ev_threat_score (file_event_details e t f ev) = ev_threat_score ev"
  by (simp_all add: file_event_details_def Let_def split: option.splits)

lemma file_event_details_description:
  "event_data ev = None \<Longrightarrow> event_data (file_event_details e t f ev) \<noteq> None
   \<Longrightarrow> description (file_event_details e t f ev) \<noteq> None"
  by (auto simp: file_event_details_def Let_def split: option.splits if_splits)

text \<open>What holds when a hook has built its event.\<close>

lemma file_permission_event_Inr:
  assumes "file_permission_event e s t file = Inr (ev, s1)"
  shows "\<exists>m1 i. ai_sec_mgr s1 = Some m1 \<and> ai_security_get_profile s1 (ev_pid ev) = Some i"
    and "event_data ev \<noteq> None \<longrightarrow> description ev \<noteq> None"
    and "ev_type ev = AI_SECURITY_EVENT_FILE_ACCESS" and "ev_threat_score ev = 0"
    and "recent_events_of s1 = recent_events_of s"
    and "profile_pids s1 = profile_pids s \<or>
         (task_pid t \<notin> set (profile_pids s) \<and> profile_pids s1 = profile_pids s @ [task_pid t])"
proof -
  define s0 where "s0 = (case ai_security_get_profile s (task_pid t) of
                              Some i \<Rightarrow> s
                            | None \<Rightarrow>
                                (case ai_security_create_profile e s t of
                                   Inl err \<Rightarrow> s
                                 | Inr s' \<Rightarrow> s'))"
  from assms obtain f ev0 i where
    prof0: "ai_security_get_profile s0 (task_pid t) = Some i"
    and ce: "ai_security_create_event e s0 AI_SECURITY_EVENT_FILE_ACCESS = Inr (ev0, s1)"
    and ev: "ev = file_event_details e t f ev0"
    unfolding file_permission_event_def Let_def s0_def [symmetric]
    by (auto split: option.splits if_splits sum.splits)
  note c = create_event_Inr [OF ce]
  have frame0: "recent_events_of s0 = recent_events_of s \<and>
     (profile_pids s0 = profile_pids s \<or>
         (task_pid t \<notin> set (profile_pids s) \<and> profile_pids s0 = profile_pids s @ [task_pid t]))"
    unfolding s0_def using create_profile_frame [of e s t]
    by (auto split: option.splits sum.splits)
  from prof0 obtain m1 where "ai_sec_mgr s0 = Some m1"
    by (auto simp: ai_security_get_profile_def split: option.splits)
  with c(1) prof0 show "\<exists>m1 i. ai_sec_mgr s1 = Some m1 \<and> ai_security_get_profile s1 (ev_pid ev) = Some i"
    by (simp add: ev file_event_details_simps get_profile_cong [OF c(1)])
  show "event_data ev \<noteq> None \<longrightarrow> description ev \<noteq> None"
    unfolding ev using file_event_details_description [OF c(5)] by blast
  show "ev_type ev = AI_SECURITY_EVENT_FILE_ACCESS" and "ev_threat_score ev = 0"
    by (simp_all add: ev file_event_details_simps c)
  from frame0 show "recent_events_of s1 = recent_events_of s"
    by (simp add: recent_events_of_cong [OF c(1)])
  from frame0 show "profile_pids s1 = profile_pids s \<or>
         (task_pid t \<notin> set (profile_pids s) \<and> profile_pids s1 = profile_pids s @ [task_pid t])"
    by (simp add: profile_pids_cong [OF c(1)])
qed

lemma task_fix_setuid_event_Inr:
  assumes "task_fix_setuid_event e s t new_uid old_uid = Inr (ev, s1)"
  shows "\<exists>m1 i. ai_sec_mgr s1 = Some m1 \<and> ai_security_get_profile s1 (ev_pid ev) = Some i"
    and "ev_type ev = AI_SECURITY_EVENT_PRIVILEGE_ESCALATION" and "ev_threat_score ev = 0"
    and "recent_events_of s1 = recent_events_of s"
    and "profile_pids s1 = profile_pids s"
proof -
  from assms obtain m ev0 i where
    mgr: "ai_sec_mgr s = Some m"
    and prof: "ai_security_get_profile s (task_pid t) = Some i"
    and ce: "ai_security_create_event e s AI_SECURITY_EVENT_PRIVILEGE_ESCALATION = Inr (ev0, s1)"
    and ev: "ev = ev0\<lparr> ev_pid := task_pid t, uid := new_uid,
                               ev_comm := take 15 (task_comm t),
                               description :=
                                 (if kmalloc_description_ok e
                                  then Some ''Privilege escalation'' else None) \<rparr>"
    unfolding task_fix_setuid_event_def
    by (auto split: option.splits if_splits sum.splits)
  note c = create_event_Inr [OF ce]
  from mgr prof c(1) show "\<exists>m1 i. ai_sec_mgr s1 = Some m1 \<and> ai_security_get_profile s1 (ev_pid ev) = Some i"
    by (simp add: ev get_profile_cong [OF c(1)])
  show "ev_type ev = AI_SECURITY_EVENT_PRIVILEGE_ESCALATION" and "ev_threat_score ev = 0"
    by (simp_all add: ev c)
  show "recent_events_of s1 = recent_events_of s" and "profile_pids s1 = profile_pids s"
    by (simp_all add: recent_events_of_cong [OF c(1)] profile_pids_cong [OF c(1)])
qed

lemma privilege_escalation_score:
  assumes "ev_type ev = AI_SECURITY_EVENT_PRIVILEGE_ESCALATION" and "ev_threat_score ev = 0"
  shows "60 \<le> unat (ev_threat_score (assess_event thr p (of_nat (base_score p ev)) ev))"
proof -
  have "base_score p ev = 60" using assms(1) by (simp add: base_score_def)
  moreover have "unat (of_nat (base_score p ev) + profile_adjustment p)
      = base_score p ev + unat (profile_adjustment p)"
    by (rule unat_score_sum [OF base_score_le])
  ultimately show ?thesis
    by (simp add: assms(2) unat_min_100)
qed

lemma hook_tail_retention:
  assumes mgr: "ai_sec_mgr s1 = Some m1"
    and prof: "ai_security_get_profile s1 (ev_pid ev) = Some i"
    and desc: "ev_type ev = AI_SECURITY_EVENT_FILE_ACCESS \<longrightarrow> event_data ev \<noteq> None
             \<longrightarrow> description ev \<noteq> None"
  shows "\<exists>deny ev' s2 s3. ai_security_make_decision s1 ev = Inr (deny, ev', s2) \<and>
     ev' = assess_event (ai_security_threat_threshold s1) (process_profiles m1 ! i)
            (of_nat (base_score (process_profiles m1 ! i) ev)) ev \<and>
     add_to_recent_events limit ev' s2 = Inr s3 \<and>
     recent_events_of s3 =
       (if limit < ev_threat_score ev' then recent_events_of s1 @ [ev'] else recent_events_of s1) \<and>
     profile_pids s3 = profile_pids s1"
proof -
  from make_decision_result [OF mgr prof desc] obtain deny s2 where
    run: "ai_security_make_decision s1 ev =
     Inr (deny, assess_event (ai_security_threat_threshold s1) (process_profiles m1 ! i)
            (of_nat (base_score (process_profiles m1 ! i) ev)) ev, s2)"
    by blast
  note f = make_decision_frame [OF run]
  from add_to_recent_events_result [OF f(3)] f(1,2) run show ?thesis
    by metis
qed

lemma new_event_simps:
  "ev_type (new_event e s ty) = ty"
  "ev_threat_score (new_event e s ty) = 0"
  "event_data (new_event e s ty) = None"
  "description (new_event e s ty) = None"
  by (simp_all add: new_event_def)

lemma example_profile_adjustment: "profile_adjustment example_profile = 0"
  unfolding example_profile_def by (rule new_profile_adjustment)

lemma example_file_event:
  "file_permission_event example_env (state_with [example_profile]) example_task
     (Some sensitive_file) =
   Inr (file_event_details example_env example_task sensitive_file
          (new_event example_env (state_with [example_profile]) AI_SECURITY_EVENT_FILE_ACCESS),
        (state_with [example_profile])\<lparr>event_id_counter := 2\<rparr>)"
  by (simp add: file_permission_event_def state_with_simps ai_security_get_profile_def
      example_profile_simps example_task_def ai_security_is_system_process_def
      ai_security_create_event_def example_env_def Let_def)

lemma example_setuid_event:
  "task_fix_setuid_event example_env (state_with [example_profile]) example_task 0 1000 =
   Inr ((new_event example_env (state_with [example_profile])
           AI_SECURITY_EVENT_PRIVILEGE_ESCALATION)
          \<lparr> ev_pid := 42, uid := 0, ev_comm := ''sh'',
            description := Some ''Privilege escalation'' \<rparr>,
        (state_with [example_profile])\<lparr>event_id_counter := 2\<rparr>)"
  by (simp add: task_fix_setuid_event_def state_with_simps ai_security_get_profile_def
      example_profile_simps example_task_def ai_security_is_system_process_def
      ai_security_create_event_def example_env_def)

text \<open>
  \<^verbatim>\<open>ai_security_task_create\<close> never changes the list of recent events: it analyses its
  event and frees it.
\<close>

lemma task_create_log:
  "recent_events_of (snd (ai_security_task_create e s t)) = recent_events_of s"
proof (cases "task_create_event e s t")
  case (Inl s')
  then have "s' = s"
    by (auto simp: task_create_event_def split: option.splits if_splits sum.splits)
  with Inl show ?thesis by (simp add: ai_security_task_create_def)
next
  case (Inr r)
  obtain ev s1 where r: "r = (ev, s1)" by (cases r)
  from Inr r have "ai_sec_mgr s1 = ai_sec_mgr s"
    by (auto simp: task_create_event_def ai_security_create_event_def
        split: option.splits if_splits)
  then have "recent_events_of s1 = recent_events_of s" by (rule recent_events_of_cong)
  then show ?thesis
    using analyze_event_frame(1) [of s1 ev]
    by (auto simp: ai_security_task_create_def Inr r split: sum.splits error.splits)
qed

text \<open>
  Claim C5, amended. When the file-permission hook or the setuid hook has built its
  event, the decision is made and the event is appended to the list of recent events
  exactly when its score is above 20; otherwise the list is as before. The
  file-permission hook tests the score against 20. The setuid hook tests it against 30,
  and its events score 60 or more, so they are kept and the two tests agree on them. The
  process-creation hook keeps no event, whatever its score: after the hook the list is
  as before.
\<close>

theorem event_retention:
  "(file_permission_event e s t file = Inr (evf, sf) \<longrightarrow>
      (\<exists>deny ev' s'. ai_security_make_decision sf evf = Inr (deny, ev', s') \<and>
         recent_events_of (snd (ai_security_file_permission e s t file)) =
           (if 20 < unat (ev_threat_score ev') then recent_events_of s @ [ev']
            else recent_events_of s))) \<and>
   (task_fix_setuid_event e s t new_uid old_uid = Inr (evp, sp) \<longrightarrow>
      (\<exists>deny ev' s'. ai_security_make_decision sp evp = Inr (deny, ev', s') \<and>
         recent_events_of (snd (ai_security_task_fix_setuid e s t new_uid old_uid)) =
           (if 20 < unat (ev_threat_score ev') then recent_events_of s @ [ev']
            else recent_events_of s))) \<and>
   recent_events_of (snd (ai_security_task_create e s t)) = recent_events_of s"
proof (intro conjI impI)
  assume ev: "file_permission_event e s t file = Inr (evf, sf)"
  note f = file_permission_event_Inr [OF ev]
  from f(1) obtain m1 i where mgr: "ai_sec_mgr sf = Some m1"
    and prof: "ai_security_get_profile sf (ev_pid evf) = Some i" by blast
  from f(2) have desc: "ev_type evf = AI_SECURITY_EVENT_FILE_ACCESS \<longrightarrow> event_data evf \<noteq> None
             \<longrightarrow> description evf \<noteq> None" by simp
  from hook_tail_retention [OF mgr prof desc, of 20] obtain deny ev' s2 s3 where
    run: "ai_security_make_decision sf evf = Inr (deny, ev', s2)"
    and keep: "add_to_recent_events 20 ev' s2 = Inr s3"
    and log: "recent_events_of s3 =
       (if 20 < ev_threat_score ev' then recent_events_of sf @ [ev'] else recent_events_of sf)"
    by blast
  have "recent_events_of (snd (ai_security_file_permission e s t file)) = recent_events_of s3"
    by (simp add: ai_security_file_permission_def ev run keep)
  with log f(5) run
  show "\<exists>deny ev' s'. ai_security_make_decision sf evf = Inr (deny, ev', s') \<and>
         recent_events_of (snd (ai_security_file_permission e s t file)) =
           (if 20 < unat (ev_threat_score ev') then recent_events_of s @ [ev']
            else recent_events_of s)"
    by (auto simp: word_less_nat_alt)
next
  assume ev: "task_fix_setuid_event e s t new_uid old_uid = Inr (evp, sp)"
  note f = task_fix_setuid_event_Inr [OF ev]
  from f(1) obtain m1 i where mgr: "ai_sec_mgr sp = Some m1"
    and prof: "ai_security_get_profile sp (ev_pid evp) = Some i" by blast
  from f(2) have desc: "ev_type evp = AI_SECURITY_EVENT_FILE_ACCESS \<longrightarrow> event_data evp \<noteq> None
             \<longrightarrow> description evp \<noteq> None" by simp
  from hook_tail_retention [OF mgr prof desc, of 30] obtain deny ev' s2 s3 where
    run: "ai_security_make_decision sp evp = Inr (deny, ev', s2)"
    and ev': "ev' = assess_event (ai_security_threat_threshold sp) (process_profiles m1 ! i)
            (of_nat (base_score (process_profiles m1 ! i) evp)) evp"
    and keep: "add_to_recent_events 30 ev' s2 = Inr s3"
    and log: "recent_events_of s3 =
       (if 30 < ev_threat_score ev' then recent_events_of sp @ [ev'] else recent_events_of sp)"
    by blast
  from privilege_escalation_score [OF f(2,3)] have big: "60 \<le> unat (ev_threat_score ev')"
    unfolding ev' .
  then have "30 < ev_threat_score ev'" by (simp add: word_less_nat_alt)
  with log have log': "recent_events_of s3 = recent_events_of sp @ [ev']" by simp
  have "recent_events_of (snd (ai_security_task_fix_setuid e s t new_uid old_uid))
      = recent_events_of s3"
    by (simp add: ai_security_task_fix_setuid_def ev run keep)
  with log' f(4) run big
  show "\<exists>deny ev' s'. ai_security_make_decision sp evp = Inr (deny, ev', s') \<and>
         recent_events_of (snd (ai_security_task_fix_setuid e s t new_uid old_uid)) =
           (if 20 < unat (ev_threat_score ev') then recent_events_of s @ [ev']
            else recent_events_of s)"
    by auto
next
  show "recent_events_of (snd (ai_security_task_create e s t)) = recent_events_of s"
    by (rule task_create_log)
qed

theorem event_retention_witness:
  "(\<exists>evf sf. file_permission_event example_env (state_with [example_profile]) example_task
       (Some sensitive_file) = Inr (evf, sf) \<and>
      (\<exists>deny ev' s'. ai_security_make_decision sf evf = Inr (deny, ev', s') \<and>
         unat (ev_threat_score ev') = 30 \<and>
         recent_events_of (snd (ai_security_file_permission example_env
           (state_with [example_profile]) example_task (Some sensitive_file))) = [ev'])) \<and>
   (\<exists>evp sp. task_fix_setuid_event example_env (state_with [example_profile]) example_task
       0 1000 = Inr (evp, sp) \<and>
      (\<exists>deny ev' s'. ai_security_make_decision sp evp = Inr (deny, ev', s') \<and>
         unat (ev_threat_score ev') = 60 \<and>
         recent_events_of (snd (ai_security_task_fix_setuid example_env
           (state_with [example_profile]) example_task 0 1000)) = [ev'])) \<and>
   recent_events_of (snd (ai_security_task_create example_env
     (state_with [example_profile]) example_task)) = []"
proof -
  let ?s = "state_with [example_profile]"
  let ?sf = "?s\<lparr>event_id_counter := 2\<rparr>"
  let ?evf = "file_event_details example_env example_task sensitive_file
          (new_event example_env ?s AI_SECURITY_EVENT_FILE_ACCESS)"
  let ?evp = "(new_event example_env ?s AI_SECURITY_EVENT_PRIVILEGE_ESCALATION)
          \<lparr> ev_pid := 42, uid := 0, ev_comm := ''sh'',
            description := Some ''Privilege escalation'' \<rparr>"
  have log0: "recent_events_of ?s = []"
    by (simp add: recent_events_of_def state_with_simps)
  have mgr: "ai_sec_mgr ?sf = Some (manager_with [example_profile])"
    by (simp add: state_with_simps)
  have nth: "process_profiles (manager_with [example_profile]) ! 0 = example_profile"
    by (simp add: state_with_simps)
  \<comment> \<open>the file access\<close>
  have proff: "ai_security_get_profile ?sf (ev_pid ?evf) = Some 0"
    by (simp add: ai_security_get_profile_def state_with_simps file_event_details_simps
        example_task_def example_profile_simps)
  have descf: "ev_type ?evf = AI_SECURITY_EVENT_FILE_ACCESS \<longrightarrow> event_data ?evf \<noteq> None
             \<longrightarrow> description ?evf \<noteq> None"
    by (simp add: file_event_details_def new_event_def sensitive_file_def example_env_def)
  have basef: "base_score example_profile ?evf = 30"
    by (simp add: base_score_def sensitive_payload_def file_event_details_def new_event_def
        sensitive_file_def example_env_def)
  from make_decision_result [OF mgr proff descf] obtain denyf sf' where
    runf: "ai_security_make_decision ?sf ?evf =
      Inr (denyf, assess_event (ai_security_threat_threshold ?sf) example_profile
            (of_nat (base_score example_profile ?evf)) ?evf, sf')"
    unfolding nth by blast
  have scoref: "unat (ev_threat_score (assess_event (ai_security_threat_threshold ?sf)
      example_profile (of_nat (base_score example_profile ?evf)) ?evf)) = 30"
    by (simp add: basef example_profile_adjustment file_event_details_simps new_event_simps)
  from event_retention [of example_env ?s example_task "Some sensitive_file" ?evf ?sf]
    example_file_event runf scoref log0
  have filelog: "recent_events_of (snd (ai_security_file_permission example_env ?s example_task
      (Some sensitive_file))) =
        [assess_event (ai_security_threat_threshold ?sf) example_profile
           (of_nat (base_score example_profile ?evf)) ?evf]"
    by simp
  \<comment> \<open>the privilege escalation\<close>
  have profp: "ai_security_get_profile ?sf (ev_pid ?evp) = Some 0"
    by (simp add: ai_security_get_profile_def state_with_simps example_profile_simps)
  have descp: "ev_type ?evp = AI_SECURITY_EVENT_FILE_ACCESS \<longrightarrow> event_data ?evp \<noteq> None
             \<longrightarrow> description ?evp \<noteq> None"
    by (simp add: new_event_def)
  have basep: "base_score example_profile ?evp = 60"
    by (simp add: base_score_def new_event_def)
  from make_decision_result [OF mgr profp descp] obtain denyp sp' where
    runp: "ai_security_make_decision ?sf ?evp =
      Inr (denyp, assess_event (ai_security_threat_threshold ?sf) example_profile
            (of_nat (base_score example_profile ?evp)) ?evp, sp')"
    unfolding nth by blast
  have scorep: "unat (ev_threat_score (assess_event (ai_security_threat_threshold ?sf)
      example_profile (of_nat (base_score example_profile ?evp)) ?evp)) = 60"
    by (simp add: basep example_profile_adjustment new_event_simps)
  from event_retention [of example_env ?s example_task _ _ _ 0 1000 ?evp ?sf]
    example_setuid_event runp scorep log0
  have setuid: "recent_events_of (snd (ai_security_task_fix_setuid example_env ?s example_task
      0 1000)) =
        [assess_event (ai_security_threat_threshold ?sf) example_profile
           (of_nat (base_score example_profile ?evp)) ?evp]"
    by simp
  from event_retention [of example_env ?s example_task] log0
  have create: "recent_events_of (snd (ai_security_task_create example_env ?s example_task))
      = []"
    by simp
  from example_file_event runf scoref filelog example_setuid_event runp scorep setuid create
  show ?thesis by blast
qed

text \<open>
  The example task opens a file, which creates its profile, and changes its uid six
  times. The six events score 60, 60, 60, 60, 80 and 80; the trust of the task falls
  from \<^verbatim>\<open>0.7f\<close> to 0 and its anomaly count rises to 6.
\<close>

lemma escalation_score_above_30: "30 < min (60 + profile_adjustment p) (100 :: u32)"
  by (simp add: profile_adjustment_def)

lemma single_profile:
  assumes "map pr_pid (profiles_of s) = [pid]"
  obtains m p where "ai_sec_mgr s = Some m" and "process_profiles m = [p]"
    and "profiles_of s = [p]" and "pr_pid p = pid"
  using assms by (auto simp: profiles_of_def split: option.splits)

lemma escalation_step:
  assumes pid: "map pr_pid (profiles_of s) = [42]"
    and an: "map anomaly_count (profiles_of s) = [a]"
    and tr: "map trust_score (profiles_of s) = [t]"
  shows "map pr_pid (profiles_of
           (snd (ai_security_task_fix_setuid example_env s example_task 0 1000))) = [42]"
    and "map anomaly_count (profiles_of
           (snd (ai_security_task_fix_setuid example_env s example_task 0 1000))) = [a + 1]"
    and "map trust_score (profiles_of
           (snd (ai_security_task_fix_setuid example_env s example_task 0 1000))) =
         [max 0 (fsub t (fdiv (u32_to_f32 (min (60 +
            ((if t < f32_lit (3 / 10) then 20 else 0) + (if 5 < a then 15 else 0))) 100))
            (f32_lit 500)))]"
proof -
  from pid obtain m p where mgr: "ai_sec_mgr s = Some m" and ps: "process_profiles m = [p]"
    and all: "profiles_of s = [p]" and p: "pr_pid p = 42"
    by (rule single_profile)
  from an tr all have a: "anomaly_count p = a" and t: "trust_score p = t" by simp_all
  have run: "profiles_of (snd (ai_security_task_fix_setuid example_env s example_task 0 1000))
      = [update_profile_metrics p
          (assess_event (ai_security_threat_threshold s) p 60
             ((new_event example_env s AI_SECURITY_EVENT_PRIVILEGE_ESCALATION)
                \<lparr> ev_pid := 42, uid := 0, ev_comm := ''sh'',
                  description := Some ''Privilege escalation'' \<rparr>))]"
    using mgr ps p
    by (simp add: ai_security_task_fix_setuid_def task_fix_setuid_event_def
      ai_security_is_system_process_def example_task_def example_env_def
      ai_security_get_profile_def ai_security_create_event_def new_event_def
      ai_security_make_decision_def ai_security_analyze_event_def event_type_score_def
      add_to_recent_events_def update_statistics_def profiles_of_def Let_def)
  show "map pr_pid (profiles_of
           (snd (ai_security_task_fix_setuid example_env s example_task 0 1000))) = [42]"
    unfolding run by (simp add: p)
  show "map anomaly_count (profiles_of
           (snd (ai_security_task_fix_setuid example_env s example_task 0 1000))) = [a + 1]"
    unfolding run using escalation_score_above_30 [of p]
    by (simp add: update_profile_metrics_def Let_def new_event_def a)
  show "map trust_score (profiles_of
           (snd (ai_security_task_fix_setuid example_env s example_task 0 1000))) =
         [max 0 (fsub t (fdiv (u32_to_f32 (min (60 +
            ((if t < f32_lit (3 / 10) then 20 else 0) + (if 5 < a then 15 else 0))) 100))
            (f32_lit 500)))]"
    unfolding run
    by (simp add: update_profile_metrics_def Let_def new_event_def profile_adjustment_def a t)
qed

lemma first_access_profile:
  "profiles_of (escalated_state 0) =
     [update_profile_metrics example_profile
        (assess_event 75 example_profile 0
           (file_event_details example_env example_task example_file
              (new_event example_env (state_with [example_profile])
                 AI_SECURITY_EVENT_FILE_ACCESS)))]"
  by (simp add: ai_security_file_permission_def file_permission_event_def Let_def
      initial_state_def ai_security_init_def
      module_loaded_def ai_security_get_profile_def example_task_def
      ai_security_is_system_process_def ai_security_create_event_def example_env_def
      ai_security_create_profile_def new_profile_def state_with_def manager_with_def
      example_profile_def new_event_def ai_security_make_decision_def
      ai_security_analyze_event_def event_type_score_def file_event_details_def
      example_file_def add_to_recent_events_def update_statistics_def profiles_of_def
      assess_event_def profile_adjustment_def f32_lit_07 f32_lit_03)

lemma round_f32_zero: "round_f32 0 = 0"
  by (simp add: round_f32_def Let_def rne_def)

lemma u32_to_f32_0: "u32_to_f32 0 = 0"
  by (simp add: u32_to_f32_def round_f32_zero)

lemma u32_to_f32_60: "u32_to_f32 60 = 60"
  unfolding u32_to_f32_def by (subst round_f32_eq [of 5]) (simp_all add: pow2_def rne_def Let_def)

lemma u32_to_f32_80: "u32_to_f32 80 = 80"
  unfolding u32_to_f32_def by (subst round_f32_eq [of 6]) (simp_all add: pow2_def rne_def Let_def)

lemma f32_lit_500: "f32_lit 500 = 500"
  unfolding f32_lit_def by (subst round_f32_eq [of 8]) (simp_all add: pow2_def rne_def Let_def)

lemma fdiv_0_500: "fdiv 0 500 = 0"
  by (simp add: fdiv_def round_f32_zero)

lemma fdiv_60_500: "fdiv 60 500 = 16106127 / 134217728"
  unfolding fdiv_def by (subst round_f32_eq [of "- 4"]) (simp_all add: pow2_def rne_def Let_def)

lemma fdiv_80_500: "fdiv 80 500 = 5368709 / 33554432"
  unfolding fdiv_def by (subst round_f32_eq [of "- 3"]) (simp_all add: pow2_def rne_def Let_def)

lemma fsub_trust_0: "fsub (11744051 / 16777216) 0 = 11744051 / 16777216"
  unfolding fsub_def by (subst round_f32_eq [of "- 1"]) (simp_all add: pow2_def rne_def Let_def)

lemma fsub_trust_1: "fsub (11744051 / 16777216) (16106127 / 134217728) = 9730785 / 16777216"
  unfolding fsub_def by (subst round_f32_eq [of "- 1"]) (simp_all add: pow2_def rne_def Let_def)

lemma fsub_trust_2: "fsub (9730785 / 16777216) (16106127 / 134217728) = 7717519 / 16777216"
  unfolding fsub_def by (subst round_f32_eq [of "- 2"]) (simp_all add: pow2_def rne_def Let_def)

lemma fsub_trust_3: "fsub (7717519 / 16777216) (16106127 / 134217728) = 5704253 / 16777216"
  unfolding fsub_def by (subst round_f32_eq [of "- 2"]) (simp_all add: pow2_def rne_def Let_def)

lemma fsub_trust_4: "fsub (5704253 / 16777216) (16106127 / 134217728) = 3690987 / 16777216"
  unfolding fsub_def by (subst round_f32_eq [of "- 3"]) (simp_all add: pow2_def rne_def Let_def)

lemma fsub_trust_5: "fsub (3690987 / 16777216) (5368709 / 33554432) = 2013265 / 33554432"
  unfolding fsub_def by (subst round_f32_eq [of "- 5"]) (simp_all add: pow2_def rne_def Let_def)

lemma fsub_trust_6: "fsub (2013265 / 33554432) (5368709 / 33554432) = - (838861 / 8388608)"
  unfolding fsub_def by (subst round_f32_eq [of "- 4"]) (simp_all add: pow2_def rne_def Let_def)

lemmas escalation_floats =
  f32_lit_03 f32_lit_07 f32_lit_500 u32_to_f32_0 u32_to_f32_60 u32_to_f32_80
  fdiv_0_500 fdiv_60_500 fdiv_80_500 fsub_trust_0 fsub_trust_1 fsub_trust_2 fsub_trust_3
  fsub_trust_4 fsub_trust_5 fsub_trust_6

lemma escalated_state_0:
  "map pr_pid (profiles_of (escalated_state 0)) = [42]"
  "map anomaly_count (profiles_of (escalated_state 0)) = [0]"
  "map trust_score (profiles_of (escalated_state 0)) = [11744051 / 16777216]"
  unfolding first_access_profile
  by (simp_all add: update_profile_metrics_def Let_def example_profile_simps
      file_event_details_simps new_event_simps profile_adjustment_def escalation_floats)

lemma escalated_state_numeral:
  "escalated_state (numeral k) =
     snd (ai_security_task_fix_setuid example_env (escalated_state (pred_numeral k))
            example_task 0 1000)"
  by (simp add: numeral_eq_Suc)

lemma escalated_state_1:
  "map pr_pid (profiles_of (escalated_state 1)) = [42]"
  "map anomaly_count (profiles_of (escalated_state 1)) = [1]"
  "map trust_score (profiles_of (escalated_state 1)) = [9730785 / 16777216]"
  using escalation_step [OF escalated_state_0]
  by (simp_all add: escalation_floats)

lemma escalated_state_2:
  "map pr_pid (profiles_of (escalated_state 2)) = [42]"
  "map anomaly_count (profiles_of (escalated_state 2)) = [2]"
  "map trust_score (profiles_of (escalated_state 2)) = [7717519 / 16777216]"
  using escalation_step [OF escalated_state_1]
  by (simp_all add: escalation_floats escalated_state_numeral)

lemma escalated_state_3:
  "map pr_pid (profiles_of (escalated_state 3)) = [42]"
  "map anomaly_count (profiles_of (escalated_state 3)) = [3]"
  "map trust_score (profiles_of (escalated_state 3)) = [5704253 / 16777216]"
  using escalation_step [OF escalated_state_2]
  by (simp_all add: escalation_floats escalated_state_numeral)

lemma escalated_state_4:
  "map pr_pid (profiles_of (escalated_state 4)) = [42]"
  "map anomaly_count (profiles_of (escalated_state 4)) = [4]"
  "map trust_score (profiles_of (escalated_state 4)) = [3690987 / 16777216]"
  using escalation_step [OF escalated_state_3]
  by (simp_all add: escalation_floats escalated_state_numeral)

lemma escalated_state_5:
  "map pr_pid (profiles_of (escalated_state 5)) = [42]"
  "map anomaly_count (profiles_of (escalated_state 5)) = [5]"
  "map trust_score (profiles_of (escalated_state 5)) = [2013265 / 33554432]"
  using escalation_step [OF escalated_state_4]
  by (simp_all add: escalation_floats escalated_state_numeral)

lemma escalated_state_6:
  "map pr_pid (profiles_of (escalated_state 6)) = [42]"
  "map anomaly_count (profiles_of (escalated_state 6)) = [6]"
  "map trust_score (profiles_of (escalated_state 6)) = [0]"
  using escalation_step [OF escalated_state_5]
  by (simp_all add: escalation_floats escalated_state_numeral)

lemma task_create_score_single_profile:
  assumes pid: "map pr_pid (profiles_of s) = [42]"
    and an: "map anomaly_count (profiles_of s) = [a]"
    and tr: "map trust_score (profiles_of s) = [t]"
  shows "task_create_score example_env s example_task =
     Some (min ((if t < f32_lit (3 / 10) then 20 else 0) + (if 5 < a then 15 else 0)) 100)"
proof -
  from pid obtain m p where mgr: "ai_sec_mgr s = Some m" and ps: "process_profiles m = [p]"
    and all: "profiles_of s = [p]" and p: "pr_pid p = 42"
    by (rule single_profile)
  from an tr all have a: "anomaly_count p = a" and t: "trust_score p = t" by simp_all
  from mgr ps p show ?thesis
    by (simp add: task_create_score_def task_create_event_def
      ai_security_is_system_process_def example_task_def example_env_def
      ai_security_get_profile_def ai_security_create_event_def new_event_def
      ai_security_analyze_event_def event_type_score_def Let_def
      profile_adjustment_def a t)
qed

lemma escalated_state_reachable: "reachable (escalated_state n) []"
proof (induction n)
  case 0
  show ?case
    unfolding escalated_state.simps initial_state_def
    by (intro reachable.file_permission reachable.init)
next
  case (Suc n)
  then show ?case
    unfolding escalated_state.simps by (rule reachable.task_fix_setuid)
qed

lemma escalation_log:
  assumes pid: "map pr_pid (profiles_of s) = [42]"
  shows "map pr_pid (profiles_of
           (snd (ai_security_task_fix_setuid example_env s example_task 0 1000))) = [42]"
    and "length (recent_events_of
           (snd (ai_security_task_fix_setuid example_env s example_task 0 1000))) =
         length (recent_events_of s) + 1"
proof -
  from pid obtain m p where mgr: "ai_sec_mgr s = Some m" and ps: "process_profiles m = [p]"
    and all: "profiles_of s = [p]" and p: "pr_pid p = 42"
    by (rule single_profile)
  from mgr ps p escalation_score_above_30 [of p]
  show "map pr_pid (profiles_of
           (snd (ai_security_task_fix_setuid example_env s example_task 0 1000))) = [42]"
    and "length (recent_events_of
           (snd (ai_security_task_fix_setuid example_env s example_task 0 1000))) =
         length (recent_events_of s) + 1"
    by (simp_all add: ai_security_task_fix_setuid_def task_fix_setuid_event_def
      ai_security_is_system_process_def example_task_def example_env_def
      ai_security_get_profile_def ai_security_create_event_def new_event_def
      ai_security_make_decision_def ai_security_analyze_event_def event_type_score_def
      add_to_recent_events_def update_statistics_def recent_events_of_def profiles_of_def
      Let_def)
qed

lemma first_access_log: "recent_events_of (escalated_state 0) = []"
  by (simp add: ai_security_file_permission_def file_permission_event_def Let_def
      initial_state_def ai_security_init_def
      module_loaded_def ai_security_get_profile_def example_task_def
      ai_security_is_system_process_def ai_security_create_event_def example_env_def
      ai_security_create_profile_def new_profile_def
      new_event_def ai_security_make_decision_def
      ai_security_analyze_event_def event_type_score_def file_event_details_def
      example_file_def add_to_recent_events_def update_statistics_def recent_events_of_def
      assess_event_def profile_adjustment_def f32_lit_07 f32_lit_03)

lemma escalated_state_log:
  "map pr_pid (profiles_of (escalated_state n)) = [42] \<and>
   length (recent_events_of (escalated_state n)) = n"
proof (induction n)
  case 0
  from escalated_state_0(1) first_access_log show ?case by (simp only: list.size)
next
  case (Suc n)
  then have pid: "map pr_pid (profiles_of (escalated_state n)) = [42]"
    and len: "length (recent_events_of (escalated_state n)) = n" by simp_all
  from escalation_log [OF pid] len show ?case
    unfolding escalated_state.simps by simp
qed

lemma task_create_single_profile:
  assumes pid: "map pr_pid (profiles_of s) = [42]"
    and an: "map anomaly_count (profiles_of s) = [a]"
    and tr: "map trust_score (profiles_of s) = [t]"
  shows "map anomaly_count (profiles_of
           (snd (ai_security_task_create example_env s example_task))) =
     [if 30 < min ((if t < f32_lit (3 / 10) then 20 else 0) + (if 5 < a then 15 else 0))
               (100 :: u32)
      then a + 1 else a]"
proof -
  from pid obtain m p where mgr: "ai_sec_mgr s = Some m" and ps: "process_profiles m = [p]"
    and all: "profiles_of s = [p]" and p: "pr_pid p = 42"
    by (rule single_profile)
  from an tr all have a: "anomaly_count p = a" and t: "trust_score p = t" by simp_all
  from mgr ps p show ?thesis
    by (simp add: ai_security_task_create_def task_create_event_def
      ai_security_is_system_process_def example_task_def example_env_def
      ai_security_get_profile_def ai_security_create_event_def new_event_def
      ai_security_analyze_event_def event_type_score_def Let_def profiles_of_def
      update_profile_metrics_def profile_adjustment_def a t)
qed

text \<open>
  Claim C5, as stated, fails for the process-creation hook. After the file access and
  the six changes of uid the list of recent events holds six events. The event that
  \<^verbatim>\<open>ai_security_task_create\<close> then submits for the example task scores 35 (20 for the
  low trust, 15 for the anomalies), which is above 20: the analysis in the hook counts
  it as the seventh anomaly of the task. The list of recent events after the hook is the
  list before it: the event is freed.
\<close>

theorem task_create_event_not_retained:
  "map anomaly_count (profiles_of (escalated_state 6)) = [6] \<and>
   map trust_score (profiles_of (escalated_state 6)) = [0] \<and>
   length (recent_events_of (escalated_state 6)) = 6 \<and>
   task_create_score example_env (escalated_state 6) example_task = Some 35 \<and>
   map anomaly_count (profiles_of
     (snd (ai_security_task_create example_env (escalated_state 6) example_task))) = [7] \<and>
   recent_events_of (snd (ai_security_task_create example_env (escalated_state 6) example_task))
     = recent_events_of (escalated_state 6)"
  using task_create_score_single_profile [OF escalated_state_6]
    task_create_single_profile [OF escalated_state_6]
  by (simp add: escalated_state_6 escalated_state_log task_create_log f32_lit_03)

subsection \<open>Failure of the event allocation\<close>

lemma create_event_fails:
  "\<not> kzalloc_event_ok e \<Longrightarrow> ai_security_create_event e s ty = Inl ENOMEM"
  by (simp add: ai_security_create_event_def)

lemma failing_env_simps:
  "\<not> kzalloc_event_ok failing_env"
  by (simp add: failing_env_def)

text \<open>
  Claim C6, as stated, fails in its second half: the manager has no counter of internal
  errors. When the allocation of the event fails for a process that has a profile, the
  file-permission hook returns 0 and the state, with all five statistics, is as before.
\<close>

theorem fail_open_counts_nothing:
  "kzalloc_event_ok failing_env = False \<and>
   ai_security_file_permission failing_env (state_with [example_profile]) example_task
     (Some example_file) = (None, state_with [example_profile]) \<and>
   statistics (manager_with [example_profile]) = (0, 0, 0, 0, 1)"
  by (simp add: failing_env_def ai_security_file_permission_def file_permission_event_def
      state_with_simps ai_security_get_profile_def example_profile_simps example_task_def
      ai_security_is_system_process_def ai_security_create_event_def Let_def
      statistics_def manager_with_def)

text \<open>
  Claim C6, amended. When the allocation of the event fails, every hook returns 0 (the
  operation is allowed) and no statistic records the failure: the events processed, the
  threats detected and blocked, the false positives and the list of recent events are
  unchanged. The count of monitored processes grows by one only when the file-permission
  hook has just created the profile of the process. The other two hooks leave the state
  as it was.
\<close>

theorem fail_open_without_error_counter:
  assumes fail: "\<not> kzalloc_event_ok e" and mgr: "ai_sec_mgr s = Some m"
  shows "fst (ai_security_file_permission e s t file) = None \<and>
     (\<exists>m'. ai_sec_mgr (snd (ai_security_file_permission e s t file)) = Some m' \<and>
        total_events_processed m' = total_events_processed m \<and>
        threats_detected m' = threats_detected m \<and>
        false_positives m' = false_positives m \<and>
        threats_blocked m' = threats_blocked m \<and>
        recent_events m' = recent_events m \<and>
        (processes_monitored m' = processes_monitored m \<or>
         ai_security_get_profile s (task_pid t) = None \<and>
         processes_monitored m' = processes_monitored m + 1)) \<and>
     ai_security_task_create e s t = (None, s) \<and>
     ai_security_task_fix_setuid e s t new_uid old_uid = (None, s)"
proof (intro conjI)
  have ev: "\<exists>s'. file_permission_event e s t file = Inl s' \<and>
     (s' = s \<or> ai_security_get_profile s (task_pid t) = None \<and>
        s' = s\<lparr>ai_sec_mgr := Some (m\<lparr>
            process_profiles := process_profiles m @ [new_profile e t],
            processes_monitored := processes_monitored m + 1\<rparr>)\<rparr>)"
    using mgr
    by (auto simp: file_permission_event_def Let_def create_event_fails [OF fail]
        ai_security_create_profile_def split: option.splits sum.splits)
  then obtain s' where s': "file_permission_event e s t file = Inl s'"
    and or: "s' = s \<or> ai_security_get_profile s (task_pid t) = None \<and>
        s' = s\<lparr>ai_sec_mgr := Some (m\<lparr>
            process_profiles := process_profiles m @ [new_profile e t],
            processes_monitored := processes_monitored m + 1\<rparr>)\<rparr>"
    by blast
  from s' show "fst (ai_security_file_permission e s t file) = None"
    by (simp add: ai_security_file_permission_def)
  from s' have "snd (ai_security_file_permission e s t file) = s'"
    by (simp add: ai_security_file_permission_def)
  with or mgr show "\<exists>m'. ai_sec_mgr (snd (ai_security_file_permission e s t file)) = Some m' \<and>
        total_events_processed m' = total_events_processed m \<and>
        threats_detected m' = threats_detected m \<and>
        false_positives m' = false_positives m \<and>
        threats_blocked m' = threats_blocked m \<and>
        recent_events m' = recent_events m \<and>
        (processes_monitored m' = processes_monitored m \<or>
         ai_security_get_profile s (task_pid t) = None \<and>
         processes_monitored m' = processes_monitored m + 1)"
    by auto
  show "ai_security_task_create e s t = (None, s)"
    by (simp add: ai_security_task_create_def task_create_event_def
        create_event_fails [OF fail] split: option.splits)
  show "ai_security_task_fix_setuid e s t new_uid old_uid = (None, s)"
    by (simp add: ai_security_task_fix_setuid_def task_fix_setuid_event_def
        create_event_fails [OF fail] split: option.splits)
qed

theorem fail_open_without_error_counter_witness:
  "\<not> kzalloc_event_ok failing_env \<and>
   ai_sec_mgr (state_with [example_profile]) = Some (manager_with [example_profile]) \<and>
   fst (ai_security_file_permission failing_env (state_with [example_profile]) example_task
     (Some example_file)) = None \<and>
   (\<exists>m'. ai_sec_mgr (snd (ai_security_file_permission failing_env
        (state_with [example_profile]) example_task (Some example_file))) = Some m' \<and>
      total_events_processed m' = 0 \<and> threats_detected m' = 0 \<and> false_positives m' = 0 \<and>
      threats_blocked m' = 0 \<and> recent_events m' = [])"
proof -
  have mgr: "ai_sec_mgr (state_with [example_profile]) = Some (manager_with [example_profile])"
    by (simp add: state_with_simps)
  from fail_open_without_error_counter [OF failing_env_simps mgr, of example_task
      "Some example_file"] failing_env_simps mgr
  show ?thesis
    by (simp add: manager_with_def) blast
qed

subsection \<open>One profile per pid\<close>

lemma add_to_recent_events_frame:
  "add_to_recent_events limit ev s = Inr s' \<Longrightarrow> profile_pids s' = profile_pids s"
  by (auto simp: add_to_recent_events_def profile_pids_def split: if_splits option.splits)

lemma file_permission_event_Inl:
  assumes "file_permission_event e s t file = Inl s'"
  shows "profile_pids s' = profile_pids s \<or>
         (task_pid t \<notin> set (profile_pids s) \<and> profile_pids s' = profile_pids s @ [task_pid t])"
proof -
  define s0 where "s0 = (case ai_security_get_profile s (task_pid t) of
                              Some i \<Rightarrow> s
                            | None \<Rightarrow>
                                (case ai_security_create_profile e s t of
                                   Inl err \<Rightarrow> s
                                 | Inr s' \<Rightarrow> s'))"
  from assms have "s' = s \<or> s' = s0"
    unfolding file_permission_event_def Let_def s0_def [symmetric]
    by (auto split: option.splits if_splits sum.splits)
  moreover have "profile_pids s0 = profile_pids s \<or>
         (task_pid t \<notin> set (profile_pids s) \<and> profile_pids s0 = profile_pids s @ [task_pid t])"
    unfolding s0_def using create_profile_frame(2) [of e s t]
    by (auto split: option.splits sum.splits)
  ultimately show ?thesis by auto
qed

lemma file_permission_pids:
  "profile_pids (snd (ai_security_file_permission e s t file)) = profile_pids s \<or>
   (task_pid t \<notin> set (profile_pids s) \<and>
    profile_pids (snd (ai_security_file_permission e s t file)) = profile_pids s @ [task_pid t])"
proof (cases "file_permission_event e s t file")
  case (Inl s')
  with file_permission_event_Inl [OF Inl] show ?thesis
    by (simp add: ai_security_file_permission_def)
next
  case (Inr r)
  obtain ev s2 where r: "r = (ev, s2)" by (cases r)
  note f = file_permission_event_Inr(6) [OF Inr [unfolded r]]
  have "profile_pids (snd (ai_security_file_permission e s t file)) = profile_pids s2"
    using make_decision_frame(2) [of s2 ev] add_to_recent_events_frame
    by (auto simp: ai_security_file_permission_def Inr r split: sum.splits)
  with f show ?thesis by simp
qed

lemma task_create_pids:
  "profile_pids (snd (ai_security_task_create e s t)) = profile_pids s"
proof (cases "task_create_event e s t")
  case (Inl s')
  then have "s' = s"
    by (auto simp: task_create_event_def split: option.splits if_splits sum.splits)
  with Inl show ?thesis by (simp add: ai_security_task_create_def)
next
  case (Inr r)
  obtain ev s1 where r: "r = (ev, s1)" by (cases r)
  from Inr r have "ai_sec_mgr s1 = ai_sec_mgr s"
    by (auto simp: task_create_event_def ai_security_create_event_def
        split: option.splits if_splits)
  then have "profile_pids s1 = profile_pids s" by (rule profile_pids_cong)
  then show ?thesis
    using analyze_event_frame(2) [of s1 ev]
    by (auto simp: ai_security_task_create_def Inr r split: sum.splits error.splits)
qed

lemma task_fix_setuid_pids:
  "profile_pids (snd (ai_security_task_fix_setuid e s t new_uid old_uid)) = profile_pids s"
proof (cases "task_fix_setuid_event e s t new_uid old_uid")
  case (Inl s')
  then have "s' = s"
    by (auto simp: task_fix_setuid_event_def split: option.splits if_splits sum.splits)
  with Inl show ?thesis by (simp add: ai_security_task_fix_setuid_def)
next
  case (Inr r)
  obtain ev s1 where r: "r = (ev, s1)" by (cases r)
  note f = task_fix_setuid_event_Inr(5) [OF Inr [unfolded r]]
  have "profile_pids (snd (ai_security_task_fix_setuid e s t new_uid old_uid)) = profile_pids s1"
    using make_decision_frame(2) [of s1 ev] add_to_recent_events_frame
    by (auto simp: ai_security_task_fix_setuid_def Inr r split: sum.splits)
  with f show ?thesis by simp
qed

lemma pr_pid_learning_update_profile [simp]:
  "pr_pid (learning_update_profile now p) = pr_pid p"
  by (simp add: learning_update_profile_def)

lemma learning_work_pids: "profile_pids (ai_security_learning_work e s) = profile_pids s"
  by (simp add: ai_security_learning_work_def profile_pids_def Let_def comp_def
      split: option.splits)

text \<open>
  A call that runs with no other call in between keeps the pids of the profiles pairwise
  different, and \<^verbatim>\<open>ai_security_create_profile\<close> for a pid that has a profile returns 0
  and leaves the state as it is.
\<close>

lemma atomic_calls_keep_pids_distinct:
  assumes "distinct (profile_pids s)"
  shows "distinct (profile_pids (snd (ai_security_file_permission e s t f)))"
    and "distinct (profile_pids (snd (ai_security_task_create e s t)))"
    and "distinct (profile_pids (snd (ai_security_task_fix_setuid e s t new_uid old_uid)))"
    and "distinct (profile_pids (ai_security_learning_work e s))"
    and "ai_security_create_profile e s t = Inr s' \<Longrightarrow> distinct (profile_pids s')"
proof -
  from assms file_permission_pids [of e s t f]
  show "distinct (profile_pids (snd (ai_security_file_permission e s t f)))" by auto
  from assms show "distinct (profile_pids (snd (ai_security_task_create e s t)))"
    by (simp add: task_create_pids)
  from assms
  show "distinct (profile_pids (snd (ai_security_task_fix_setuid e s t new_uid old_uid)))"
    by (simp add: task_fix_setuid_pids)
  from assms show "distinct (profile_pids (ai_security_learning_work e s))"
    by (simp add: learning_work_pids)
  assume "ai_security_create_profile e s t = Inr s'"
  from create_profile_frame(2) [OF this] assms show "distinct (profile_pids s')" by auto
qed

lemma create_profile_existing:
  assumes "ai_sec_mgr s = Some m" and "task_pid t \<in> pr_pid ` set (process_profiles m)"
  shows "ai_security_create_profile e s t = Inr s"
proof -
  from assms(2) have "ai_security_profile_lookup (process_profiles m) (task_pid t) \<noteq> None"
    by (simp add: profile_lookup_None_iff)
  with assms(1) show ?thesis
    by (auto simp: ai_security_create_profile_def ai_security_get_profile_def)
qed

text \<open>
  The three actions of one call, with no action of another call in between, are
  \<^verbatim>\<open>ai_security_create_profile\<close> as one function.
\<close>

lemma create_profile_call_alone:
  "run_calls [0, 0, 0] (s, [At_check e t]) =
     (case ai_security_create_profile e s t of
        Inl err \<Rightarrow> (s, [Returned (Some err)])
      | Inr s' \<Rightarrow> (s', [Returned None]))"
  by (simp add: create_profile_step_def ai_security_create_profile_def
      split: option.splits)

lemma run_calls_reachable:
  "reachable s cs \<Longrightarrow>
   reachable (fst (run_calls schedule (s, cs))) (snd (run_calls schedule (s, cs)))"
proof (induction schedule arbitrary: s cs)
  case Nil
  then show ?case by simp
next
  case (Cons i schedule)
  show ?case
  proof (cases "i < length cs")
    case True
    from reachable.create_profile_action [OF Cons.prems True]
    have "reachable (fst (create_profile_step s (cs ! i)))
       (cs[i := snd (create_profile_step s (cs ! i))])" .
    from Cons.IH [OF this] True show ?thesis by simp
  next
    case False
    with Cons.IH [OF Cons.prems] show ?thesis by simp
  qed
qed


text \<open>
  The state that two such calls leave when the module has just been initialised is a
  reachable state.
\<close>

lemma interleaved_creation_reachable:
  "reachable
     (fst (run_calls [0, 1, 0, 1, 0, 1]
        (initial_state, [At_check example_env example_task, At_check example_env example_task])))
     (snd (run_calls [0, 1, 0, 1, 0, 1]
        (initial_state, [At_check example_env example_task, At_check example_env example_task])))"
proof -
  have "reachable initial_state []"
    unfolding initial_state_def by (rule reachable.init)
  then have "reachable initial_state [At_check example_env example_task]"
    using reachable.create_profile_enter [of initial_state "[]"] by simp
  then have "reachable initial_state
      [At_check example_env example_task, At_check example_env example_task]"
    using reachable.create_profile_enter [of initial_state "[At_check example_env example_task]"]
    by simp
  then show ?thesis by (rule run_calls_reachable)
qed


subsection \<open>The learning pass\<close>

lemma rne_int_plus:
  assumes "0 \<le> r" "r < 1 / 2"
  shows "rne (of_int a + r) = a"
proof -
  have "\<lfloor>of_int a + r\<rfloor> = a" using assms by (simp add: floor_unique)
  then show ?thesis using assms by (simp add: rne_def Let_def)
qed

lemma rne_int_minus:
  assumes "0 \<le> r" "r < 1 / 2"
  shows "rne (of_int a - r) = a"
proof (cases "r = 0")
  case True
  then show ?thesis using rne_int_plus [of 0 a] by simp
next
  case False
  with assms have "\<lfloor>of_int a - r\<rfloor> = a - 1" by (intro floor_unique) simp_all
  then show ?thesis using assms False by (simp add: rne_def Let_def)
qed

lemma fadd_trust_step:
  assumes "8388608 \<le> a" "a + 167773 \<le> 16777216"
  shows "fadd (of_int a / 16777216) (5368709 / 536870912) = of_int (a + 167772) / 16777216"
proof -
  let ?q = "of_int a / 16777216 + 5368709 / 536870912 :: rat"
  have "(of_int 8388608 :: rat) \<le> of_int a" "(of_int (a + 167773) :: rat) \<le> of_int 16777216"
    using assms by (simp_all only: of_int_le_iff)
  then have a: "(8388608 :: rat) \<le> of_int a" "(of_int a :: rat) + 167773 \<le> 16777216"
    by simp_all
  have lo: "pow2 (- 1) \<le> \<bar>?q\<bar>" using a by (simp add: pow2_def field_simps)
  have hi: "\<bar>?q\<bar> < pow2 (- 1 + 1)" using a by (simp add: pow2_def field_simps)
  have e: "?q / pow2 (- 1 - 23) = of_int (a + 167772) + 5 / 32"
    by (simp add: pow2_def field_simps)
  have "rne (of_int (a + 167772) + 5 / 32) = a + 167772"
    by (rule rne_int_plus) simp_all
  then have "rne (?q / pow2 (- 1 - 23)) = a + 167772"
    by (simp only: e)
  then show ?thesis
    unfolding fadd_def round_f32_eq [OF lo hi, simplified]
    by (simp add: pow2_def)
qed

lemma fsub_risk_step:
  assumes "8724153 \<le> b" "b \<le> 16777216"
  shows "fsub (of_int b / 67108864) (5368709 / 1073741824) = of_int (b - 335544) / 67108864"
proof -
  let ?q = "of_int b / 67108864 - 5368709 / 1073741824 :: rat"
  have "(of_int 8724153 :: rat) \<le> of_int b" "(of_int b :: rat) \<le> of_int 16777216"
    using assms by (simp_all only: of_int_le_iff)
  then have b: "(8724153 :: rat) \<le> of_int b" "(of_int b :: rat) \<le> 16777216"
    by simp_all
  have lo: "pow2 (- 3) \<le> \<bar>?q\<bar>" using b by (simp add: pow2_def field_simps)
  have hi: "\<bar>?q\<bar> < pow2 (- 3 + 1)" using b by (simp add: pow2_def field_simps)
  have e: "?q / pow2 (- 3 - 23) = of_int (b - 335544) - 5 / 16"
    by (simp add: pow2_def field_simps)
  have "rne (of_int (b - 335544) - 5 / 16) = b - 335544"
    by (rule rne_int_minus) simp_all
  then have "rne (?q / pow2 (- 3 - 23)) = b - 335544"
    by (simp only: e)
  then show ?thesis
    unfolding fsub_def round_f32_eq [OF lo hi, simplified]
    by (simp add: pow2_def)
qed

lemma learning_update_profile_changes:
  assumes "anomaly_count p = 0" "trust_score p < f32_lit (8 / 10)"
  shows "trust_score (learning_update_profile now p)
           = fadd (trust_score p) (f32_lit (1 / 100))"
    and "risk_score (learning_update_profile now p)
           = max 0 (fsub (risk_score p) (f32_lit (5 / 1000)))"
    and "anomaly_count (learning_update_profile now p) = 0"
  using assms by (simp_all add: learning_update_profile_def)

lemma learning_update_profile_keeps:
  assumes "\<not> (anomaly_count p = 0 \<and> trust_score p < f32_lit (8 / 10))"
  shows "trust_score (learning_update_profile now p) = trust_score p"
    and "risk_score (learning_update_profile now p) = risk_score p"
    and "anomaly_count (learning_update_profile now p) = anomaly_count p"
  using assms by (auto simp: learning_update_profile_def)

lemma learning_iter_keeps:
  assumes "\<not> (anomaly_count p = 0 \<and> trust_score p < f32_lit (8 / 10))"
  shows "trust_score ((learning_update_profile now ^^ n) p) = trust_score p \<and>
     risk_score ((learning_update_profile now ^^ n) p) = risk_score p \<and>
     anomaly_count ((learning_update_profile now ^^ n) p) = anomaly_count p"
proof (induction n)
  case 0
  show ?case by simp
next
  case (Suc n)
  let ?p = "(learning_update_profile now ^^ n) p"
  from Suc assms have "\<not> (anomaly_count ?p = 0 \<and> trust_score ?p < f32_lit (8 / 10))"
    by simp
  from learning_update_profile_keeps [OF this, where now = now] Suc show ?case by simp
qed

lemma learning_iter_new_profile:
  "k \<le> 11 \<Longrightarrow>
   trust_score ((learning_update_profile now ^^ k) example_profile)
     = of_int (11744051 + 167772 * int k) / 16777216 \<and>
   risk_score ((learning_update_profile now ^^ k) example_profile)
     = of_int (13421773 - 335544 * int k) / 67108864 \<and>
   anomaly_count ((learning_update_profile now ^^ k) example_profile) = 0"
proof (induction k)
  case 0
  have "trust_score example_profile = 11744051 / 16777216"
    and "risk_score example_profile = 13421773 / 67108864"
    by (simp_all only: example_profile_simps f32_lit_07 f32_lit_02)
  then show ?case
    by (simp add: example_profile_simps(2))
next
  case (Suc k)
  let ?p = "(learning_update_profile now ^^ k) example_profile"
  let ?a = "11744051 + 167772 * int k"
  let ?b = "13421773 - 335544 * int k"
  from Suc have k: "int k \<le> 10" by simp
  from Suc have t: "trust_score ?p = of_int ?a / 16777216"
    and r: "risk_score ?p = of_int ?b / 67108864"
    and an: "anomaly_count ?p = 0" by simp_all
  from k have "?a < 13421773" by simp
  then have "(of_int ?a :: rat) < of_int 13421773" by (simp only: of_int_less_iff)
  then have guard: "trust_score ?p < f32_lit (8 / 10)"
    unfolding t f32_lit_08 by (simp add: divide_strict_right_mono)
  note ch = learning_update_profile_changes [OF an guard, where now = now]
  have t': "fadd (of_int ?a / 16777216) (5368709 / 536870912)
      = of_int (?a + 167772) / 16777216"
    using k by (intro fadd_trust_step) simp_all
  have r': "fsub (of_int ?b / 67108864) (5368709 / 1073741824)
      = of_int (?b - 335544) / 67108864"
    using k by (intro fsub_risk_step) simp_all
  from k have "0 \<le> ?b - 335544" by simp
  then have pos: "(0 :: rat) \<le> of_int (?b - 335544) / 67108864"
    by (simp only: zero_le_divide_iff of_int_0_le_iff) simp
  have a1: "?a + 167772 = 11744051 + 167772 * int (Suc k)" by simp
  have b1: "?b - 335544 = 13421773 - 335544 * int (Suc k)" by simp
  have "trust_score (learning_update_profile now ?p)
      = of_int (11744051 + 167772 * int (Suc k)) / 16777216"
    unfolding ch(1) t f32_lit_001 t' a1 ..
  moreover have "risk_score (learning_update_profile now ?p)
      = of_int (13421773 - 335544 * int (Suc k)) / 67108864"
    unfolding ch(2) r f32_lit_0005 r' using pos unfolding b1 by (simp only: max_absorb2)
  ultimately show ?case using ch(3) by simp
qed

lemma learning_work_profiles:
  assumes "ai_sec_mgr s \<noteq> None" "ai_security_learning_enabled s"
  shows "profiles_of (ai_security_learning_work e s)
           = map (learning_update_profile (ktime_get e)) (profiles_of s)"
    and "ai_sec_mgr (ai_security_learning_work e s) \<noteq> None"
    and "ai_security_learning_enabled (ai_security_learning_work e s)"
  using assms
  by (auto simp: ai_security_learning_work_def profiles_of_def Let_def)

lemma learning_passes_profiles:
  assumes "ai_sec_mgr s \<noteq> None" "ai_security_learning_enabled s"
  shows "profiles_of ((ai_security_learning_work e ^^ n) s)
           = map (learning_update_profile (ktime_get e) ^^ n) (profiles_of s) \<and>
     ai_sec_mgr ((ai_security_learning_work e ^^ n) s) \<noteq> None \<and>
     ai_security_learning_enabled ((ai_security_learning_work e ^^ n) s)"
proof (induction n)
  case 0
  from assms show ?case by simp
next
  case (Suc n)
  let ?s = "(ai_security_learning_work e ^^ n) s"
  from Suc have a: "ai_sec_mgr ?s \<noteq> None" and b: "ai_security_learning_enabled ?s"
    and c: "profiles_of ?s = map (learning_update_profile (ktime_get e) ^^ n) (profiles_of s)"
    by simp_all
  from learning_work_profiles [OF a b, where e = e] c show ?case
    by simp
qed

lemma state_with_profiles: "profiles_of (state_with ps) = ps"
  by (simp add: profiles_of_def state_with_simps)

lemma new_profile_after_11:
  "trust_score ((learning_update_profile now ^^ 11) example_profile) = 13589543 / 16777216"
  "risk_score ((learning_update_profile now ^^ 11) example_profile) = 9730789 / 67108864"
  "anomaly_count ((learning_update_profile now ^^ 11) example_profile) = 0"
  using learning_iter_new_profile [where k = 11 and now = now] by simp_all

lemma new_profile_after_more:
  "trust_score ((learning_update_profile now ^^ (n + 11)) example_profile)
     = 13589543 / 16777216"
  "risk_score ((learning_update_profile now ^^ (n + 11)) example_profile)
     = 9730789 / 67108864"
  "anomaly_count ((learning_update_profile now ^^ (n + 11)) example_profile) = 0"
proof -
  let ?p = "(learning_update_profile now ^^ 11) example_profile"
  have "\<not> trust_score ?p < f32_lit (8 / 10)"
    unfolding new_profile_after_11 f32_lit_08 by simp
  then have "\<not> (anomaly_count ?p = 0 \<and> trust_score ?p < f32_lit (8 / 10))" by simp
  from learning_iter_keeps [OF this, where now = now and n = n]
  show "trust_score ((learning_update_profile now ^^ (n + 11)) example_profile)
     = 13589543 / 16777216"
  "risk_score ((learning_update_profile now ^^ (n + 11)) example_profile)
     = 9730789 / 67108864"
  "anomaly_count ((learning_update_profile now ^^ (n + 11)) example_profile) = 0"
    by (simp_all add: funpow_add new_profile_after_11)
qed

text \<open>
  Claim C4, as stated, fails. The pass adds \<^verbatim>\<open>0.01f\<close> whenever the trust is below
  \<^verbatim>\<open>0.8f\<close> and does not clamp the sum. A new profile starts at \<^verbatim>\<open>0.7f\<close>; after ten
  passes its trust is \<open>13421771 / 16777216\<close>, still below \<^verbatim>\<open>0.8f\<close>, and the eleventh
  pass takes it to \<open>13589543 / 16777216\<close>, about 0.81, where it stays for a hundred
  passes. From the twelfth pass on the profile still has no anomaly, and its risk is no
  longer decreased.
\<close>

theorem trust_overshoots:
  "anomaly_count example_profile = 0 \<and> trust_score example_profile \<le> 8 / 10 \<and>
   map anomaly_count (profiles_of ((ai_security_learning_work example_env ^^ 100)
     (state_with [example_profile]))) = [0] \<and>
   map trust_score (profiles_of ((ai_security_learning_work example_env ^^ 100)
     (state_with [example_profile]))) = [13589543 / 16777216] \<and>
   (8 / 10 :: rat) < 13589543 / 16777216 \<and>
   map risk_score (profiles_of ((ai_security_learning_work example_env ^^ 11)
     (state_with [example_profile]))) = [9730789 / 67108864] \<and>
   map risk_score (profiles_of ((ai_security_learning_work example_env ^^ 12)
     (state_with [example_profile]))) = [9730789 / 67108864]"
proof -
  have mgr: "ai_sec_mgr (state_with [example_profile]) \<noteq> None"
    and on: "ai_security_learning_enabled (state_with [example_profile])"
    by (simp_all add: state_with_simps)
  note run = learning_passes_profiles [OF mgr on, where e = example_env, THEN conjunct1,
      unfolded state_with_profiles]
  have t0: "trust_score example_profile \<le> 8 / 10"
    unfolding example_profile_simps f32_lit_07 by simp
  have "map anomaly_count (profiles_of ((ai_security_learning_work example_env ^^ (89 + 11))
     (state_with [example_profile]))) = [0]"
    and "map trust_score (profiles_of ((ai_security_learning_work example_env ^^ (89 + 11))
     (state_with [example_profile]))) = [13589543 / 16777216]"
    and "map risk_score (profiles_of ((ai_security_learning_work example_env ^^ (0 + 11))
     (state_with [example_profile]))) = [9730789 / 67108864]"
    and "map risk_score (profiles_of ((ai_security_learning_work example_env ^^ (1 + 11))
     (state_with [example_profile]))) = [9730789 / 67108864]"
    unfolding run by (simp_all only: list.map new_profile_after_more)
  with t0 show ?thesis
    by (simp add: example_profile_simps)
qed

text \<open>
  Claim C4, amended. With learning enabled, a pass changes the trust and the risk of a
  profile exactly when the profile has no anomaly and its trust is below \<^verbatim>\<open>0.8f\<close>:
  then the trust becomes the single-precision sum of the trust and \<^verbatim>\<open>0.01f\<close>, and the
  risk the single-precision difference of the risk and \<^verbatim>\<open>0.005f\<close>, or 0 when that is
  negative. A profile with an anomaly, or with a trust of \<^verbatim>\<open>0.8f\<close> or more, keeps its
  trust and its risk through any number of passes.
\<close>

theorem learning_pass_guarded:
  assumes mgr: "ai_sec_mgr s \<noteq> None" and on: "ai_security_learning_enabled s"
    and i: "i < length (profiles_of s)"
  shows "(anomaly_count (profiles_of s ! i) = 0 \<and>
          trust_score (profiles_of s ! i) < f32_lit (8 / 10) \<longrightarrow>
            trust_score (profiles_of (ai_security_learning_work e s) ! i)
              = fadd (trust_score (profiles_of s ! i)) (f32_lit (1 / 100)) \<and>
            risk_score (profiles_of (ai_security_learning_work e s) ! i)
              = max 0 (fsub (risk_score (profiles_of s ! i)) (f32_lit (5 / 1000)))) \<and>
         (\<not> (anomaly_count (profiles_of s ! i) = 0 \<and>
             trust_score (profiles_of s ! i) < f32_lit (8 / 10)) \<longrightarrow>
            (\<forall>n. trust_score (profiles_of ((ai_security_learning_work e ^^ n) s) ! i)
                   = trust_score (profiles_of s ! i) \<and>
                 risk_score (profiles_of ((ai_security_learning_work e ^^ n) s) ! i)
                   = risk_score (profiles_of s ! i)))"
proof (intro conjI impI allI)
  assume g: "anomaly_count (profiles_of s ! i) = 0 \<and>
          trust_score (profiles_of s ! i) < f32_lit (8 / 10)"
  then have a: "anomaly_count (profiles_of s ! i) = 0"
    and b: "trust_score (profiles_of s ! i) < f32_lit (8 / 10)" by simp_all
  note ch = learning_update_profile_changes [OF a b, where now = "ktime_get e"]
  from i show "trust_score (profiles_of (ai_security_learning_work e s) ! i)
              = fadd (trust_score (profiles_of s ! i)) (f32_lit (1 / 100))"
    by (simp add: learning_work_profiles(1) [OF mgr on] ch)
  from i show "risk_score (profiles_of (ai_security_learning_work e s) ! i)
              = max 0 (fsub (risk_score (profiles_of s ! i)) (f32_lit (5 / 1000)))"
    by (simp add: learning_work_profiles(1) [OF mgr on] ch)
next
  fix n
  assume g: "\<not> (anomaly_count (profiles_of s ! i) = 0 \<and>
             trust_score (profiles_of s ! i) < f32_lit (8 / 10))"
  note keep = learning_iter_keeps [OF g, where now = "ktime_get e" and n = n]
  note run = learning_passes_profiles [OF mgr on, where e = e and n = n, THEN conjunct1]
  from i keep show "trust_score (profiles_of ((ai_security_learning_work e ^^ n) s) ! i)
                   = trust_score (profiles_of s ! i)"
    by (simp add: run)
  from i keep show "risk_score (profiles_of ((ai_security_learning_work e ^^ n) s) ! i)
                   = risk_score (profiles_of s ! i)"
    by (simp add: run)
qed

theorem learning_pass_guarded_witness:
  "ai_sec_mgr (state_with [example_profile, trusted_profile]) \<noteq> None \<and>
   ai_security_learning_enabled (state_with [example_profile, trusted_profile]) \<and>
   anomaly_count example_profile = 0 \<and> trust_score example_profile < f32_lit (8 / 10) \<and>
   trust_score (profiles_of (ai_security_learning_work example_env
      (state_with [example_profile, trusted_profile])) ! 0) = 11911823 / 16777216 \<and>
   risk_score (profiles_of (ai_security_learning_work example_env
      (state_with [example_profile, trusted_profile])) ! 0) = 13086229 / 67108864 \<and>
   anomaly_count trusted_profile = 0 \<and> \<not> trust_score trusted_profile < f32_lit (8 / 10) \<and>
   trust_score (profiles_of ((ai_security_learning_work example_env ^^ 5)
      (state_with [example_profile, trusted_profile])) ! 1) = f32_lit (8 / 10) \<and>
   risk_score (profiles_of ((ai_security_learning_work example_env ^^ 5)
      (state_with [example_profile, trusted_profile])) ! 1) = f32_lit (2 / 10)"
proof -
  let ?s = "state_with [example_profile, trusted_profile]"
  have mgr: "ai_sec_mgr ?s \<noteq> None" and on: "ai_security_learning_enabled ?s"
    by (simp_all add: state_with_simps)
  have i0: "0 < length (profiles_of ?s)" and i1: "1 < length (profiles_of ?s)"
    by (simp_all add: state_with_profiles)
  have a0: "anomaly_count example_profile = 0"
    by (simp add: example_profile_simps)
  have g0: "trust_score example_profile < f32_lit (8 / 10)"
    unfolding example_profile_simps f32_lit_07 f32_lit_08 by simp
  have a1: "anomaly_count trusted_profile = 0"
    by (simp add: trusted_profile_def example_profile_simps)
  have g1: "\<not> trust_score trusted_profile < f32_lit (8 / 10)"
    by (simp add: trusted_profile_def)
  have t1: "trust_score trusted_profile = f32_lit (8 / 10)"
    and r1: "risk_score trusted_profile = f32_lit (2 / 10)"
    by (simp_all add: trusted_profile_def example_profile_simps)
  have t: "fadd (trust_score example_profile) (f32_lit (1 / 100)) = 11911823 / 16777216"
    unfolding example_profile_simps f32_lit_07 f32_lit_001
    using fadd_trust_step [of 11744051] by simp
  have r: "max 0 (fsub (risk_score example_profile) (f32_lit (5 / 1000)))
      = 13086229 / 67108864"
    unfolding example_profile_simps f32_lit_02 f32_lit_0005
    using fsub_risk_step [of 13421773] by simp
  from learning_pass_guarded [OF mgr on i0, of example_env]
    learning_pass_guarded [OF mgr on i1, of example_env]
    a0 g0 a1 g1 t r t1 r1 mgr on
  show ?thesis
    by (simp add: state_with_profiles)
qed

subsection \<open>The scores of a profile\<close>

text \<open>
  Rounding keeps a number that is at most 1 at most 1, and rounds a float to itself. So
  in every state the module reaches, the trust, risk and behaviour scores of every
  profile are floats between 0 and 1: the hypotheses made on them in the theorems on
  the score and on the confidence hold whenever the module runs, and the cast of the
  scaled behaviour score is defined.
\<close>

lemma find_exp_range: "- 126 \<le> find_exp n q \<and> find_exp n q \<le> int n - 126"
  by (induction n) auto

lemma find_exp_upper:
  "q < pow2 (int n - 126 + 1) \<Longrightarrow> q < pow2 (find_exp n q + 1)"
proof (induction n)
  case 0
  then show ?case by simp
next
  case (Suc n)
  show ?case
  proof (cases "pow2 (int (Suc n) - 126) \<le> q")
    case True
    with Suc.prems show ?thesis by simp
  next
    case False
    then have "q < pow2 (int n - 126 + 1)" by (simp add: add.commute)
    with Suc.IH False show ?thesis by simp
  qed
qed

lemma pow2_le_iff: "pow2 a \<le> pow2 b \<longleftrightarrow> a \<le> b"
  using pow2_less_iff [of b a] by (simp flip: not_less)

lemma pow2_add: "pow2 (a + b) = pow2 a * pow2 b"
  by (simp add: pow2_powi power_int_add)

lemma pow2_binade_top: "pow2 (e + 1) = of_int (2 ^ 24) * pow2 (e - 23)"
proof -
  have "e + 1 = 24 + (e - 23)" by simp
  then have "pow2 (e + 1) = pow2 (24 + (e - 23))" by (simp only:)
  also have "\<dots> = pow2 24 * pow2 (e - 23)" by (rule pow2_add)
  finally show ?thesis by (simp add: pow2_def)
qed

lemma rne_le_int:
  assumes "y \<le> of_int n" shows "rne y \<le> n"
proof -
  have fl: "\<lfloor>y\<rfloor> \<le> n" by (metis assms floor_mono floor_of_int)
  show ?thesis
  proof (cases "\<lfloor>y\<rfloor> = n")
    case True
    then have "of_int n \<le> y" by (metis of_int_floor_le)
    with assms have "y = of_int n" by simp
    then show ?thesis by (simp add: rne_def Let_def)
  next
    case False
    with fl have "\<lfloor>y\<rfloor> + 1 \<le> n" by simp
    moreover have "rne y \<le> \<lfloor>y\<rfloor> + 1" by (simp add: rne_def Let_def)
    ultimately show ?thesis by simp
  qed
qed

lemma rne_nonpos: "y \<le> 0 \<Longrightarrow> rne y \<le> 0"
  using rne_le_int [of y 0] by simp

lemma round_f32_le_one:
  assumes "q \<le> 1" shows "round_f32 q \<le> 1"
proof (cases "q \<le> 0")
  case True
  let ?u = "pow2 (f32_exp q - 23)"
  have u: "0 < ?u" by (rule pow2_pos)
  with True have "q / ?u \<le> 0" by (simp add: divide_nonpos_pos)
  then have "rne (q / ?u) \<le> 0" by (rule rne_nonpos)
  then have "(of_int (rne (q / ?u)) :: rat) \<le> 0" by simp
  with u have "of_int (rne (q / ?u)) * ?u \<le> 0" by (simp add: mult_nonpos_nonneg)
  then show ?thesis by (simp add: round_f32_def Let_def)
next
  case False
  then have pos: "0 < q" by simp
  let ?e = "f32_exp q"
  let ?u = "pow2 (?e - 23)"
  have u: "0 < ?u" by (rule pow2_pos)
  from pos have abs: "\<bar>q\<bar> = q" by simp
  have "q < pow2 (int 253 - 126 + 1)" using assms by (simp add: pow2_def)
  from find_exp_upper [OF this] have up: "q < pow2 (?e + 1)"
    by (simp add: f32_exp_def abs)
  show ?thesis
  proof (cases "?e \<le> - 1")
    case True
    have "pow2 (?e + 1) = of_int (2 ^ 24) * ?u"
      by (rule pow2_binade_top)
    with up u have "q / ?u \<le> of_int (2 ^ 24)"
      by (simp add: field_simps)
    then have "rne (q / ?u) \<le> 2 ^ 24" by (rule rne_le_int)
    then have "(of_int (rne (q / ?u)) :: rat) \<le> of_int (2 ^ 24)"
      by (simp only: of_int_le_iff)
    with u have "of_int (rne (q / ?u)) * ?u \<le> of_int (2 ^ 24) * ?u"
      by (simp only: mult_le_cancel_right_pos)
    also have "\<dots> = pow2 (?e + 1)" by (rule pow2_binade_top [symmetric])
    also from True have "\<dots> \<le> pow2 0"
      by (simp add: pow2_le_iff)
    finally show ?thesis by (simp add: round_f32_def Let_def pow2_def)
  next
    case False
    then have "0 \<le> ?e" by simp
    moreover have "?e = - 126 \<or> pow2 ?e \<le> q"
    proof -
      have "find_exp n q = - 126 \<or> pow2 (find_exp n q) \<le> q" for n
        by (induction n) auto
      then show ?thesis by (simp add: f32_exp_def abs)
    qed
    ultimately have "pow2 ?e \<le> q" by auto
    moreover from \<open>0 \<le> ?e\<close> have "pow2 0 \<le> pow2 ?e"
      by (simp only: pow2_le_iff)
    ultimately have "1 \<le> q" by (simp add: pow2_def)
    with assms have "q = 1" by simp
    moreover have "round_f32 1 = 1"
      by (subst round_f32_eq [of 0]) (simp_all add: pow2_def rne_def Let_def)
    ultimately show ?thesis by simp
  qed
qed

lemma score_fraction_nonneg:
  assumes "0 \<le> c"
  shows "0 \<le> fdiv (u32_to_f32 score) (f32_lit c)"
proof -
  have "0 \<le> u32_to_f32 score"
    unfolding u32_to_f32_def by (rule round_f32_nonneg) (rule of_nat_0_le_iff)
  moreover from assms have "0 \<le> f32_lit c"
    unfolding f32_lit_def by (rule round_f32_nonneg)
  ultimately show ?thesis
    unfolding fdiv_def by (intro round_f32_nonneg divide_nonneg_nonneg)
qed

lemma new_profile_in_range: "scores_in_range (new_profile e t)"
  unfolding scores_in_range_def new_profile_simps f32_lit_07 f32_lit_02 f32_lit_08
  by simp

lemma update_profile_metrics_in_range:
  assumes "scores_in_range p"
  shows "scores_in_range (update_profile_metrics p ev)"
proof -
  let ?x = "\<lambda>c. fdiv (u32_to_f32 (ev_threat_score ev)) (f32_lit c)"
  have x: "0 \<le> ?x 1000" "0 \<le> ?x 500" "0 \<le> ?x 200"
    by (simp_all add: score_fraction_nonneg)
  from assms have r: "0 \<le> risk_score p" and t: "trust_score p \<le> 1"
    and b: "behavior_score p \<le> 1"
    by (simp_all add: scores_in_range_def)
  from r x(1) have "0 \<le> fadd (risk_score p) (?x 1000)"
    unfolding fadd_def by (intro round_f32_nonneg) simp
  moreover from t x(2) have "fsub (trust_score p) (?x 500) \<le> 1"
    unfolding fsub_def by (intro round_f32_le_one) simp
  moreover from b x(3) have "fsub (behavior_score p) (?x 200) \<le> 1"
    unfolding fsub_def by (intro round_f32_le_one) simp
  ultimately show ?thesis
    by (simp add: scores_in_range_def update_profile_metrics_def Let_def)
qed

lemma learning_update_profile_in_range:
  assumes "scores_in_range p"
  shows "scores_in_range (learning_update_profile now p)"
proof (cases "anomaly_count p = 0 \<and> trust_score p < f32_lit (8 / 10)")
  case True
  from assms have t: "0 \<le> trust_score p" and r: "risk_score p \<le> 1"
    and b: "0 \<le> behavior_score p" "behavior_score p \<le> 1"
    by (simp_all add: scores_in_range_def)
  from True have "trust_score p < 13421773 / 16777216" unfolding f32_lit_08 by simp
  then have "trust_score p + f32_lit (1 / 100) \<le> 1" unfolding f32_lit_001 by simp
  then have "fadd (trust_score p) (f32_lit (1 / 100)) \<le> 1"
    unfolding fadd_def by (rule round_f32_le_one)
  moreover from t have "0 \<le> fadd (trust_score p) (f32_lit (1 / 100))"
    unfolding fadd_def f32_lit_001 by (intro round_f32_nonneg) simp
  moreover from r have "fsub (risk_score p) (f32_lit (5 / 1000)) \<le> 1"
    unfolding fsub_def f32_lit_0005 by (intro round_f32_le_one) simp
  ultimately show ?thesis using True b
    by (simp add: scores_in_range_def learning_update_profile_def)
next
  case False
  with assms show ?thesis
    by (auto simp: scores_in_range_def learning_update_profile_def)
qed

text \<open>How each function changes the profiles.\<close>

lemma profiles_of_cong:
  "ai_sec_mgr s' = ai_sec_mgr s \<Longrightarrow> profiles_of s' = profiles_of s"
  by (simp add: profiles_of_def)

lemma create_profile_profiles:
  assumes "ai_security_create_profile e s t = Inr s'"
  shows "profiles_of s' = profiles_of s \<or> profiles_of s' = profiles_of s @ [new_profile e t]"
  using assms
  by (auto simp: ai_security_create_profile_def profiles_of_def
      split: option.splits if_splits)

lemma analyze_event_profiles:
  assumes "ai_security_analyze_event s ev = Inr (ev', s')"
  shows "profiles_of s' = profiles_of s \<or>
     (\<exists>i<length (profiles_of s). profiles_of s' =
        (profiles_of s)[i := update_profile_metrics (profiles_of s ! i) ev'])"
proof -
  from assms obtain m where m: "ai_sec_mgr s = Some m"
    by (auto simp: ai_security_analyze_event_def split: option.splits)
  show ?thesis
  proof (cases "ai_security_profile_lookup (process_profiles m) (ev_pid ev)")
    case None
    with assms m have "s' = s"
      by (auto simp: ai_security_analyze_event_def ai_security_get_profile_def)
    then show ?thesis by simp
  next
    case (Some i)
    from profile_lookup_Some [OF Some] have i: "i < length (profiles_of s)"
      by (simp add: profiles_of_def m)
    from assms m Some have "profiles_of s' =
        (profiles_of s)[i := update_profile_metrics (profiles_of s ! i) ev']"
      by (auto simp: ai_security_analyze_event_def ai_security_get_profile_def profiles_of_def
          Let_def split: sum.splits)
    with i show ?thesis by blast
  qed
qed

lemma make_decision_profiles:
  assumes "ai_security_make_decision s ev = Inr (deny, ev', s')"
  shows "profiles_of s' = profiles_of s \<or>
     (\<exists>i<length (profiles_of s). profiles_of s' =
        (profiles_of s)[i := update_profile_metrics (profiles_of s ! i) ev'])"
proof -
  from assms obtain s1 m1 where
    a: "ai_security_analyze_event s ev = Inr (ev', s1) \<or> (s1 = s \<and> ev' = ev)"
    and m1: "ai_sec_mgr s1 = Some m1"
    and s': "s' = s1\<lparr>ai_sec_mgr := Some (update_statistics deny ev' m1)\<rparr>"
    by (rule make_decision_cases)
  from m1 s' have "profiles_of s' = profiles_of s1"
    by (simp add: profiles_of_def update_statistics_def)
  with a analyze_event_profiles [of s ev ev' s1] show ?thesis by auto
qed

lemma add_to_recent_events_profiles:
  "add_to_recent_events limit ev s = Inr s' \<Longrightarrow> profiles_of s' = profiles_of s"
  by (auto simp: add_to_recent_events_def profiles_of_def split: if_splits option.splits)

lemma update_preserves:
  assumes all: "\<forall>p\<in>set ps. P p" and upd: "\<And>p ev. P p \<Longrightarrow> P (update_profile_metrics p ev)"
    and step: "ps' = ps \<or> (\<exists>i<length ps. ps' = ps[i := update_profile_metrics (ps ! i) ev])"
  shows "\<forall>p\<in>set ps'. P p"
proof -
  from step show ?thesis
  proof
    assume "ps' = ps" with all show ?thesis by simp
  next
    assume "\<exists>i<length ps. ps' = ps[i := update_profile_metrics (ps ! i) ev]"
    then obtain i where i: "i < length ps"
      and ps': "ps' = ps[i := update_profile_metrics (ps ! i) ev]" by blast
    from i all have "P (ps ! i)" by simp
    then have "P (update_profile_metrics (ps ! i) ev)" by (rule upd)
    with all show ?thesis
      unfolding ps' using set_update_subset_insert [of ps i] by blast
  qed
qed

lemma file_permission_event_profiles:
  assumes "file_permission_event e s t f = Inl s' \<or> file_permission_event e s t f = Inr (ev, s')"
  shows "profiles_of s' = profiles_of s \<or> profiles_of s' = profiles_of s @ [new_profile e t]"
proof -
  define s0 where "s0 = (case ai_security_get_profile s (task_pid t) of
                              Some i \<Rightarrow> s
                            | None \<Rightarrow>
                                (case ai_security_create_profile e s t of
                                   Inl err \<Rightarrow> s
                                 | Inr s' \<Rightarrow> s'))"
  have s0: "profiles_of s0 = profiles_of s \<or> profiles_of s0 = profiles_of s @ [new_profile e t]"
    unfolding s0_def using create_profile_profiles [of e s t]
    by (auto split: option.splits sum.splits)
  from assms have "s' = s \<or> ai_sec_mgr s' = ai_sec_mgr s0"
    unfolding file_permission_event_def Let_def s0_def [symmetric]
    by (auto simp: ai_security_create_event_def split: option.splits if_splits sum.splits)
  with s0 show ?thesis
    by (auto dest: profiles_of_cong)
qed

lemma task_event_profiles:
  "task_create_event e s t = Inl s' \<or> task_create_event e s t = Inr (ev, s')
     \<Longrightarrow> profiles_of s' = profiles_of s"
  "task_fix_setuid_event e s t new_uid old_uid = Inl s' \<or>
   task_fix_setuid_event e s t new_uid old_uid = Inr (ev, s')
     \<Longrightarrow> profiles_of s' = profiles_of s"
  by (auto simp: task_create_event_def task_fix_setuid_event_def ai_security_create_event_def
      profiles_of_def split: option.splits if_splits)

lemma file_permission_preserves:
  assumes new: "\<And>e t. P (new_profile e t)"
    and upd: "\<And>p ev. P p \<Longrightarrow> P (update_profile_metrics p ev)"
    and all: "\<forall>p\<in>set (profiles_of s). P p"
  shows "\<forall>p\<in>set (profiles_of (snd (ai_security_file_permission e s t f))). P p"
proof (cases "file_permission_event e s t f")
  case (Inl s')
  from file_permission_event_profiles [of e s t f s'] Inl all new
  have "\<forall>p\<in>set (profiles_of s'). P p" by auto
  with Inl show ?thesis by (simp add: ai_security_file_permission_def)
next
  case (Inr r)
  obtain ev s2 where r: "r = (ev, s2)" by (cases r)
  from file_permission_event_profiles [of e s t f s2 ev] Inr r all new
  have s2: "\<forall>p\<in>set (profiles_of s2). P p" by auto
  show ?thesis
  proof (cases "ai_security_make_decision s2 ev")
    case (Inl err)
    with \<open>file_permission_event e s t f = Inr r\<close> r s2 show ?thesis
      by (simp add: ai_security_file_permission_def)
  next
    case (Inr d)
    obtain deny ev' s3 where d: "d = (deny, ev', s3)" by (cases d)
    from update_preserves [OF s2 upd make_decision_profiles [OF Inr [unfolded d]]]
    have s3: "\<forall>p\<in>set (profiles_of s3). P p" .
    with \<open>file_permission_event e s t f = Inr r\<close> r Inr d
      add_to_recent_events_profiles [of 20 ev' s3]
    show ?thesis
      by (auto simp: ai_security_file_permission_def split: sum.splits)
  qed
qed

lemma task_create_preserves:
  assumes upd: "\<And>p ev. P p \<Longrightarrow> P (update_profile_metrics p ev)"
    and all: "\<forall>p\<in>set (profiles_of s). P p"
  shows "\<forall>p\<in>set (profiles_of (snd (ai_security_task_create e s t))). P p"
proof (cases "task_create_event e s t")
  case (Inl s')
  with task_event_profiles(1) [of e s t s'] all show ?thesis
    by (simp add: ai_security_task_create_def)
next
  case (Inr r)
  obtain ev s1 where r: "r = (ev, s1)" by (cases r)
  from task_event_profiles(1) [of e s t s1 ev] Inr r all
  have s1: "\<forall>p\<in>set (profiles_of s1). P p" by simp
  show ?thesis
  proof (cases "ai_security_analyze_event s1 ev")
    case (Inl err)
    with \<open>task_create_event e s t = Inr r\<close> r s1 show ?thesis
      by (cases err) (simp_all add: ai_security_task_create_def)
  next
    case (Inr a)
    obtain ev' s2 where a: "a = (ev', s2)" by (cases a)
    from update_preserves [OF s1 upd analyze_event_profiles [OF Inr [unfolded a]]]
    have "\<forall>p\<in>set (profiles_of s2). P p" .
    with \<open>task_create_event e s t = Inr r\<close> r Inr a show ?thesis
      by (simp add: ai_security_task_create_def)
  qed
qed

lemma task_fix_setuid_preserves:
  assumes upd: "\<And>p ev. P p \<Longrightarrow> P (update_profile_metrics p ev)"
    and all: "\<forall>p\<in>set (profiles_of s). P p"
  shows "\<forall>p\<in>set (profiles_of (snd (ai_security_task_fix_setuid e s t new_uid old_uid))). P p"
proof (cases "task_fix_setuid_event e s t new_uid old_uid")
  case (Inl s')
  with task_event_profiles(2) [of e s t new_uid old_uid s'] all
  show ?thesis by (simp add: ai_security_task_fix_setuid_def)
next
  case (Inr r)
  obtain ev s1 where r: "r = (ev, s1)" by (cases r)
  from task_event_profiles(2) [of e s t new_uid old_uid s1 ev] Inr r all
  have s1: "\<forall>p\<in>set (profiles_of s1). P p" by simp
  show ?thesis
  proof (cases "ai_security_make_decision s1 ev")
    case (Inl err)
    with \<open>task_fix_setuid_event e s t new_uid old_uid = Inr r\<close> r s1 show ?thesis
      by (simp add: ai_security_task_fix_setuid_def)
  next
    case (Inr d)
    obtain deny ev' s2 where d: "d = (deny, ev', s2)" by (cases d)
    from update_preserves [OF s1 upd make_decision_profiles [OF Inr [unfolded d]]]
    have s2: "\<forall>p\<in>set (profiles_of s2). P p" .
    with \<open>task_fix_setuid_event e s t new_uid old_uid = Inr r\<close> r Inr d
      add_to_recent_events_profiles [of 30 ev' s2]
    show ?thesis
      by (auto simp: ai_security_task_fix_setuid_def split: sum.splits)
  qed
qed

text \<open>
  An action of a profile creation keeps a property of the profiles in the store and of
  the profiles allocated and not yet inserted.
\<close>

lemma create_profile_step_preserves:
  assumes new: "\<And>e t. P (new_profile e t)"
    and all: "\<forall>p\<in>set (profiles_of s). P p"
    and pend: "\<forall>p\<in>set (pending_profile c). P p"
  shows "(\<forall>p\<in>set (profiles_of (fst (create_profile_step s c))). P p) \<and>
     (\<forall>p\<in>set (pending_profile (snd (create_profile_step s c))). P p)"
  using all pend
  by (cases c) (auto simp: create_profile_step_def profiles_of_def new split: option.splits)

text \<open>
  A property that holds of a new profile and is kept by the update after an event and by
  the learning pass holds of every profile of every reachable state, whatever the
  interleaving of the profile creations.
\<close>

lemma reachable_profiles_pending:
  assumes new: "\<And>e t. P (new_profile e t)"
    and upd: "\<And>p ev. P p \<Longrightarrow> P (update_profile_metrics p ev)"
    and learn: "\<And>now p. P p \<Longrightarrow> P (learning_update_profile now p)"
  shows "reachable s cs \<Longrightarrow>
     (\<forall>p\<in>set (profiles_of s). P p) \<and> (\<forall>c\<in>set cs. \<forall>p\<in>set (pending_profile c). P p)"
proof (induction rule: reachable.induct)
  case (init threshold auto_response learning)
  show ?case by (simp add: profiles_of_def ai_security_init_def)
next
  case (file_permission s cs e t f)
  with file_permission_preserves [of P s e t f] new upd show ?case by blast
next
  case (task_create s cs e t)
  with task_create_preserves [of P s e t] upd show ?case by blast
next
  case (task_fix_setuid s cs e t new_uid old_uid)
  with task_fix_setuid_preserves [of P s e t new_uid old_uid] upd show ?case by blast
next
  case (learning_work s cs e)
  then show ?case
    by (auto simp: ai_security_learning_work_def profiles_of_def Let_def learn
        split: option.splits)
next
  case (set_parameters s cs threshold auto_response learning)
  then show ?case by (simp add: profiles_of_def)
next
  case (create_profile_enter s cs e t)
  then show ?case by simp
next
  case (create_profile_action s cs i)
  from create_profile_action.IH create_profile_action.hyps(2)
  have all: "\<forall>p\<in>set (profiles_of s). P p"
    and pend: "\<forall>p\<in>set (pending_profile (cs ! i)). P p"
    using nth_mem [of i cs] by blast+
  note step = create_profile_step_preserves [of P s "cs ! i", OF new all pend]
  have "set (cs[i := snd (create_profile_step s (cs ! i))])
      \<subseteq> insert (snd (create_profile_step s (cs ! i))) (set cs)"
    by (rule set_update_subset_insert)
  with step create_profile_action.IH show ?case by blast
qed

lemma reachable_profiles:
  assumes new: "\<And>e t. P (new_profile e t)"
    and upd: "\<And>p ev. P p \<Longrightarrow> P (update_profile_metrics p ev)"
    and learn: "\<And>now p. P p \<Longrightarrow> P (learning_update_profile now p)"
  shows "reachable s cs \<Longrightarrow> \<forall>p\<in>set (profiles_of s). P p"
  using reachable_profiles_pending [of P s cs, OF new upd learn] by blast

lemma reachable_scores_in_range:
  "reachable s cs \<Longrightarrow> \<forall>p\<in>set (profiles_of s). scores_in_range p"
  by (rule reachable_profiles)
     (simp_all add: new_profile_in_range update_profile_metrics_in_range
        learning_update_profile_in_range)

lemma rne_of_int [simp]: "rne (of_int k) = k"
  by (simp add: rne_def Let_def)

lemma rne_ge_int:
  assumes "of_int n \<le> y" shows "n \<le> rne y"
proof -
  have "n \<le> \<lfloor>y\<rfloor>" using assms by (simp add: le_floor_iff)
  moreover have "\<lfloor>y\<rfloor> \<le> rne y" by (simp add: rne_def Let_def)
  ultimately show ?thesis by simp
qed

lemma find_exp_lower: "find_exp n q = - 126 \<or> pow2 (find_exp n q) \<le> q"
  by (induction n) auto

lemma find_exp_upper': "find_exp n q = int n - 126 \<or> q < pow2 (find_exp n q + 1)"
proof (induction n)
  case 0
  show ?case by simp
next
  case (Suc n)
  show ?case
  proof (cases "pow2 (int (Suc n) - 126) \<le> q")
    case True
    then show ?thesis by simp
  next
    case False
    then have lt: "q < pow2 (int n - 126 + 1)" by (simp add: add.commute)
    from Suc show ?thesis
    proof
      assume "find_exp n q = int n - 126"
      with lt False show ?thesis by simp
    next
      assume "q < pow2 (find_exp n q + 1)"
      with False show ?thesis by simp
    qed
  qed
qed

lemma find_exp_top: "pow2 (int n - 126) \<le> q \<Longrightarrow> find_exp n q = int n - 126"
  by (cases n) simp_all

lemma round_f32_grid:
  assumes e: "- 126 \<le> e" "e \<le> 127"
    and k: "0 \<le> k" "k < 2 ^ 24" and norm: "2 ^ 23 \<le> k \<or> e = - 126"
  shows "round_f32 (of_int k * pow2 (e - 23)) = of_int k * pow2 (e - 23)"
proof -
  let ?u = "pow2 (e - 23)"
  let ?r = "of_int k * ?u :: rat"
  have u: "0 < ?u" by (rule pow2_pos)
  from k(1) u have r0: "0 \<le> ?r" by simp
  have top: "pow2 (e + 1) = of_int (2 ^ 24) * ?u" by (rule pow2_binade_top)
  have bot: "pow2 e = of_int (2 ^ 23) * ?u"
  proof -
    have "e = 23 + (e - 23)" by simp
    then have "pow2 e = pow2 (23 + (e - 23))" by (simp only:)
    also have "\<dots> = pow2 23 * pow2 (e - 23)" by (rule pow2_add)
    finally show ?thesis by (simp add: pow2_def)
  qed
  from k(2) have "(of_int k :: rat) < of_int (2 ^ 24)" by (simp only: of_int_less_iff)
  with u have hi: "?r < pow2 (e + 1)" unfolding top by (simp only: mult_less_cancel_right_pos)
  have "f32_exp ?r = e"
  proof (cases "2 ^ 23 \<le> k")
    case True
    then have "(of_int (2 ^ 23) :: rat) \<le> of_int k" by (simp only: of_int_le_iff)
    with u have "pow2 e \<le> ?r" unfolding bot by (simp only: mult_le_cancel_right_pos)
    with hi r0 e show ?thesis by (intro f32_exp_eq) simp_all
  next
    case False
    with norm have e126: "e = - 126" by simp
    from False have "k < 2 ^ 23" by simp
    then have "(of_int k :: rat) < of_int (2 ^ 23)" by (simp only: of_int_less_iff)
    with u have "?r < pow2 e" unfolding bot by (simp only: mult_less_cancel_right_pos)
    with r0 e126 show ?thesis by (simp add: f32_exp_def find_exp_subnormal)
  qed
  with u show ?thesis by (simp add: round_f32_def Let_def)
qed

lemma round_f32_pow2:
  assumes "- 126 \<le> a" "a \<le> 127"
  shows "round_f32 (pow2 a) = pow2 a"
proof -
  have "pow2 a = of_int (2 ^ 23) * pow2 (a - 23)"
  proof -
    have "a = 23 + (a - 23)" by simp
    then have "pow2 a = pow2 (23 + (a - 23))" by (simp only:)
    also have "\<dots> = pow2 23 * pow2 (a - 23)" by (rule pow2_add)
    finally show ?thesis by (simp add: pow2_def)
  qed
  moreover have "round_f32 (of_int (2 ^ 23) * pow2 (a - 23)) = of_int (2 ^ 23) * pow2 (a - 23)"
    using assms by (intro round_f32_grid) simp_all
  ultimately show ?thesis by simp
qed

lemma round_f32_idem:
  assumes "0 \<le> q"
  shows "round_f32 (round_f32 q) = round_f32 q"
proof -
  let ?e = "f32_exp q"
  let ?u = "pow2 (?e - 23)"
  let ?k = "rne (q / ?u)"
  have u: "0 < ?u" by (rule pow2_pos)
  from assms have abs: "\<bar>q\<bar> = q" by simp
  have r: "round_f32 q = of_int ?k * ?u" by (simp add: round_f32_def Let_def)
  have e: "- 126 \<le> ?e" "?e \<le> 127"
    using find_exp_range [of 253 q] by (simp_all add: f32_exp_def abs)
  from assms u have "0 \<le> q / ?u" by simp
  then have k0: "0 \<le> ?k" by (rule rne_nonneg)
  have bot: "pow2 ?e = of_int (2 ^ 23) * ?u"
  proof -
    have "?e = 23 + (?e - 23)" by simp
    then have "pow2 ?e = pow2 (23 + (?e - 23))" by (simp only:)
    also have "\<dots> = pow2 23 * pow2 (?e - 23)" by (rule pow2_add)
    finally show ?thesis by (simp add: pow2_def)
  qed
  have norm: "2 ^ 23 \<le> ?k \<or> ?e = - 126"
  proof (cases "?e = - 126")
    case False
    with find_exp_lower [of 253 q] have "pow2 ?e \<le> q" by (simp add: f32_exp_def abs)
    with u have "of_int (2 ^ 23) \<le> q / ?u" unfolding bot by (simp add: field_simps)
    then show ?thesis using rne_ge_int by blast
  qed simp
  show ?thesis
  proof (cases "?e = 127")
    case True
    with norm have k: "2 ^ 23 \<le> ?k" by simp
    then have "(of_int (2 ^ 23) :: rat) \<le> of_int ?k" by (simp only: of_int_le_iff)
    with u have "pow2 ?e \<le> of_int ?k * ?u" unfolding bot by (simp only: mult_le_cancel_right_pos)
    with True have "pow2 (int 253 - 126) \<le> of_int ?k * ?u" by simp
    from find_exp_top [OF this]
    have top: "find_exp 253 (of_int ?k * ?u) = int 253 - 126" .
    from k0 u have "0 \<le> of_int ?k * ?u" by simp
    then have "f32_exp (of_int ?k * ?u) = find_exp 253 (of_int ?k * ?u)"
      by (simp only: f32_exp_def abs_of_nonneg)
    also note top
    also from True have "int 253 - 126 = ?e" by simp
    finally have "f32_exp (of_int ?k * ?u) = ?e" .
    then show ?thesis unfolding r using u by (simp add: round_f32_def Let_def)
  next
    case False
    with find_exp_upper' [of 253 q] have "q < pow2 (?e + 1)" by (simp add: f32_exp_def abs)
    with u have "q / ?u \<le> of_int (2 ^ 24)"
      unfolding pow2_binade_top [of ?e] by (simp add: field_simps)
    then have k24: "?k \<le> 2 ^ 24" by (rule rne_le_int)
    show ?thesis
    proof (cases "?k = 2 ^ 24")
      case True
      then have "of_int ?k * ?u = pow2 (?e + 1)"
        unfolding pow2_binade_top [of ?e] by simp
      moreover from e False have "round_f32 (pow2 (?e + 1)) = pow2 (?e + 1)"
        by (intro round_f32_pow2) simp_all
      ultimately show ?thesis unfolding r by simp
    next
      case False
      with k24 have "?k < 2 ^ 24" by simp
      from round_f32_grid [OF e k0 this norm] show ?thesis unfolding r .
    qed
  qed
qed

lemma is_f32_round: "0 \<le> q \<Longrightarrow> is_f32 (round_f32 q)"
  by (simp add: is_f32_def round_f32_idem)

lemma round_f32_nonpos: "q \<le> 0 \<Longrightarrow> round_f32 q \<le> 0"
proof -
  assume q: "q \<le> 0"
  let ?u = "pow2 (f32_exp q - 23)"
  have u: "0 < ?u" by (rule pow2_pos)
  with q have "q / ?u \<le> 0" by (simp add: divide_nonpos_pos)
  then have "rne (q / ?u) \<le> 0" by (rule rne_nonpos)
  then have "(of_int (rne (q / ?u)) :: rat) \<le> 0" by simp
  with u have "of_int (rne (q / ?u)) * ?u \<le> 0" by (simp add: mult_nonpos_nonneg)
  then show ?thesis by (simp add: round_f32_def Let_def)
qed

lemma is_f32_0: "is_f32 0"
  using is_f32_round [of 0] round_f32_nonneg [of 0] round_f32_nonpos [of 0]
  by (simp add: is_f32_def)

lemma is_f32_1: "is_f32 1"
  using round_f32_pow2 [of 0] by (simp add: is_f32_def pow2_def)

lemma is_f32_max_0: "is_f32 (max 0 (round_f32 q))"
proof (cases "0 \<le> q")
  case True
  then show ?thesis
    using round_f32_nonneg [OF True] by (simp add: max_def is_f32_round is_f32_0)
next
  case False
  then have "round_f32 q \<le> 0" by (intro round_f32_nonpos) simp
  then show ?thesis by (simp add: max_def is_f32_0)
qed

lemma is_f32_min_1: "0 \<le> q \<Longrightarrow> is_f32 (min 1 (round_f32 q))"
  by (simp add: min_def is_f32_round is_f32_1)

lemma new_profile_float_scores: "float_scores (new_profile e t)"
  unfolding float_scores_def new_profile_simps f32_lit_def
  by (simp add: is_f32_round)

lemma update_profile_metrics_float_scores:
  assumes "scores_in_range p"
  shows "float_scores (update_profile_metrics p ev)"
proof -
  from assms have "0 \<le> risk_score p" by (simp add: scores_in_range_def)
  with score_fraction_nonneg [of 1000 "ev_threat_score ev"]
  have "0 \<le> risk_score p + fdiv (u32_to_f32 (ev_threat_score ev)) (f32_lit 1000)"
    by simp
  then have "is_f32 (min 1 (fadd (risk_score p)
      (fdiv (u32_to_f32 (ev_threat_score ev)) (f32_lit 1000))))"
    unfolding fadd_def by (rule is_f32_min_1)
  then show ?thesis
    unfolding float_scores_def update_profile_metrics_def Let_def
    by (simp add: fsub_def is_f32_max_0)
qed

lemma learning_update_profile_float_scores:
  assumes "scores_in_range p" "float_scores p"
  shows "float_scores (learning_update_profile now p)"
proof -
  from assms(1) have "0 \<le> trust_score p + f32_lit (1 / 100)"
    unfolding f32_lit_001 by (simp add: scores_in_range_def)
  then have "is_f32 (fadd (trust_score p) (f32_lit (1 / 100)))"
    unfolding fadd_def by (rule is_f32_round)
  with assms(2) show ?thesis
    unfolding float_scores_def learning_update_profile_def
    by (simp add: fsub_def is_f32_max_0)
qed

lemma reachable_scores_well_formed:
  assumes "reachable s cs" and "p \<in> set (profiles_of s)"
  shows "scores_in_range p" and "float_scores p"
proof -
  have "\<forall>p\<in>set (profiles_of s). scores_in_range p \<and> float_scores p"
    using assms(1)
    by (rule reachable_profiles [rotated -1])
       (simp_all add: new_profile_in_range update_profile_metrics_in_range
          learning_update_profile_in_range new_profile_float_scores
          update_profile_metrics_float_scores learning_update_profile_float_scores)
  with assms(2) show "scores_in_range p" and "float_scores p" by simp_all
qed

subsection \<open>The bound of the trust score\<close>

text \<open>
  Rounding is monotone against a float: a sum or difference that is at most a float is
  rounded to at most that float.
\<close>

lemma f32_exp_lower: "0 \<le> q \<Longrightarrow> f32_exp q = - 126 \<or> pow2 (f32_exp q) \<le> q"
  using find_exp_lower [of 253 "\<bar>q\<bar>"] by (simp add: f32_exp_def)

lemma f32_exp_upper: "0 \<le> q \<Longrightarrow> f32_exp q = 127 \<or> q < pow2 (f32_exp q + 1)"
  using find_exp_upper' [of 253 "\<bar>q\<bar>"] by (simp add: f32_exp_def)

lemma round_f32_binade_top:
  assumes "q < pow2 (f32_exp q + 1)"
  shows "round_f32 q \<le> pow2 (f32_exp q + 1)"
proof -
  let ?u = "pow2 (f32_exp q - 23)"
  have u: "0 < ?u" by (rule pow2_pos)
  from assms u have "q / ?u \<le> of_int (2 ^ 24)"
    unfolding pow2_binade_top [of "f32_exp q"] by (simp add: field_simps)
  then have "rne (q / ?u) \<le> 2 ^ 24" by (rule rne_le_int)
  then have "(of_int (rne (q / ?u)) :: rat) \<le> of_int (2 ^ 24)"
    by (simp only: of_int_le_iff)
  with u have "of_int (rne (q / ?u)) * ?u \<le> of_int (2 ^ 24) * ?u"
    by (simp only: mult_le_cancel_right_pos)
  then show ?thesis
    unfolding pow2_binade_top [of "f32_exp q"] by (simp add: round_f32_def Let_def)
qed

lemma round_f32_le_float:
  assumes le: "q \<le> b" and b: "is_f32 b" and b0: "0 \<le> b"
  shows "round_f32 q \<le> b"
proof (cases "q \<le> 0")
  case True
  with round_f32_nonpos [of q] b0 show ?thesis by simp
next
  case False
  then have q0: "0 \<le> q" by simp
  let ?e = "f32_exp q" and ?eb = "f32_exp b"
  consider "?e = ?eb" | "?e < ?eb" | "?eb < ?e" by linarith
  then show ?thesis
  proof cases
    case 1
    let ?u = "pow2 (?e - 23)"
    have u: "0 < ?u" by (rule pow2_pos)
    from b 1 have bk: "of_int (rne (b / ?u)) * ?u = b"
      by (simp add: is_f32_def round_f32_def Let_def)
    with u have "b / ?u = of_int (rne (b / ?u))" by (simp add: field_simps)
    moreover from le u have "q / ?u \<le> b / ?u" by (simp add: divide_right_mono)
    ultimately have "q / ?u \<le> of_int (rne (b / ?u))" by simp
    then have "rne (q / ?u) \<le> rne (b / ?u)" by (rule rne_le_int)
    then have "(of_int (rne (q / ?u)) :: rat) \<le> of_int (rne (b / ?u))"
      by (simp only: of_int_le_iff)
    with u have "of_int (rne (q / ?u)) * ?u \<le> of_int (rne (b / ?u)) * ?u"
      by (simp only: mult_le_cancel_right_pos)
    with bk show ?thesis by (simp add: round_f32_def Let_def)
  next
    case 2
    from find_exp_range [of 253 "\<bar>b\<bar>"] have "?eb \<le> 127" by (simp add: f32_exp_def)
    with 2 f32_exp_upper [OF q0] have "q < pow2 (?e + 1)" by simp
    then have "round_f32 q \<le> pow2 (?e + 1)" by (rule round_f32_binade_top)
    also from 2 have "\<dots> \<le> pow2 ?eb" by (simp add: pow2_le_iff)
    also have "\<dots> \<le> b"
    proof -
      from find_exp_range [of 253 "\<bar>q\<bar>"] have "- 126 \<le> ?e" by (simp add: f32_exp_def)
      with 2 f32_exp_lower [OF b0] show ?thesis by simp
    qed
    finally show ?thesis .
  next
    case 3
    from find_exp_range [of 253 "\<bar>b\<bar>"] have "- 126 \<le> ?eb" by (simp add: f32_exp_def)
    with 3 f32_exp_lower [OF q0] have "pow2 ?e \<le> q" by simp
    moreover from find_exp_range [of 253 "\<bar>q\<bar>"] have "?e \<le> 127" by (simp add: f32_exp_def)
    with 3 f32_exp_upper [OF b0] have "b < pow2 (?eb + 1)" by simp
    moreover from 3 have "pow2 (?eb + 1) \<le> pow2 ?e" by (simp add: pow2_le_iff)
    ultimately show ?thesis using le by simp
  qed
qed

text \<open>
  The learning pass adds \<^verbatim>\<open>0.01f\<close> only to a trust below \<^verbatim>\<open>0.8f\<close>, and the result is
  not clamped. The largest float below \<^verbatim>\<open>0.8f\<close> is \<open>13421772 / 2 ^ 24\<close>, so the result is
  at most \<open>13589544 / 2 ^ 24\<close>, just below 0.81.
\<close>

lemma f32_pred_08:
  assumes f: "is_f32 t" and lt: "t < f32_lit (8 / 10)"
  shows "t \<le> 13421772 / 16777216"
proof (rule ccontr)
  assume "\<not> t \<le> 13421772 / 16777216"
  then have lo: "13421772 / 16777216 < t" by simp
  from lt have hi: "t < 13421773 / 16777216" unfolding f32_lit_08 .
  show False
  proof (rule no_f32_between [OF f, of "- 1" 13421772])
    from lo show "pow2 (- 1) \<le> t" by (simp add: pow2_def)
    from hi show "t < pow2 (- 1 + 1)" by (simp add: pow2_def)
    from lo show "of_int 13421772 < t / pow2 (- 1 - 23)" by (simp add: pow2_def)
    from hi show "t / pow2 (- 1 - 23) < of_int (13421772 + 1)" by (simp add: pow2_def)
  qed simp_all
qed

lemma rne_below_half:
  assumes "of_int n \<le> y" and "y < of_int n + 1 / 2"
  shows "rne y = n"
proof -
  from assms have "\<lfloor>y\<rfloor> = n" by (simp add: floor_unique)
  with assms show ?thesis by (simp add: rne_def Let_def)
qed

lemma is_f32_trust_bound: "is_f32 (13589544 / 16777216)"
proof -
  have "round_f32 (of_int 13589544 * pow2 (- 1 - 23)) = of_int 13589544 * pow2 (- 1 - 23)"
    by (rule round_f32_grid) simp_all
  then show ?thesis by (simp add: is_f32_def pow2_def)
qed

lemma learning_step_bound:
  assumes f: "is_f32 t" and lt: "t < f32_lit (8 / 10)"
  shows "fadd t (f32_lit (1 / 100)) \<le> 13589544 / 16777216"
proof -
  let ?q = "t + 5368709 / 536870912"
  from f32_pred_08 [OF f lt] have t: "t \<le> 13421772 / 16777216" .
  show ?thesis
  proof (cases "?q \<le> 13589544 / 16777216")
    case True
    from True is_f32_trust_bound have "round_f32 ?q \<le> 13589544 / 16777216"
      by (rule round_f32_le_float) simp
    then show ?thesis by (simp add: fadd_def f32_lit_001)
  next
    case False
    then have lo: "13589544 / 16777216 < ?q" by simp
    have "round_f32 ?q = of_int (rne (?q / pow2 (- 1 - 23))) * pow2 (- 1 - 23)"
    proof (rule round_f32_eq)
      from lo show "pow2 (- 1) \<le> \<bar>?q\<bar>" by (simp add: pow2_def)
      from t show "\<bar>?q\<bar> < pow2 (- 1 + 1)" using lo by (simp add: pow2_def)
    qed simp_all
    moreover have "rne (?q / pow2 (- 1 - 23)) = 13589544"
    proof (rule rne_below_half)
      from lo show "of_int 13589544 \<le> ?q / pow2 (- 1 - 23)" by (simp add: pow2_def)
      from t show "?q / pow2 (- 1 - 23) < of_int 13589544 + 1 / 2" by (simp add: pow2_def)
    qed
    ultimately have "round_f32 ?q = 13589544 / 16777216" by (simp add: pow2_def)
    then show ?thesis by (simp add: fadd_def f32_lit_001)
  qed
qed

text \<open>
  In every state the module can reach, the trust of every profile is below 0.81: it
  starts at \<^verbatim>\<open>0.7f\<close>, an event only lowers it, and a learning pass raises it by one step
  from below \<^verbatim>\<open>0.8f\<close>.
\<close>

lemma new_profile_trust_bounded: "trust_bounded (new_profile e t)"
  unfolding trust_bounded_def new_profile_def f32_lit_07 by simp

lemma update_profile_metrics_trust_bounded:
  assumes "trust_bounded p"
  shows "trust_bounded (update_profile_metrics p ev)"
proof -
  let ?d = "fdiv (u32_to_f32 (ev_threat_score ev)) (f32_lit 500)"
  from assms score_fraction_nonneg [of 500 "ev_threat_score ev"]
  have "trust_score p - ?d \<le> 13589544 / 16777216" by (simp add: trust_bounded_def)
  from this is_f32_trust_bound have "round_f32 (trust_score p - ?d) \<le> 13589544 / 16777216"
    by (rule round_f32_le_float) simp
  then show ?thesis
    unfolding trust_bounded_def update_profile_metrics_def Let_def by (simp add: fsub_def)
qed

lemma learning_update_profile_trust_bounded:
  assumes "float_scores p" "trust_bounded p"
  shows "trust_bounded (learning_update_profile now p)"
proof (cases "anomaly_count p = 0 \<and> trust_score p < f32_lit (8 / 10)")
  case True
  from assms(1) have "is_f32 (trust_score p)" by (simp add: float_scores_def)
  from learning_step_bound [OF this] True
  have "fadd (trust_score p) (f32_lit (1 / 100)) \<le> 13589544 / 16777216" by simp
  with True show ?thesis by (simp add: trust_bounded_def learning_update_profile_def)
next
  case False
  with assms(2) show ?thesis
    by (auto simp add: trust_bounded_def learning_update_profile_def)
qed

lemma reachable_trust_bounded:
  assumes "reachable s cs" and "p \<in> set (profiles_of s)"
  shows "trust_score p < 81 / 100"
proof -
  have "\<forall>p\<in>set (profiles_of s). scores_in_range p \<and> float_scores p \<and> trust_bounded p"
    using assms(1)
    by (rule reachable_profiles [rotated -1])
       (simp_all add: new_profile_in_range update_profile_metrics_in_range
          learning_update_profile_in_range new_profile_float_scores
          update_profile_metrics_float_scores learning_update_profile_float_scores
          new_profile_trust_bounded update_profile_metrics_trust_bounded
          learning_update_profile_trust_bounded)
  with assms(2) have "trust_score p \<le> 13589544 / 16777216" by (simp add: trust_bounded_def)
  then show ?thesis by simp
qed

end
